(* ===== verification/Prelude.thy ===== *)
theory Prelude
  imports Complex_Main "HOL-Library.Sublist"
begin

text \<open>
  Shared vocabulary of the development: the JavaScript built-ins that the
  dashboard code calls (\<open>String.prototype.includes\<close>, \<open>toLowerCase\<close>,
  \<open>trim\<close>, \<open>Array.prototype.slice\<close>, \<open>Math.round\<close>, \<open>Array.prototype.includes\<close>),
  written as executable HOL functions, with the lemmas the component theories
  share.  A JavaScript string is modelled as a list of \<open>char\<close>, each char one
  UTF-16 code unit below 256 (the Latin-1 range); on that range the case and
  whitespace tables below are exactly those of ECMAScript.
\<close>

named_theorems js_simps \<open>characteristic equations of the modelled JavaScript built-ins\<close>

type_synonym js_string = string

subsection \<open>Characters: case mapping and white space\<close>

text \<open>The code units that \<open>toLowerCase\<close> maps, each to the unit 32 above it.\<close>

definition upper_unit :: "nat \<Rightarrow> bool" where
  "upper_unit n \<longleftrightarrow> (65 \<le> n \<and> n \<le> 90) \<or> (192 \<le> n \<and> n \<le> 214) \<or> (216 \<le> n \<and> n \<le> 222)"

definition to_lower_char :: "char \<Rightarrow> char" where
  "to_lower_char c = (if upper_unit (of_char c) then char_of (of_char c + 32 :: nat) else c)"

definition to_lower :: "js_string \<Rightarrow> js_string" where
  "to_lower s = map to_lower_char s"

definition is_js_space :: "char \<Rightarrow> bool" where
  "is_js_space c =
     (let n = of_char c :: nat in (9 \<le> n \<and> n \<le> 13) \<or> n = 32 \<or> n = 160)"

definition js_trim :: "js_string \<Rightarrow> js_string" where
  "js_trim s = rev (dropWhile is_js_space (rev (dropWhile is_js_space s)))"

subsection \<open>Substring search\<close>

text \<open>\<open>hay.includes(needle)\<close>: the needle occurs at some position of the hay.\<close>

fun str_includes :: "js_string \<Rightarrow> js_string \<Rightarrow> bool" where
  "str_includes [] needle = (needle = [])"
| "str_includes (h # t) needle = (prefix needle (h # t) \<or> str_includes t needle)"

subsection \<open>Array slicing\<close>

text \<open>
  \<open>xs.slice(start, end)\<close> per ECMAScript: a negative bound counts from the end,
  both bounds are clamped to \<open>[0, length]\<close>, and an empty range gives \<open>[]\<close>.
\<close>

definition js_rel_index :: "int \<Rightarrow> int \<Rightarrow> int" where
  "js_rel_index len i = (if i < 0 then max (len + i) 0 else min i len)"

definition js_slice :: "'a list \<Rightarrow> int \<Rightarrow> int \<Rightarrow> 'a list" where
  "js_slice xs s e =
     (let len = int (length xs); k = js_rel_index len s; f = js_rel_index len e
      in take (nat (f - k)) (drop (nat k) xs))"

text \<open>\<open>Math.round\<close> on a finite number: halves round up.\<close>

definition js_round :: "real \<Rightarrow> int" where
  "js_round x = \<lfloor>x + 1 / 2\<rfloor>"

subsection \<open>Lemmas on the built-ins\<close>

lemma of_char_to_lower_char:
  "of_char (to_lower_char c) = (if upper_unit (of_char c) then of_char c + 32 else (of_char c :: nat))"
  by (auto simp: to_lower_char_def upper_unit_def)

lemma upper_unit_shift: "upper_unit n \<Longrightarrow> \<not> upper_unit (n + 32)"
  by (auto simp: upper_unit_def)

lemma to_lower_char_idem [simp]: "to_lower_char (to_lower_char c) = to_lower_char c"
proof (rule of_char_eqI)
  show "of_char (to_lower_char (to_lower_char c)) = (of_char (to_lower_char c) :: nat)"
    by (simp add: of_char_to_lower_char upper_unit_shift)
qed

lemma to_lower_idem [simp, js_simps]: "to_lower (to_lower s) = to_lower s"
  by (simp add: to_lower_def comp_def)

lemma to_lower_Nil [simp, js_simps]: "to_lower [] = []"
  by (simp add: to_lower_def)

lemma length_to_lower [simp]: "length (to_lower s) = length s"
  by (simp add: to_lower_def)

lemma includes_iff_sublist [js_simps]: "str_includes hay needle \<longleftrightarrow> sublist needle hay"
  by (induction hay needle rule: str_includes.induct) (auto simp: sublist_Cons_right)

lemma includes_Nil_needle [simp, js_simps]: "str_includes hay []"
  by (simp add: includes_iff_sublist)

lemma all_set_dropWhile_iff: "(\<forall>x \<in> set (dropWhile P xs). P x) \<longleftrightarrow> (\<forall>x \<in> set xs. P x)"
  by (induction xs) auto

lemma js_trim_Nil_iff [js_simps]: "js_trim s = [] \<longleftrightarrow> (\<forall>c \<in> set s. is_js_space c)"
  by (simp add: js_trim_def all_set_dropWhile_iff)

lemma js_round_iff: "js_round x = k \<longleftrightarrow> of_int k - 1 / 2 \<le> x \<and> x < of_int k + 1 / 2"
  unfolding js_round_def by (auto simp: floor_eq_iff)

lemma js_round_mono: "x \<le> y \<Longrightarrow> js_round x \<le> js_round y"
  unfolding js_round_def by (simp add: floor_mono)

lemma js_slice_nonneg [js_simps]:
  assumes "0 \<le> s" "s \<le> e"
  shows "js_slice xs s e = take (nat e - nat s) (drop (nat s) xs)"
proof (cases "e \<le> int (length xs)")
  case True
  with assms show ?thesis
    by (simp add: js_slice_def js_rel_index_def nat_diff_distrib')
next
  case False
  then have "length xs - nat s \<le> nat e - nat s" by linarith
  with assms False show ?thesis
    by (cases "s \<le> int (length xs)") (simp_all add: js_slice_def js_rel_index_def nat_diff_distrib')
qed

end
