(* ===== verification/Contracts.thy ===== *)
theory Contracts
  imports Prelude
begin

text \<open>
  The contract record as the dashboard receives it from \<open>/contracts.json\<close>, the
  search and facet predicates the code applies to it, and the contract endpoints
  of \<open>src/src/services/api.js\<close> (\<open>contractsApi\<close>).  A fetch is one value of
  \<open>fetch_response\<close>: the request failed, or a response with its \<open>ok\<close> flag and
  the parsed JSON body (\<open>None\<close> when \<open>response.json()\<close> rejects).  Every thrown
  \<open>Error\<close> is an \<open>Inl\<close> carrying its message, as the callers read
  \<open>err.message\<close>.
\<close>

subsection \<open>Data\<close>

record clause =
  title :: js_string
  summary :: js_string
  confidence :: real

record insight =
  insight_risk :: js_string
  message :: js_string

record evidence =
  source :: js_string
  snippet :: js_string
  relevance :: real

text \<open>\<open>status\<close> and \<open>risk\<close> are the JSON strings; the UI offers the values
  \<open>status_values\<close> and \<open>risk_values\<close>, but nothing validates the data.\<close>

record contract =
  contract_id :: js_string
  name :: js_string
  parties :: js_string
  start :: js_string
  expiry :: js_string
  status :: js_string
  risk :: js_string
  clauses :: "clause list"
  insights :: "insight list"
  evidence :: "evidence list"

definition status_values :: "js_string list" where
  "status_values = [''Active'', ''Renewal Due'', ''Expired'']"

definition risk_values :: "js_string list" where
  "risk_values = [''Low'', ''Medium'', ''High'']"

subsection \<open>Predicates shared by the dashboard and the API\<close>

text \<open>\<open>contract.name.toLowerCase().includes(q.toLowerCase()) ||
  contract.parties.toLowerCase().includes(q.toLowerCase())\<close>\<close>

definition search_match :: "js_string \<Rightarrow> contract \<Rightarrow> bool" where
  "search_match q c \<longleftrightarrow>
     str_includes (to_lower (name c)) (to_lower q) \<or> str_includes (to_lower (parties c)) (to_lower q)"

text \<open>\<open>if (sel.length > 0) xs = xs.filter(c => sel.includes(field(c)))\<close>\<close>

definition facet_filter :: "js_string list \<Rightarrow> (contract \<Rightarrow> js_string) \<Rightarrow> contract list \<Rightarrow> contract list" where
  "facet_filter sel field cs = (if sel \<noteq> [] then filter (\<lambda>c. field c \<in> set sel) cs else cs)"

subsection \<open>Endpoints\<close>

datatype 'a fetch_response = Network_failure | Response bool "'a option"

text \<open>The body of each \<open>try\<close>: \<open>fetch\<close>, the \<open>!response.ok\<close> check with its own
  message, \<open>response.json()\<close>.  The messages of a rejected \<open>fetch\<close> and of a
  body that does not parse are the browser's.\<close>

definition fetch_json :: "js_string \<Rightarrow> 'a fetch_response \<Rightarrow> js_string + 'a" where
  "fetch_json not_ok_msg r =
     (case r of
        Network_failure \<Rightarrow> Inl ''Failed to fetch''
      | Response ok body \<Rightarrow>
          if \<not> ok then Inl not_ok_msg
          else (case body of None \<Rightarrow> Inl ''Unexpected token in JSON'' | Some v \<Rightarrow> Inr v))"

text \<open>\<open>catch (error) { throw new Error(msg) }\<close>: every error is replaced.\<close>

definition catch_rethrow :: "js_string \<Rightarrow> js_string + 'a \<Rightarrow> js_string + 'a" where
  "catch_rethrow msg r = (case r of Inl _ \<Rightarrow> Inl msg | Inr v \<Rightarrow> Inr v)"

definition get_contracts :: "contract list fetch_response \<Rightarrow> js_string + contract list" where
  "get_contracts r =
     catch_rethrow ''Failed to load contracts data'' (fetch_json ''Failed to fetch contracts'' r)"

definition get_contract_by_id ::
  "js_string \<Rightarrow> contract list fetch_response \<Rightarrow> js_string + contract" where
  "get_contract_by_id cid r =
     catch_rethrow ''Failed to load contract details''
       (case fetch_json ''Failed to fetch contract'' r of
          Inl e \<Rightarrow> Inl e
        | Inr cs \<Rightarrow>
            (case find (\<lambda>c. contract_id c = cid) cs of
               None \<Rightarrow> Inl ''Contract not found''
             | Some c \<Rightarrow> Inr c))"

definition search_contracts :: "js_string \<Rightarrow> contract list fetch_response \<Rightarrow> js_string + contract list" where
  "search_contracts q r =
     catch_rethrow ''Failed to search contracts''
       (case fetch_json ''Failed to search contracts'' r of
          Inl e \<Rightarrow> Inl e
        | Inr cs \<Rightarrow> Inr (filter (search_match q) cs))"

text \<open>The \<open>filters\<close> argument of \<open>filterContracts\<close>: each facet may be absent.\<close>

record api_filters =
  api_status :: "js_string list option"
  api_risk :: "js_string list option"

definition opt_facet :: "js_string list option \<Rightarrow> (contract \<Rightarrow> js_string) \<Rightarrow> contract list \<Rightarrow> contract list" where
  "opt_facet sel field cs = (case sel of None \<Rightarrow> cs | Some l \<Rightarrow> facet_filter l field cs)"

definition filter_contracts :: "api_filters \<Rightarrow> contract list fetch_response \<Rightarrow> js_string + contract list" where
  "filter_contracts f r =
     catch_rethrow ''Failed to filter contracts''
       (case fetch_json ''Failed to filter contracts'' r of
          Inl e \<Rightarrow> Inl e
        | Inr cs \<Rightarrow> Inr (opt_facet (api_risk f) risk (opt_facet (api_status f) status cs)))"

subsection \<open>Lemmas\<close>

lemma catch_rethrow_Inl_iff [simp]: "catch_rethrow m r = Inl e \<longleftrightarrow> e = m \<and> (\<exists>e'. r = Inl e')"
  by (cases r) (auto simp: catch_rethrow_def)

lemma catch_rethrow_Inr_iff [simp]: "catch_rethrow m r = Inr v \<longleftrightarrow> r = Inr v"
  by (cases r) (auto simp: catch_rethrow_def)

lemma fetch_json_Inr_iff: "fetch_json m r = Inr v \<longleftrightarrow> r = Response True (Some v)"
  by (auto simp: fetch_json_def split: fetch_response.splits option.splits)

lemma facet_filter_subset: "set (facet_filter sel f cs) \<subseteq> set cs"
  by (auto simp: facet_filter_def)

lemma facet_filter_mem:
  "c \<in> set (facet_filter sel f cs) \<longleftrightarrow> c \<in> set cs \<and> (sel = [] \<or> f c \<in> set sel)"
  by (auto simp: facet_filter_def)

lemma facet_filter_eq_filter: "facet_filter sel f cs = filter (\<lambda>c. sel = [] \<or> f c \<in> set sel) cs"
  by (simp add: facet_filter_def)

lemma search_match_Nil [simp]: "search_match [] c"
  by (simp add: search_match_def)

lemma search_match_to_lower: "search_match (to_lower q) c = search_match q c"
  by (simp add: search_match_def)

lemma not_in_image_iff: "y \<notin> f ` A \<longleftrightarrow> (\<forall>x \<in> A. f x \<noteq> y)"
  by auto

lemma find_append_first:
  "P c \<Longrightarrow> \<forall>x \<in> set xs. \<not> P x \<Longrightarrow> find P (xs @ c # ys) = Some c"
  by (induction xs) auto

lemma find_Some_split:
  "find P cs = Some c \<Longrightarrow> \<exists>xs ys. cs = xs @ c # ys \<and> P c \<and> (\<forall>x \<in> set xs. \<not> P x)"
proof (induction cs)
  case Nil
  then show ?case by simp
next
  case (Cons a cs)
  show ?case
  proof (cases "P a")
    case True
    with Cons.prems have "c = a" by simp
    with True show ?thesis by (metis append_Nil empty_iff empty_set)
  next
    case False
    with Cons.prems have "find P cs = Some c" by simp
    then obtain xs ys where "cs = xs @ c # ys" "P c" "\<forall>x \<in> set xs. \<not> P x"
      using Cons.IH by blast
    with False have "a # cs = (a # xs) @ c # ys \<and> P c \<and> (\<forall>x \<in> set (a # xs). \<not> P x)" by simp
    then show ?thesis by blast
  qed
qed

lemma find_Some_first:
  "find P cs = Some c \<longleftrightarrow> (\<exists>xs ys. cs = xs @ c # ys \<and> P c \<and> (\<forall>x \<in> set xs. \<not> P x))"
  using find_Some_split find_append_first by metis

subsection \<open>Properties of the endpoints\<close>

text \<open>C11 (error).  \<open>getContracts\<close> returns the parsed list exactly when the
  response is \<open>ok\<close> and parses; every failure (network, HTTP status, JSON) reaches
  the caller as the one message \<open>Failed to load contracts data\<close>.\<close>

theorem get_contracts_result:
  "(get_contracts r = Inr cs \<longleftrightarrow> r = Response True (Some cs))
   \<and> (get_contracts r = Inl m \<longrightarrow> m = ''Failed to load contracts data'')"
  by (simp add: get_contracts_def fetch_json_Inr_iff)

text \<open>C12 (error).  An id with no contract is reported exactly as a network
  failure is: the \<open>Contract not found\<close> error is caught and replaced, so the
  caller cannot tell the two apart.\<close>

theorem get_contract_by_id_not_found:
  "cid \<notin> contract_id ` set cs \<Longrightarrow>
   get_contract_by_id cid (Response True (Some cs)) = get_contract_by_id cid Network_failure
   \<and> get_contract_by_id cid Network_failure = Inl ''Failed to load contract details''"
proof -
  assume "cid \<notin> contract_id ` set cs"
  then have "find (\<lambda>c. contract_id c = cid) cs = None" by (auto simp: find_None_iff)
  then show ?thesis by (simp add: get_contract_by_id_def fetch_json_def catch_rethrow_def)
qed

text \<open>C13 (functional).  On a good response \<open>getContractById\<close> returns the first
  contract of the list that carries the id.\<close>

theorem get_contract_by_id_found:
  "get_contract_by_id cid (Response True (Some cs)) = Inr c \<longleftrightarrow>
   (\<exists>xs ys. cs = xs @ c # ys \<and> contract_id c = cid \<and> cid \<notin> contract_id ` set xs)"
proof -
  have "get_contract_by_id cid (Response True (Some cs)) = Inr c
        \<longleftrightarrow> find (\<lambda>c. contract_id c = cid) cs = Some c"
    unfolding get_contract_by_id_def fetch_json_def
    by (cases "find (\<lambda>c. contract_id c = cid) cs") simp_all
  also have "\<dots> \<longleftrightarrow> (\<exists>xs ys. cs = xs @ c # ys \<and> contract_id c = cid
                                \<and> (\<forall>x \<in> set xs. contract_id x \<noteq> cid))"
    by (rule find_Some_first)
  also have "\<dots> \<longleftrightarrow> (\<exists>xs ys. cs = xs @ c # ys \<and> contract_id c = cid \<and> cid \<notin> contract_id ` set xs)"
    by (simp only: not_in_image_iff)
  finally show ?thesis .
qed

subsection \<open>Witnesses\<close>

definition demo_contract :: contract where
  "demo_contract =
     \<lparr>contract_id = ''c-002'', name = ''Supply Agreement'', parties = ''Beta Ltd'',
      start = ''2024-02-01'', expiry = ''2026-02-01'', status = ''Renewal Due'', risk = ''Low'',
      clauses = [], insights = [], evidence = []\<rparr>"

theorem get_contracts_result_witness:
  "get_contracts (Response False None) = Inl ''Failed to load contracts data''
   \<and> get_contracts (Response True (Some [demo_contract])) = Inr [demo_contract]"
  using get_contracts_result [of "Response False None" "[demo_contract]"]
    get_contracts_result [of "Response True (Some [demo_contract])" "[demo_contract]"]
  by (simp add: get_contracts_def fetch_json_def catch_rethrow_def)

theorem get_contract_by_id_not_found_witness:
  "''c-404'' \<notin> contract_id ` set [demo_contract]
   \<and> get_contract_by_id ''c-404'' (Response True (Some [demo_contract]))
       = Inl ''Failed to load contract details''"
proof -
  have h: "''c-404'' \<notin> contract_id ` set [demo_contract]" by (simp add: demo_contract_def)
  show ?thesis using get_contract_by_id_not_found [OF h] h by simp
qed

theorem get_contract_by_id_found_witness:
  "get_contract_by_id ''c-002'' (Response True (Some [demo_contract])) = Inr demo_contract"
proof -
  have "\<exists>xs ys. [demo_contract] = xs @ demo_contract # ys \<and> contract_id demo_contract = ''c-002''
                \<and> ''c-002'' \<notin> contract_id ` set xs"
    by (rule exI [of _ "[]"], rule exI [of _ "[]"]) (simp add: demo_contract_def)
  then show ?thesis using get_contract_by_id_found [of "''c-002''" "[demo_contract]" demo_contract]
    by blast
qed

end
