(* ===== verification/Filtering.thy ===== *)
theory Filtering
  imports Contracts
begin

text \<open>
  The list-management logic of \<open>src/src/pages/ContractsDashboard.jsx\<close>: the
  facet selections (\<open>filters\<close> state), \<open>applyFiltersAndSearch\<close> (search, then
  status facet, then risk facet, each a \<open>filter\<close> over the previous result),
  \<open>handleFilterChange\<close> (toggle a value in one facet) and the badge lookups.
  The lemmas show that the three filters compose to one conjunction (the
  predicate composer of the spec), so the view is one \<open>filter\<close> of the store
  in the store's order, case-insensitivity, and the toggle laws.
\<close>

subsection \<open>Filter state and its operations\<close>

record filter_state =
  status_filter :: "js_string list"
  risk_filter :: "js_string list"

definition empty_filters :: filter_state where
  "empty_filters = \<lparr>status_filter = [], risk_filter = []\<rparr>"

datatype filter_type = Status_type | Risk_type

text \<open>\<open>prev[t].includes(value) ? prev[t].filter(item => item !== value)
  : [...prev[t], value]\<close>\<close>

definition toggle_value :: "js_string list \<Rightarrow> js_string \<Rightarrow> js_string list" where
  "toggle_value xs v = (if v \<in> set xs then filter (\<lambda>i. i \<noteq> v) xs else xs @ [v])"

fun handle_filter_change :: "filter_state \<Rightarrow> filter_type \<Rightarrow> js_string \<Rightarrow> filter_state" where
  "handle_filter_change f Status_type v = f\<lparr>status_filter := toggle_value (status_filter f) v\<rparr>"
| "handle_filter_change f Risk_type v = f\<lparr>risk_filter := toggle_value (risk_filter f) v\<rparr>"

text \<open>\<open>applyFiltersAndSearch\<close>, without its two state updates (they are in
  \<open>Dashboard\<close>): the search runs only when \<open>searchQuery.trim()\<close> is non-empty,
  but matches the untrimmed query.\<close>

definition apply_filters_and_search ::
  "contract list \<Rightarrow> js_string \<Rightarrow> filter_state \<Rightarrow> contract list" where
  "apply_filters_and_search contracts q f =
     (let filtered = contracts;
          filtered = (if js_trim q \<noteq> [] then filter (search_match q) filtered else filtered);
          filtered = facet_filter (status_filter f) status filtered;
          filtered = facet_filter (risk_filter f) risk filtered
      in filtered)"

subsection \<open>Badges and icons\<close>

text \<open>A template literal reads a missing key of the \<open>styles\<close> object as
  \<open>undefined\<close>, and prints it so.\<close>

definition template_value :: "js_string option \<Rightarrow> js_string" where
  "template_value v = (case v of None \<Rightarrow> ''undefined'' | Some s \<Rightarrow> s)"

definition risk_styles :: "js_string \<rightharpoonup> js_string" where
  "risk_styles = map_of [(''Low'', ''bg-green-100 text-green-800''),
                         (''Medium'', ''bg-yellow-100 text-yellow-800''),
                         (''High'', ''bg-red-100 text-red-800'')]"

definition status_styles :: "js_string \<rightharpoonup> js_string" where
  "status_styles = map_of [(''Active'', ''bg-green-100 text-green-800''),
                           (''Renewal Due'', ''bg-orange-100 text-orange-800''),
                           (''Expired'', ''bg-gray-100 text-gray-800'')]"

definition get_risk_badge :: "js_string \<Rightarrow> js_string" where
  "get_risk_badge r = ''px-2 py-1 text-xs font-medium rounded-full '' @ template_value (risk_styles r)"

definition get_status_badge :: "js_string \<Rightarrow> js_string" where
  "get_status_badge s = ''px-2 py-1 text-xs font-medium rounded-full '' @ template_value (status_styles s)"

datatype icon = Check_circle | Clock_icon | Alert_triangle

definition get_status_icon :: "js_string \<Rightarrow> icon option" where
  "get_status_icon s =
     (if s = ''Active'' then Some Check_circle
      else if s = ''Renewal Due'' then Some Clock_icon
      else if s = ''Expired'' then Some Alert_triangle
      else None)"

subsection \<open>The search guard\<close>

definition search_pred :: "js_string \<Rightarrow> contract \<Rightarrow> bool" where
  "search_pred q c \<longleftrightarrow> js_trim q = [] \<or> search_match q c"

definition view_pred :: "js_string \<Rightarrow> filter_state \<Rightarrow> contract \<Rightarrow> bool" where
  "view_pred q f c \<longleftrightarrow>
     search_pred q c
     \<and> (status_filter f = [] \<or> status c \<in> set (status_filter f))
     \<and> (risk_filter f = [] \<or> risk c \<in> set (risk_filter f))"

lemma filter_if_guard: "(if b then filter P xs else xs) = filter (\<lambda>x. \<not> b \<or> P x) xs"
  by simp

lemma apply_filters_and_search_filter:
  "apply_filters_and_search cs q f = filter (view_pred q f) cs"
proof -
  have "apply_filters_and_search cs q f =
        filter (\<lambda>c. search_pred q c \<and> (status_filter f = [] \<or> status c \<in> set (status_filter f))
                     \<and> (risk_filter f = [] \<or> risk c \<in> set (risk_filter f))) cs"
    by (simp add: apply_filters_and_search_def search_pred_def facet_filter_eq_filter
        filter_if_guard conj_ac)
  also have "\<dots> = filter (view_pred q f) cs"
    by (rule filter_cong) (simp_all add: view_pred_def)
  finally show ?thesis .
qed

lemma set_apply_filters_and_search:
  "set (apply_filters_and_search cs q f) = {c \<in> set cs. view_pred q f c}"
  by (simp add: apply_filters_and_search_filter)

lemma is_js_space_to_lower_char [simp]: "is_js_space (to_lower_char c) = is_js_space c"
  by (simp add: is_js_space_def to_lower_char_def upper_unit_def)

lemma js_trim_to_lower_Nil: "js_trim (to_lower q) = [] \<longleftrightarrow> js_trim q = []"
  by (simp add: js_trim_Nil_iff to_lower_def)

lemma distinct_toggle_value: "distinct xs \<Longrightarrow> distinct (toggle_value xs v)"
  by (simp add: toggle_value_def)

lemma set_toggle_value:
  "set (toggle_value xs v) = (if v \<in> set xs then set xs - {v} else insert v (set xs))"
  by (auto simp: toggle_value_def)

subsection \<open>Properties of the view\<close>

text \<open>C1 (refinement).  The three successive filters of
  \<open>applyFiltersAndSearch\<close> compute the spec's predicate composer: the view is
  the store filtered by the conjunction of the search predicate (vacuous when the
  trimmed query is empty), the status facet and the risk facet (each vacuous when
  nothing is selected).\<close>

theorem apply_filters_and_search_composes:
  "apply_filters_and_search cs q f =
     filter (\<lambda>c. (js_trim q = [] \<or> search_match q c)
                 \<and> (status_filter f = [] \<or> status c \<in> set (status_filter f))
                 \<and> (risk_filter f = [] \<or> risk c \<in> set (risk_filter f))) cs"
  unfolding apply_filters_and_search_filter
  by (rule filter_cong) (simp_all add: view_pred_def search_pred_def)

text \<open>C8 (functional).  With no facet selected and a query that is empty or only
  white space, the view is the whole store in its order.\<close>

theorem apply_filters_and_search_no_filters:
  "js_trim q = [] \<Longrightarrow> apply_filters_and_search cs q empty_filters = cs"
  by (simp add: apply_filters_and_search_def facet_filter_def empty_filters_def)

text \<open>C16 (equivalence).  The search is case-insensitive: lower-casing the query
  gives the same view.\<close>

theorem apply_filters_and_search_case_insensitive:
  "apply_filters_and_search cs (to_lower q) f = apply_filters_and_search cs q f"
proof -
  have "view_pred (to_lower q) f = view_pred q f"
    by (simp add: fun_eq_iff view_pred_def search_pred_def js_trim_to_lower_Nil search_match_to_lower)
  then show ?thesis by (simp add: apply_filters_and_search_filter)
qed

text \<open>C21 (functional).  \<open>handleFilterChange\<close> flips the clicked value of the
  clicked facet and leaves every other value and the other facet alone.\<close>

theorem handle_filter_change_flips:
  "(v \<in> set (status_filter (handle_filter_change f Status_type v)) \<longleftrightarrow> v \<notin> set (status_filter f))
   \<and> (w \<noteq> v \<longrightarrow> (w \<in> set (status_filter (handle_filter_change f Status_type v))
                    \<longleftrightarrow> w \<in> set (status_filter f)))
   \<and> risk_filter (handle_filter_change f Status_type v) = risk_filter f
   \<and> (v \<in> set (risk_filter (handle_filter_change f Risk_type v)) \<longleftrightarrow> v \<notin> set (risk_filter f))
   \<and> (w \<noteq> v \<longrightarrow> (w \<in> set (risk_filter (handle_filter_change f Risk_type v))
                    \<longleftrightarrow> w \<in> set (risk_filter f)))
   \<and> status_filter (handle_filter_change f Risk_type v) = status_filter f"
  by (simp add: set_toggle_value)

text \<open>A risk value outside the three the UI knows is not an error:
  the badge's class list ends in the word \<open>undefined\<close>.\<close>

theorem get_risk_badge_unknown:
  "r \<notin> set risk_values \<Longrightarrow>
   get_risk_badge r = ''px-2 py-1 text-xs font-medium rounded-full undefined''"
  by (simp add: get_risk_badge_def risk_styles_def risk_values_def template_value_def)

subsection \<open>Witnesses\<close>

theorem apply_filters_and_search_no_filters_witness:
  "js_trim ''  '' = [] \<and> apply_filters_and_search [] ''  '' empty_filters = []"
proof -
  have h: "js_trim ''  '' = []" by (simp add: js_trim_def is_js_space_def)
  show ?thesis using apply_filters_and_search_no_filters [OF h, of "[]"] h by simp
qed

theorem handle_filter_change_flips_witness:
  "''Active'' \<notin> set (status_filter empty_filters)
   \<and> ''Active'' \<in> set (status_filter (handle_filter_change empty_filters Status_type ''Active''))"
  using handle_filter_change_flips [of "''Active''" empty_filters "''Active''"]
  by (simp add: empty_filters_def)

theorem get_risk_badge_unknown_witness:
  "''Critical'' \<notin> set risk_values
   \<and> get_risk_badge ''Critical'' = ''px-2 py-1 text-xs font-medium rounded-full undefined''"
proof -
  have h: "''Critical'' \<notin> set risk_values" by (simp add: risk_values_def)
  show ?thesis using get_risk_badge_unknown [OF h] h by simp
qed

end
