(* ===== verification/Pagination.thy ===== *)
theory Pagination
  imports Prelude
begin

text \<open>
  The pagination block of \<open>src/src/pages/ContractsDashboard.jsx\<close>:
  \<open>itemsPerPage\<close>, \<open>totalPages = Math.ceil(filtered.length / itemsPerPage)\<close>,
  the slice of the current page, \<open>goToPage\<close> (clamp into \<open>[1, totalPages]\<close>),
  the page-number buttons, the enabled state of Previous/Next and the
  "Showing a-b of n" summary.  Page numbers are JavaScript numbers, modelled as
  \<open>int\<close>; the list length is a \<open>nat\<close>.  The lemmas give the page count, the
  clamping laws, that the pages partition the list in order, and the page sizes.
\<close>

definition items_per_page :: int where
  "items_per_page = 10"

text \<open>\<open>Math.ceil(n / 10)\<close> on a non-negative integer, computed exactly; lemma
  \<open>total_pages_ceiling\<close> shows it is the real-valued ceiling.\<close>

definition total_pages :: "nat \<Rightarrow> int" where
  "total_pages n = (int n + items_per_page - 1) div items_per_page"

definition start_index :: "int \<Rightarrow> int" where
  "start_index page = (page - 1) * items_per_page"

definition end_index :: "int \<Rightarrow> int" where
  "end_index page = start_index page + items_per_page"

definition current_contracts :: "'a list \<Rightarrow> int \<Rightarrow> 'a list" where
  "current_contracts xs page = js_slice xs (start_index page) (end_index page)"

text \<open>\<open>setCurrentPage(Math.max(1, Math.min(totalPages, page)))\<close>, with
  \<open>totalPages\<close> of the current filtered list of length \<open>n\<close>.\<close>

definition go_to_page :: "nat \<Rightarrow> int \<Rightarrow> int" where
  "go_to_page n page = max 1 (min (total_pages n) page)"

text \<open>\<open>[...Array(totalPages)].map((_, index) => index + 1)\<close>\<close>

definition page_numbers :: "nat \<Rightarrow> int list" where
  "page_numbers n = map (\<lambda>idx. int idx + 1) [0..<nat (total_pages n)]"

definition pagination_shown :: "nat \<Rightarrow> bool" where
  "pagination_shown n \<longleftrightarrow> total_pages n > 1"

definition previous_disabled :: "int \<Rightarrow> bool" where
  "previous_disabled page \<longleftrightarrow> page = 1"

definition next_disabled :: "nat \<Rightarrow> int \<Rightarrow> bool" where
  "next_disabled n page \<longleftrightarrow> page = total_pages n"

text \<open>\<open>Showing {startIndex + 1}-{Math.min(endIndex, n)} of {n} contracts\<close>\<close>

definition results_summary :: "nat \<Rightarrow> int \<Rightarrow> int \<times> int \<times> int" where
  "results_summary n page = (start_index page + 1, min (end_index page) (int n), int n)"

subsection \<open>Lemmas\<close>

lemma total_pages_nonneg [simp]: "0 \<le> total_pages n"
  by (simp add: total_pages_def items_per_page_def)

lemma total_pages_0 [simp]: "total_pages 0 = 0"
  by (simp add: total_pages_def items_per_page_def)

lemma total_pages_pos: "0 < n \<Longrightarrow> 0 < total_pages n"
  by (simp add: total_pages_def items_per_page_def)

lemma total_pages_bounds:
  "items_per_page * (total_pages n - 1) < int n \<and> int n \<le> items_per_page * total_pages n \<or> n = 0"
  by (auto simp: total_pages_def items_per_page_def)

lemma total_pages_ceiling: "total_pages n = \<lceil>real n / 10\<rceil>"
proof -
  have "\<lceil>real n / 10\<rceil> = (int n + 9) div 10"
    by (simp add: ceiling_eq_iff) linarith
  then show ?thesis by (simp add: total_pages_def items_per_page_def)
qed

lemma go_to_page_bounds: "1 \<le> go_to_page n p \<and> go_to_page n p \<le> max 1 (total_pages n)"
  by (simp add: go_to_page_def)

lemma go_to_page_id: "1 \<le> p \<Longrightarrow> p \<le> total_pages n \<Longrightarrow> go_to_page n p = p"
  by (simp add: go_to_page_def)

lemma take_drop_blocks:
  assumes "0 < m" "length xs \<le> k * m"
  shows "concat (map (\<lambda>i. take m (drop (i * m) xs)) [0..<k]) = xs"
  using assms
proof (induction k arbitrary: xs)
  case 0
  then show ?case by simp
next
  case (Suc k)
  have rest: "length (drop m xs) \<le> k * m" using Suc.prems by simp
  have "concat (map (\<lambda>i. take m (drop (i * m) xs)) [0..<Suc k])
        = take m xs @ concat (map (\<lambda>i. take m (drop (i * m) (drop m xs))) [0..<k])"
    by (simp add: upt_conv_Cons map_Suc_upt [symmetric] comp_def add.commute del: upt_Suc)
  also have "\<dots> = take m xs @ drop m xs"
    using Suc.IH [OF \<open>0 < m\<close> rest] by simp
  finally show ?case by simp
qed

lemma current_contracts_nat:
  "current_contracts xs (int i + 1) = take 10 (drop (i * 10) xs)"
proof -
  have "start_index (int i + 1) = int (i * 10)" "end_index (int i + 1) = int (i * 10 + 10)"
    by (simp_all add: start_index_def end_index_def items_per_page_def)
  then show ?thesis
    by (simp only: current_contracts_def js_slice_nonneg of_nat_0_le_iff of_nat_le_iff
        nat_int le_add1 add_diff_cancel_left')
qed

lemma length_current_contracts:
  "1 \<le> p \<Longrightarrow> length (current_contracts xs p) = min 10 (length xs - nat (p - 1) * 10)"
proof -
  assume "1 \<le> p"
  then obtain i where "p = int i + 1" by (metis add.commute zle_iff_zadd)
  then show ?thesis by (simp add: current_contracts_nat min.commute)
qed

lemma page_le_total_pages: "p \<le> total_pages n \<Longrightarrow> 1 \<le> p \<Longrightarrow> items_per_page * (p - 1) < int n"
  by (simp add: total_pages_def items_per_page_def)

lemma page_lt_total_pages: "p < total_pages n \<Longrightarrow> items_per_page * p < int n"
  by (simp add: total_pages_def items_per_page_def)

lemma length_le_total_pages: "n \<le> nat (total_pages n) * 10"
  by (simp add: total_pages_def items_per_page_def)

lemma page_as_nat: "1 \<le> p \<Longrightarrow> \<exists>i. p = int i + 1"
  by (metis add.commute zle_iff_zadd)

lemma current_contracts_nonempty:
  "1 \<le> p \<Longrightarrow> p \<le> total_pages (length xs) \<Longrightarrow> current_contracts xs p \<noteq> []"
proof -
  assume a: "1 \<le> p" "p \<le> total_pages (length xs)"
  obtain i where p: "p = int i + 1" using page_as_nat [OF a(1)] by blast
  have "i * 10 < length xs"
    using page_le_total_pages [OF a(2,1)] by (simp add: p items_per_page_def)
  then show ?thesis by (simp add: p current_contracts_nat)
qed

subsection \<open>Properties of the paginator\<close>

text \<open>C4 (functional).  Concatenating the pages behind the page buttons
  \<open>1 .. totalPages\<close> gives back the filtered list: no row is lost, repeated or
  reordered.\<close>

theorem pages_partition:
  "concat (map (current_contracts xs) (page_numbers (length xs))) = xs"
proof -
  have "map (current_contracts xs) (page_numbers (length xs))
        = map (\<lambda>i. take 10 (drop (i * 10) xs)) [0..<nat (total_pages (length xs))]"
    by (simp add: page_numbers_def current_contracts_nat)
  then show ?thesis
    by (simp add: take_drop_blocks length_le_total_pages)
qed

text \<open>C7 (bounds).  \<open>goToPage\<close> always lands on a page in
  \<open>[1, max 1 totalPages]\<close>, and leaves a page already in \<open>[1, totalPages]\<close>
  unchanged.\<close>

theorem go_to_page_clamps:
  "1 \<le> go_to_page n p \<and> go_to_page n p \<le> max 1 (total_pages n)
   \<and> (1 \<le> p \<and> p \<le> total_pages n \<longrightarrow> go_to_page n p = p)"
  by (auto simp: go_to_page_def)

text \<open>C17 (bounds).  For a non-empty list, \<open>totalPages\<close> is the least number of
  ten-row pages that holds it.\<close>

theorem total_pages_minimal:
  "0 < n \<Longrightarrow> 10 * (total_pages n - 1) < int n \<and> int n \<le> 10 * total_pages n"
  using total_pages_bounds [of n] by (auto simp: items_per_page_def)

text \<open>C18 (bounds).  Every page in \<open>[1, totalPages]\<close> shows between one and ten
  rows, and every page before the last shows exactly ten.\<close>

theorem current_page_size:
  assumes "1 \<le> p" "p \<le> total_pages (length xs)"
  shows "0 < length (current_contracts xs p) \<and> length (current_contracts xs p) \<le> 10
         \<and> (p < total_pages (length xs) \<longrightarrow> length (current_contracts xs p) = 10)"
proof -
  obtain i where p: "p = int i + 1" using page_as_nat [OF assms(1)] by blast
  have lt: "i * 10 < length xs"
    using page_le_total_pages [OF assms(2,1)] by (simp add: p items_per_page_def)
  have full: "p < total_pages (length xs) \<Longrightarrow> i * 10 + 10 \<le> length xs"
    using page_lt_total_pages [of p "length xs"] by (simp add: p items_per_page_def)
  show ?thesis using lt full by (auto simp: p current_contracts_nat)
qed

text \<open>C22 (functional).  For a page in \<open>[1, max 1 totalPages]\<close> the line
  "Showing a-b of n" reads \<open>a = 10 (p - 1) + 1\<close> and \<open>b = min (10 p) n\<close>; the
  range counts exactly the rows of the page shown, \<open>b - a + 1\<close> of them; and it
  reads "Showing 1-0 of 0" exactly when the list is empty.\<close>

theorem results_summary_rows:
  assumes "1 \<le> p" "p \<le> max 1 (total_pages (length xs))"
  shows "results_summary (length xs) p = (10 * (p - 1) + 1, min (10 * p) (int (length xs)), int (length xs))
         \<and> fst (snd (results_summary (length xs) p)) - fst (results_summary (length xs) p) + 1
             = int (length (current_contracts xs p))
         \<and> (results_summary (length xs) p = (1, 0, 0) \<longleftrightarrow> xs = [])"
proof -
  let ?n = "length xs"
  have form: "results_summary ?n p = (10 * (p - 1) + 1, min (10 * p) (int ?n), int ?n)"
    by (simp add: results_summary_def start_index_def end_index_def items_per_page_def algebra_simps)
  have len: "int (length (current_contracts xs p)) = min 10 (int ?n - 10 * (p - 1))"
  proof (cases "xs = []")
    case True
    with assms have "p = 1" by simp
    with True show ?thesis by (simp add: current_contracts_def js_slice_def)
  next
    case False
    then have "p \<le> total_pages ?n" using assms(2) total_pages_pos[of ?n] by simp
    then have "10 * (p - 1) < int ?n" using page_le_total_pages assms(1) by (simp add: items_per_page_def)
    then show ?thesis using length_current_contracts[OF assms(1), of xs] assms(1) by auto
  qed
  have empty: "results_summary ?n p = (1, 0, 0) \<longleftrightarrow> xs = []"
  proof
    assume "results_summary ?n p = (1, 0, 0)"
    then show "xs = []" using form by simp
  next
    assume "xs = []"
    with assms have "p = 1" by simp
    with \<open>xs = []\<close> show "results_summary ?n p = (1, 0, 0)" using form by simp
  qed
  show ?thesis using form len empty by auto
qed

subsection \<open>Witnesses\<close>

theorem go_to_page_clamps_witness:
  "go_to_page 25 2 = 2 \<and> go_to_page 25 0 = 1 \<and> go_to_page 25 8 = 3"
  using go_to_page_clamps [of 25 2] go_to_page_clamps [of 25 0] go_to_page_clamps [of 25 8]
  by (simp_all add: go_to_page_def total_pages_def items_per_page_def)

theorem total_pages_minimal_witness: "0 < (25::nat) \<and> total_pages 25 = 3"
  using total_pages_minimal [of 25] by simp

theorem current_page_size_witness:
  "1 \<le> (3::int) \<and> 3 \<le> total_pages (length [0..<25::nat])
   \<and> length (current_contracts [0..<25::nat] 3) = 5"
proof -
  have t: "total_pages (length [0..<25::nat]) = 3"
    by (simp add: total_pages_def items_per_page_def)
  have "0 < length (current_contracts [0..<25::nat] 3)"
    using current_page_size [of 3 "[0..<25::nat]"] t by simp
  moreover have "length (current_contracts [0..<25::nat] 3) = 5"
    by (simp add: current_contracts_def start_index_def end_index_def items_per_page_def
        js_slice_def js_rel_index_def)
  ultimately show ?thesis using t by simp
qed

theorem results_summary_rows_witness:
  "results_summary 25 3 = (21, 25, 25) \<and> results_summary 0 1 = (1, 0, 0)"
proof -
  have "1 \<le> (3::int)" "3 \<le> max 1 (total_pages (length [0..<25::nat]))"
    by (simp_all add: total_pages_def items_per_page_def)
  note a = results_summary_rows[OF this]
  have "1 \<le> (1::int)" "1 \<le> max 1 (total_pages (length ([]::nat list)))" by simp_all
  note b = results_summary_rows[OF this]
  from a b show ?thesis by simp
qed

end
