(* ===== verification/Dashboard.thy ===== *)
theory Dashboard
  imports Filtering Pagination
begin

text \<open>
  The component state of \<open>ContractsDashboard\<close> (its \<open>useState\<close> hooks) as a
  record, its user and network events as a datatype, and one step per event.
  A handler returns the new state and whether it changed a dependency of the
  second \<open>useEffect\<close> (\<open>[contracts, searchQuery, filters]\<close>); when it did,
  the effect \<open>applyFiltersAndSearch\<close> runs, recomputing the view and resetting
  the page to 1.  React compares dependencies with \<open>Object.is\<close>: a string
  by value, an object or array by identity, so \<open>setFilters\<close> and
  \<open>setContracts\<close> always count as a change and \<open>setSearchQuery\<close> only when
  the text differs.  A step is the settled state after React has run the
  effect; the intermediate render with a stale view is not modelled.
  The asynchronous \<open>loadContracts\<close> is two events: its synchronous start and
  the resolution of \<open>contractsApi.getContracts()\<close>.
\<close>

record dashboard =
  contracts :: "contract list"
  filtered_contracts :: "contract list"
  loading :: bool
  error :: "js_string option"
  search_query :: js_string
  filters :: filter_state
  current_page :: int
  show_filters :: bool

definition initial_dashboard :: dashboard where
  "initial_dashboard =
     \<lparr>contracts = [], filtered_contracts = [], loading = True, error = None,
      search_query = [], filters = empty_filters, current_page = 1, show_filters = False\<rparr>"

datatype dash_event =
    Load_contracts
  | Contracts_loaded "contract list fetch_response"
  | Search_input js_string
  | Filter_change filter_type js_string
  | Clear_filters
  | Go_to_page int
  | Toggle_filters

text \<open>The effect body of \<open>applyFiltersAndSearch\<close>: \<open>setFilteredContracts\<close> and
  \<open>setCurrentPage(1)\<close>.\<close>

definition apply_filters_effect :: "dashboard \<Rightarrow> dashboard" where
  "apply_filters_effect s =
     s\<lparr>filtered_contracts := apply_filters_and_search (contracts s) (search_query s) (filters s),
       current_page := 1\<rparr>"

definition load_contracts_start :: "dashboard \<Rightarrow> dashboard" where
  "load_contracts_start s = s\<lparr>loading := True, error := None\<rparr>"

definition load_contracts_finish ::
  "dashboard \<Rightarrow> contract list fetch_response \<Rightarrow> dashboard \<times> bool" where
  "load_contracts_finish s r =
     (case get_contracts r of
        Inr data \<Rightarrow> (s\<lparr>contracts := data, loading := False\<rparr>, True)
      | Inl msg \<Rightarrow> (s\<lparr>error := Some msg, loading := False\<rparr>, False))"

definition clear_filters :: "dashboard \<Rightarrow> dashboard" where
  "clear_filters s = s\<lparr>filters := empty_filters, search_query := []\<rparr>"

fun handle_event :: "dashboard \<Rightarrow> dash_event \<Rightarrow> dashboard \<times> bool" where
  "handle_event s Load_contracts = (load_contracts_start s, False)"
| "handle_event s (Contracts_loaded r) = load_contracts_finish s r"
| "handle_event s (Search_input q) = (s\<lparr>search_query := q\<rparr>, q \<noteq> search_query s)"
| "handle_event s (Filter_change t v) = (s\<lparr>filters := handle_filter_change (filters s) t v\<rparr>, True)"
| "handle_event s Clear_filters = (clear_filters s, True)"
| "handle_event s (Go_to_page p) =
     (s\<lparr>current_page := go_to_page (length (filtered_contracts s)) p\<rparr>, False)"
| "handle_event s Toggle_filters = (s\<lparr>show_filters := \<not> show_filters s\<rparr>, False)"

definition dashboard_step :: "dashboard \<Rightarrow> dash_event \<Rightarrow> dashboard" where
  "dashboard_step s e = (case handle_event s e of (s', changed) \<Rightarrow>
                           if changed then apply_filters_effect s' else s')"

text \<open>On mount both effects run: \<open>loadContracts()\<close> starts, then the view is
  computed from the initial state.\<close>

definition dashboard_mounted :: dashboard where
  "dashboard_mounted = apply_filters_effect (load_contracts_start initial_dashboard)"

fun dashboard_run :: "dashboard \<Rightarrow> dash_event list \<Rightarrow> dashboard" where
  "dashboard_run s [] = s"
| "dashboard_run s (e # es) = dashboard_run (dashboard_step s e) es"

inductive dash_reachable :: "dashboard \<Rightarrow> bool" where
  mounted: "dash_reachable dashboard_mounted"
| step: "dash_reachable s \<Longrightarrow> dash_reachable (dashboard_step s e)"

text \<open>The rows on screen: \<open>currentContracts\<close> of the current page.\<close>

definition visible_rows :: "dashboard \<Rightarrow> contract list" where
  "visible_rows s = current_contracts (filtered_contracts s) (current_page s)"

subsection \<open>Invariant\<close>

definition dash_inv :: "dashboard \<Rightarrow> bool" where
  "dash_inv s \<longleftrightarrow>
     filtered_contracts s = apply_filters_and_search (contracts s) (search_query s) (filters s)
     \<and> 1 \<le> current_page s \<and> current_page s \<le> max 1 (total_pages (length (filtered_contracts s)))
     \<and> distinct (status_filter (filters s)) \<and> distinct (risk_filter (filters s))"

lemma dash_inv_apply_filters_effect:
  "distinct (status_filter (filters s)) \<Longrightarrow> distinct (risk_filter (filters s))
   \<Longrightarrow> dash_inv (apply_filters_effect s)"
  by (simp add: dash_inv_def apply_filters_effect_def)

lemma distinct_handle_filter_change:
  "distinct (status_filter f) \<and> distinct (risk_filter f) \<Longrightarrow>
   distinct (status_filter (handle_filter_change f t v)) \<and> distinct (risk_filter (handle_filter_change f t v))"
  by (cases t) (simp_all add: distinct_toggle_value)

lemma handle_event_filters_distinct:
  assumes "dash_inv s" "handle_event s e = (s', ch)"
  shows "distinct (status_filter (filters s')) \<and> distinct (risk_filter (filters s'))"
  using assms distinct_handle_filter_change [of "filters s"]
  by (cases e) (auto simp: dash_inv_def load_contracts_start_def load_contracts_finish_def
      clear_filters_def empty_filters_def split: sum.splits)

lemma handle_event_unchanged_inv:
  assumes "dash_inv s" "handle_event s e = (s', False)"
  shows "dash_inv s'"
  using assms
  by (cases e) (auto simp: dash_inv_def load_contracts_start_def load_contracts_finish_def
      go_to_page_def split: sum.splits if_splits)

lemma dashboard_step_inv: "dash_inv s \<Longrightarrow> dash_inv (dashboard_step s e)"
proof -
  assume inv: "dash_inv s"
  obtain s' ch where h: "handle_event s e = (s', ch)" by fastforce
  show ?thesis
  proof (cases ch)
    case True
    with h show ?thesis
      by (simp add: dashboard_step_def dash_inv_apply_filters_effect
          handle_event_filters_distinct [OF inv h])
  next
    case False
    with h show ?thesis
      by (simp add: dashboard_step_def handle_event_unchanged_inv [OF inv])
  qed
qed

lemma dash_inv_mounted: "dash_inv dashboard_mounted"
  by (simp add: dashboard_mounted_def dash_inv_apply_filters_effect load_contracts_start_def
      initial_dashboard_def empty_filters_def)

lemma dash_reachable_inv: "dash_reachable s \<Longrightarrow> dash_inv s"
  by (induction rule: dash_reachable.induct) (simp_all add: dash_inv_mounted dashboard_step_inv)

lemma dash_reachable_run: "dash_reachable s \<Longrightarrow> dash_reachable (dashboard_run s es)"
  by (induction es arbitrary: s) (simp_all add: dash_reachable.step)

subsection \<open>Properties of the dashboard\<close>

text \<open>C2 (invariant).  In every state the dashboard can reach, the rows it holds as
  \<open>filteredContracts\<close> are exactly the projection of the loaded contracts under
  the current query and facet selections: no event leaves a stale view.\<close>

theorem dash_reachable_view_consistent:
  "dash_reachable s \<Longrightarrow>
   filtered_contracts s = apply_filters_and_search (contracts s) (search_query s) (filters s)"
  using dash_reachable_inv by (simp add: dash_inv_def)

text \<open>C3 (invariant).  In every reachable state the current page lies in
  \<open>[1, max 1 totalPages]\<close> of the current view.\<close>

theorem dash_reachable_page_in_range:
  "dash_reachable s \<Longrightarrow>
   1 \<le> current_page s \<and> current_page s \<le> max 1 (total_pages (length (filtered_contracts s)))"
  using dash_reachable_inv unfolding dash_inv_def by blast

text \<open>C5 (safety).  Whenever the view has a row, the page on screen has a row: the
  dashboard never shows an empty page of a non-empty result.\<close>

theorem visible_rows_nonempty:
  assumes "dash_reachable s" "filtered_contracts s \<noteq> []"
  shows "visible_rows s \<noteq> []"
proof -
  have inv: "dash_inv s" using assms(1) by (rule dash_reachable_inv)
  have "1 \<le> total_pages (length (filtered_contracts s))"
    using total_pages_pos [of "length (filtered_contracts s)"] assms(2) by simp
  with inv have "1 \<le> current_page s" "current_page s \<le> total_pages (length (filtered_contracts s))"
    unfolding dash_inv_def by auto
  then show ?thesis by (simp add: visible_rows_def current_contracts_nonempty)
qed

text \<open>C9 (functional).  Typing a different search text sets the query and resets
  the page to 1 (spec scenario D), whatever page was shown.\<close>

theorem search_change_resets_page:
  "q \<noteq> search_query s \<Longrightarrow>
   current_page (dashboard_step s (Search_input q)) = 1
   \<and> search_query (dashboard_step s (Search_input q)) = q"
  by (simp add: dashboard_step_def apply_filters_effect_def)

text \<open>C10 (error).  A failed load leaves the loaded contracts and the view as they
  were, stops the loading state, and shows the endpoint's single message.\<close>

theorem load_failure_keeps_store:
  "get_contracts r = Inl m \<Longrightarrow>
   contracts (dashboard_step s (Contracts_loaded r)) = contracts s
   \<and> filtered_contracts (dashboard_step s (Contracts_loaded r)) = filtered_contracts s
   \<and> error (dashboard_step s (Contracts_loaded r)) = Some ''Failed to load contracts data''
   \<and> \<not> loading (dashboard_step s (Contracts_loaded r))"
proof -
  assume h: "get_contracts r = Inl m"
  then have "m = ''Failed to load contracts data''" by (simp add: get_contracts_def)
  with h show ?thesis by (simp add: dashboard_step_def load_contracts_finish_def)
qed

subsection \<open>Witnesses\<close>

theorem dash_reachable_view_consistent_witness:
  "dash_reachable dashboard_mounted \<and> filtered_contracts dashboard_mounted = []"
proof -
  have "filtered_contracts dashboard_mounted = apply_filters_and_search [] [] empty_filters"
    using dash_reachable_view_consistent [OF dash_reachable.mounted]
    by (simp add: dashboard_mounted_def apply_filters_effect_def load_contracts_start_def
        initial_dashboard_def)
  then show ?thesis
    by (simp add: dash_reachable.mounted apply_filters_and_search_def facet_filter_def empty_filters_def)
qed

theorem dash_reachable_page_in_range_witness:
  "dash_reachable (dashboard_step dashboard_mounted (Go_to_page 7))
   \<and> current_page (dashboard_step dashboard_mounted (Go_to_page 7)) = 1"
proof -
  have r: "dash_reachable (dashboard_step dashboard_mounted (Go_to_page 7))"
    by (rule dash_reachable.step [OF dash_reachable.mounted])
  have "1 \<le> current_page (dashboard_step dashboard_mounted (Go_to_page 7))
        \<and> current_page (dashboard_step dashboard_mounted (Go_to_page 7)) \<le> 1"
    using dash_reachable_page_in_range [OF r]
    by (simp add: dashboard_step_def dashboard_mounted_def apply_filters_effect_def
        load_contracts_start_def initial_dashboard_def apply_filters_and_search_def
        facet_filter_def empty_filters_def js_trim_def)
  with r show ?thesis by simp
qed

definition sample_contract :: contract where
  "sample_contract =
     \<lparr>contract_id = ''c-001'', name = ''Master Services Agreement'', parties = ''Acme Corp'',
      start = ''2023-01-01'', expiry = ''2025-01-01'', status = ''Active'', risk = ''High'',
      clauses = [], insights = [], evidence = []\<rparr>"

theorem visible_rows_nonempty_witness:
  "dash_reachable (dashboard_step dashboard_mounted (Contracts_loaded (Response True (Some [sample_contract]))))
   \<and> visible_rows (dashboard_step dashboard_mounted (Contracts_loaded (Response True (Some [sample_contract])))) \<noteq> []"
proof -
  let ?s = "dashboard_step dashboard_mounted (Contracts_loaded (Response True (Some [sample_contract])))"
  have r: "dash_reachable ?s" by (rule dash_reachable.step [OF dash_reachable.mounted])
  have "filtered_contracts ?s = [sample_contract]"
    by (simp add: dashboard_step_def load_contracts_finish_def get_contracts_def fetch_json_def
        catch_rethrow_def apply_filters_effect_def dashboard_mounted_def load_contracts_start_def
        initial_dashboard_def apply_filters_and_search_def facet_filter_def empty_filters_def js_trim_def)
  with visible_rows_nonempty [OF r] r show ?thesis by simp
qed

theorem search_change_resets_page_witness:
  "''Acme'' \<noteq> search_query (dashboard_step dashboard_mounted (Go_to_page 2))
   \<and> current_page (dashboard_step (dashboard_step dashboard_mounted (Go_to_page 2)) (Search_input ''Acme'')) = 1"
proof -
  have h: "''Acme'' \<noteq> search_query (dashboard_step dashboard_mounted (Go_to_page 2))"
    by (simp add: dashboard_step_def dashboard_mounted_def apply_filters_effect_def
        load_contracts_start_def initial_dashboard_def)
  show ?thesis using search_change_resets_page [OF h] h by simp
qed

theorem load_failure_keeps_store_witness:
  "get_contracts Network_failure = Inl ''Failed to load contracts data''
   \<and> error (dashboard_step dashboard_mounted (Contracts_loaded Network_failure))
       = Some ''Failed to load contracts data''"
proof -
  have h: "get_contracts Network_failure = Inl ''Failed to load contracts data''"
    by (simp add: get_contracts_def fetch_json_def catch_rethrow_def)
  show ?thesis using load_failure_keeps_store [OF h, of dashboard_mounted] h by simp
qed

end
