(* ===== verification/Js_Encoding.thy ===== *)
theory Js_Encoding
  imports Prelude
begin

text \<open>
  The encodings the mock login uses to build its token:
  \<open>btoa\<close> (base64 of a string of Latin-1 code units), \<open>JSON.stringify\<close> of a
  string (\<open>json_quote\<close>) and of a non-negative integer (\<open>show_nat\<close>).  A
  decoder \<open>atob\<close> is defined beside \<open>btoa\<close> as its specification: the
  round-trip lemma shows that the token loses nothing of its payload.
\<close>

subsection \<open>Base64\<close>

definition b64_alphabet :: "char list" where
  "b64_alphabet = ''ABCDEFGHIJKLMNOPQRSTUVWXYZabcdefghijklmnopqrstuvwxyz0123456789+/''"

definition b64_char :: "nat \<Rightarrow> char" where
  "b64_char n = b64_alphabet ! n"

text \<open>Groups of three code units give four characters; a last group of one or two
  units is padded with \<open>=\<close>.\<close>

fun btoa_units :: "nat list \<Rightarrow> char list" where
  "btoa_units (a # b # c # rest) =
     [b64_char (a div 4), b64_char ((a mod 4) * 16 + b div 16),
      b64_char ((b mod 16) * 4 + c div 64), b64_char (c mod 64)] @ btoa_units rest"
| "btoa_units [a, b] =
     [b64_char (a div 4), b64_char ((a mod 4) * 16 + b div 16), b64_char ((b mod 16) * 4), CHR ''='']"
| "btoa_units [a] = [b64_char (a div 4), b64_char ((a mod 4) * 16), CHR ''='', CHR ''=''] "
| "btoa_units [] = []"

definition btoa :: "js_string \<Rightarrow> js_string" where
  "btoa s = btoa_units (map of_char s)"

fun list_pos :: "'a list \<Rightarrow> 'a \<Rightarrow> nat option" where
  "list_pos [] x = None"
| "list_pos (y # ys) x = (if y = x then Some 0 else map_option Suc (list_pos ys x))"

definition b64_value :: "char \<Rightarrow> nat option" where
  "b64_value c = list_pos b64_alphabet c"

fun atob_chars :: "char list \<Rightarrow> nat list option" where
  "atob_chars [] = Some []"
| "atob_chars [c0, c1, c2, c3] =
     (if c2 = CHR ''='' \<and> c3 = CHR ''='' then
        (case (b64_value c0, b64_value c1) of
           (Some d0, Some d1) \<Rightarrow> Some [d0 * 4 + d1 div 16]
         | _ \<Rightarrow> None)
      else if c3 = CHR ''='' then
        (case (b64_value c0, b64_value c1, b64_value c2) of
           (Some d0, Some d1, Some d2) \<Rightarrow> Some [d0 * 4 + d1 div 16, (d1 mod 16) * 16 + d2 div 4]
         | _ \<Rightarrow> None)
      else
        (case (b64_value c0, b64_value c1, b64_value c2, b64_value c3) of
           (Some d0, Some d1, Some d2, Some d3) \<Rightarrow>
             Some [d0 * 4 + d1 div 16, (d1 mod 16) * 16 + d2 div 4, (d2 mod 4) * 64 + d3]
         | _ \<Rightarrow> None))"
| "atob_chars (c0 # c1 # c2 # c3 # c4 # rest) =
     (case (b64_value c0, b64_value c1, b64_value c2, b64_value c3) of
        (Some d0, Some d1, Some d2, Some d3) \<Rightarrow>
          map_option (\<lambda>r. [d0 * 4 + d1 div 16, (d1 mod 16) * 16 + d2 div 4, (d2 mod 4) * 64 + d3] @ r)
            (atob_chars (c4 # rest))
      | _ \<Rightarrow> None)"
| "atob_chars _ = None"

definition atob :: "js_string \<Rightarrow> js_string option" where
  "atob s = map_option (map char_of) (atob_chars s)"

subsection \<open>JSON text of strings and numbers\<close>

definition hex_digit :: "nat \<Rightarrow> char" where
  "hex_digit n = ''0123456789abcdef'' ! n"

text \<open>\<open>QuoteJSONString\<close>: the short escapes, \<open>\u00xx\<close> for the other control
  characters, every other code unit as it is.\<close>

definition json_escape_char :: "char \<Rightarrow> js_string" where
  "json_escape_char c =
     (let n = of_char c :: nat; bs = CHR 0x5C in
      if n = 8 then [bs, CHR ''b''] else if n = 9 then [bs, CHR ''t''] else if n = 10 then [bs, CHR ''n'']
      else if n = 12 then [bs, CHR ''f''] else if n = 13 then [bs, CHR ''r'']
      else if n = 34 then [bs, c] else if n = 92 then [bs, bs]
      else if n < 32 then [bs, CHR ''u'', CHR ''0'', CHR ''0'', hex_digit (n div 16), hex_digit (n mod 16)]
      else [c])"

definition json_quote :: "js_string \<Rightarrow> js_string" where
  "json_quote s = [CHR 0x22] @ concat (map json_escape_char s) @ [CHR 0x22]"

fun show_nat :: "nat \<Rightarrow> js_string" where
  "show_nat n = (if n < 10 then [char_of (48 + n)] else show_nat (n div 10) @ [char_of (48 + n mod 10)])"

declare show_nat.simps [simp del]

subsection \<open>Reading JSON string literals\<close>

text \<open>The string-literal part of \<open>JSON.parse\<close>, for code units below 256
  (a \<open>\\u\<close> escape beyond is outside the model and read as an error); it
  returns the decoded string and the rest of the input.\<close>

definition hex_value :: "char \<Rightarrow> nat option" where
  "hex_value c =
     (let n = of_char c :: nat in
      if 48 \<le> n \<and> n \<le> 57 then Some (n - 48)
      else if 97 \<le> n \<and> n \<le> 102 then Some (n - 87)
      else if 65 \<le> n \<and> n \<le> 70 then Some (n - 55) else None)"

definition hex4 :: "char \<Rightarrow> char \<Rightarrow> char \<Rightarrow> char \<Rightarrow> nat option" where
  "hex4 a b c d =
     (case (hex_value a, hex_value b, hex_value c, hex_value d) of
        (Some w, Some x, Some y, Some z) \<Rightarrow> Some (((w * 16 + x) * 16 + y) * 16 + z)
      | _ \<Rightarrow> None)"

definition short_unescape :: "char \<Rightarrow> char option" where
  "short_unescape e =
     (let n = of_char e :: nat in
      if n = 34 \<or> n = 92 \<or> n = 47 then Some e
      else if e = CHR ''b'' then Some (char_of (8::nat)) else if e = CHR ''f'' then Some (char_of (12::nat))
      else if e = CHR ''n'' then Some (char_of (10::nat)) else if e = CHR ''r'' then Some (char_of (13::nat))
      else if e = CHR ''t'' then Some (char_of (9::nat)) else None)"

fun json_string_body :: "char list \<Rightarrow> (char list \<times> char list) option" where
  "json_string_body [] = None"
| "json_string_body (c # cs) =
     (if c = CHR 0x22 then Some ([], cs)
      else if c = CHR 0x5C then
        (case cs of
           [] \<Rightarrow> None
         | e # cs' \<Rightarrow>
             if e = CHR ''u'' then
               (case cs' of
                  h1 # h2 # h3 # h4 # cs'' \<Rightarrow>
                    (case hex4 h1 h2 h3 h4 of
                       Some n \<Rightarrow> if n < 256 then map_option (apfst (Cons (char_of n))) (json_string_body cs'')
                                 else None
                     | None \<Rightarrow> None)
                | _ \<Rightarrow> None)
             else
               (case short_unescape e of
                  Some ch \<Rightarrow> map_option (apfst (Cons ch)) (json_string_body cs')
                | None \<Rightarrow> None))
      else if of_char c < (32::nat) then None
      else map_option (apfst (Cons c)) (json_string_body cs))"

definition json_unquote :: "char list \<Rightarrow> (char list \<times> char list) option" where
  "json_unquote s = (case s of c # cs \<Rightarrow> if c = CHR 0x22 then json_string_body cs else None | [] \<Rightarrow> None)"


subsection \<open>Base64 lemmas\<close>

lemma div_add_small: "r < m \<Longrightarrow> (k * m + r) div (m::nat) = k"
  by simp
lemma mod_add_small: "r < m \<Longrightarrow> (k * m + r) mod (m::nat) = r"
  by simp

lemma list_pos_nth: "distinct xs \<Longrightarrow> n < length xs \<Longrightarrow> list_pos xs (xs ! n) = Some n"
proof (induction xs arbitrary: n)
  case Nil
  then show ?case by simp
next
  case (Cons y ys)
  show ?case
  proof (cases n)
    case 0
    then show ?thesis by simp
  next
    case (Suc m)
    with Cons.prems have "ys ! m \<noteq> y" "m < length ys" by (auto simp: nth_mem)
    with Cons.IH Cons.prems Suc show ?thesis by simp
  qed
qed

lemma b64_value_char: "n < 64 \<Longrightarrow> b64_value (b64_char n) = Some n"
  unfolding b64_value_def b64_char_def
  by (rule list_pos_nth) (simp_all add: b64_alphabet_def)

lemma b64_char_not_pad: "n < 64 \<Longrightarrow> b64_char n \<noteq> CHR ''=''"
proof -
  assume "n < 64"
  then have "b64_char n \<in> set b64_alphabet" by (simp add: b64_char_def b64_alphabet_def nth_mem del: set_simps)
  then show ?thesis by (auto simp: b64_alphabet_def)
qed

lemma btoa_units_Nil_iff: "btoa_units xs = [] \<longleftrightarrow> xs = []"
  by (induction xs rule: btoa_units.induct) simp_all


lemma b64_group3:
  assumes "a < 256" "b < 256" "c < (256::nat)"
  shows "b64_value (b64_char (a div 4)) = Some (a div 4)"
    and "b64_value (b64_char ((a mod 4) * 16 + b div 16)) = Some ((a mod 4) * 16 + b div 16)"
    and "b64_value (b64_char ((b mod 16) * 4 + c div 64)) = Some ((b mod 16) * 4 + c div 64)"
    and "b64_value (b64_char (c mod 64)) = Some (c mod 64)"
  using assms by (simp_all add: b64_value_char)

lemma b64_decode_group:
  assumes "b < (256::nat)" "c < 256"
  shows "(a div 4) * 4 + ((a mod 4) * 16 + b div 16) div 16 = a"
    and "(((a mod 4) * 16 + b div 16) mod 16) * 16 + ((b mod 16) * 4 + c div 64) div 4 = b"
    and "(((b mod 16) * 4 + c div 64) mod 4) * 64 + c mod 64 = c"
proof -
  have "b div 16 < 16" "c div 64 < 4" using assms by simp_all
  then show "(a div 4) * 4 + ((a mod 4) * 16 + b div 16) div 16 = a"
    and "(((a mod 4) * 16 + b div 16) mod 16) * 16 + ((b mod 16) * 4 + c div 64) div 4 = b"
    and "(((b mod 16) * 4 + c div 64) mod 4) * 64 + c mod 64 = c"
    by (simp_all add: div_add_small mod_add_small)
qed

lemma atob_btoa_units: "\<forall>x \<in> set xs. x < 256 \<Longrightarrow> atob_chars (btoa_units xs) = Some xs"
proof (induction xs rule: btoa_units.induct)
  case (1 a b c rest)
  then have bnd: "a < 256" "b < 256" "c < 256" by simp_all
  have pads: "b64_char ((b mod 16) * 4 + c div 64) \<noteq> CHR ''=''" "b64_char (c mod 64) \<noteq> CHR ''=''"
    using bnd by (simp_all add: b64_char_not_pad)
  have IH: "atob_chars (btoa_units rest) = Some rest" using 1 by simp
  show ?case
  proof (cases rest)
    case Nil
    with bnd pads show ?thesis by (simp add: b64_group3 b64_decode_group)
  next
    case (Cons r rs)
    then obtain c4 cs where bt: "btoa_units rest = c4 # cs"
      by (metis btoa_units_Nil_iff list.exhaust list.distinct(1))
    with IH bnd show ?thesis by (simp add: b64_group3 b64_decode_group)
  qed
next
  case (2 a b)
  then have "a < 256" "b < 256" by simp_all
  then show ?case
    by (simp add: b64_group3(1,2) [where c = 0] b64_value_char b64_char_not_pad b64_decode_group(1)
        b64_decode_group(2) [where c = 0])
next
  case (3 a)
  then have "a < 256" by simp
  then show ?case by (simp add: b64_value_char b64_decode_group(1) [where b = 0 and c = 0])
next
  case 4
  then show ?case by simp
qed

text \<open>\<open>btoa\<close> is lossless on every string of the model.\<close>

lemma atob_btoa: "atob (btoa s) = Some s"
proof -
  have "\<forall>x \<in> set (map of_char s). x < (256::nat)" by simp
  then show ?thesis by (simp add: atob_def btoa_def atob_btoa_units comp_def)
qed

subsection \<open>JSON string lemmas\<close>

lemma hex_value_digit: "k < 16 \<Longrightarrow> hex_value (hex_digit k) = Some k"
proof -
  have "list_all (\<lambda>k. hex_value (hex_digit k) = Some k) [0..<16]"
    by code_simp
  then show "k < 16 \<Longrightarrow> ?thesis" by (simp add: list_all_iff)
qed

lemma hex4_control: "n < 32 \<Longrightarrow> hex4 (CHR ''0'') (CHR ''0'') (hex_digit (n div 16)) (hex_digit (n mod 16)) = Some n"
proof -
  assume "n < 32"
  then have "n div 16 < 16" "n mod 16 < 16" by simp_all
  then show ?thesis
    by (simp add: hex4_def hex_value_digit) (simp add: hex_value_def)
qed

lemma char_of_eq_iff: "n < (256::nat) \<Longrightarrow> char_of n = c \<longleftrightarrow> n = of_char c"
proof
  assume "n < 256" "char_of n = c"
  then have "of_char (char_of n) = (of_char c :: nat)" by simp
  with \<open>n < 256\<close> show "n = of_char c" by simp
next
  assume "n = of_char c"
  then show "char_of n = c" by simp
qed

lemma escape_cases:
  fixes n :: nat
  obtains "n = 8" | "n = 9" | "n = 10" | "n = 12" | "n = 13" | "n = 34" | "n = 92"
    | "n < 32" "n \<notin> {8, 9, 10, 12, 13}" | "32 \<le> n" "n \<noteq> 34" "n \<noteq> 92"
proof (cases "n < 32")
  case True
  then show ?thesis using that(1-5,8) by blast
next
  case False
  then show ?thesis using that(6,7,9) by (meson not_less)
qed

lemma json_string_body_short:
  "e \<noteq> CHR ''u'' \<Longrightarrow> short_unescape e = Some c \<Longrightarrow>
   json_string_body (CHR 0x5C # e # more) = map_option (apfst (Cons c)) (json_string_body more)"
  by simp

lemma json_string_body_escape:
  "json_string_body (json_escape_char c @ more) = map_option (apfst (Cons c)) (json_string_body more)"
proof -
  define n where "n = (of_char c :: nat)"
  have c: "c = char_of n" by (simp add: n_def)
  have n256: "n < 256" by (simp add: n_def)
  show ?thesis
  proof (cases n rule: escape_cases)
    case 8
    then have "json_escape_char c = [CHR 0x5C, CHR ''u'', CHR ''0'', CHR ''0'', hex_digit (n div 16), hex_digit (n mod 16)]"
      by (auto simp: json_escape_char_def n_def [symmetric])
    with 8 show ?thesis by (simp add: hex4_control c)
  next
    case 9
    then have "json_escape_char c = [c]" by (simp add: json_escape_char_def n_def [symmetric])
    with 9 n256 show ?thesis by (simp add: c char_of_eq_iff)
  next
    case 7
    have "char_of (92::nat) = CHR 0x5C" by code_simp
    with 7 show ?thesis by (simp add: json_escape_char_def n_def [symmetric] short_unescape_def c Let_def)
  qed (simp_all add: json_escape_char_def n_def [symmetric] short_unescape_def c char_of_eq_iff Let_def)
qed

lemma json_unquote_quote: "json_unquote (json_quote s @ rest) = Some (s, rest)"
proof -
  have "json_string_body (concat (map json_escape_char s) @ CHR 0x22 # rest) = Some (s, rest)"
    by (induction s) (simp_all add: json_string_body_escape)
  then show ?thesis by (simp add: json_unquote_def json_quote_def)
qed

end
