(* ===== verification/Auth.thy ===== *)
theory Auth
  imports Js_Encoding "HOL-Library.Monad_Syntax"
begin

text \<open>
  The session of \<open>src/src/contexts/AuthContext.jsx\<close> and the mock
  \<open>authApi\<close> of \<open>src/src/services/api.js\<close>.  The reducer \<open>authReducer\<close> is
  \<open>auth_reducer\<close> over the record \<open>auth_state\<close>, one equation per action type,
  the \<open>default\<close> branch included.  \<open>localStorage\<close> holds two keys; it is the
  record \<open>session_store\<close>.  The provider's operations (restore on mount, the two
  halves of the asynchronous \<open>login\<close>, \<open>logout\<close>) act on both.
  \<open>JSON.parse\<close> of the stored user is a parameter \<open>parse\<close> (\<open>None\<close> when it
  throws); the properties that need it assume only that it inverts
  \<open>JSON.stringify\<close> on user objects.  \<open>Date.now()\<close> is read twice by
  \<open>authApi.login\<close>, so a login takes two clock readings.
\<close>

subsection \<open>Users and the mock login API\<close>

text \<open>The user object (\<open>name\<close> is \<open>user_name\<close> here, \<open>name\<close> being a
  contract field of the development).\<close>

record user =
  username :: js_string
  email :: js_string
  user_name :: js_string

text \<open>\<open>toUpperCase\<close> of one code unit, as far as the result is again a Latin-1
  unit: \<open>a-z\<close>, \<open>U+00E0-U+00FE\<close> without \<open>U+00F7\<close> move down by 32, and
  \<open>U+00DF\<close> becomes \<open>SS\<close>.  (\<open>U+00B5\<close> and \<open>U+00FF\<close> map outside Latin-1
  and are kept, a limit of the 8-bit model.)\<close>

definition to_upper_unit :: "char \<Rightarrow> js_string" where
  "to_upper_unit c =
     (let n = of_char c :: nat in
      if (97 \<le> n \<and> n \<le> 122) \<or> (224 \<le> n \<and> n \<le> 254 \<and> n \<noteq> 247) then [char_of (n - 32)]
      else if n = 223 then ''SS'' else [c])"

text \<open>\<open>username.charAt(0).toUpperCase() + username.slice(1)\<close>\<close>

definition capitalize :: "js_string \<Rightarrow> js_string" where
  "capitalize s = (case s of [] \<Rightarrow> [] | c # cs \<Rightarrow> to_upper_unit c @ cs)"

definition make_user :: "js_string \<Rightarrow> user" where
  "make_user u = \<lparr>username = u, email = u @ ''@example.com'', user_name = capitalize u\<rparr>"

text \<open>\<open>JSON.stringify({username, exp, iat})\<close>, keys in insertion order.\<close>

definition token_payload :: "js_string \<Rightarrow> nat \<Rightarrow> nat \<Rightarrow> js_string" where
  \<open>token_payload u expiry_ms issued_ms =
     ''{"username":'' @ json_quote u @ '',"exp":'' @ show_nat expiry_ms @ '',"iat":'' @ show_nat issued_ms @ ''}''\<close>

definition auth_login ::
  "js_string \<Rightarrow> js_string \<Rightarrow> nat \<Rightarrow> nat \<Rightarrow> js_string + (js_string \<times> user)" where
  "auth_login u password now1 now2 =
     (if password \<noteq> ''test123'' then Inl ''Invalid credentials''
      else Inr (btoa (token_payload u (now1 + 24 * 60 * 60 * 1000) now2), make_user u))"

text \<open>\<open>JSON.stringify(response.user)\<close>\<close>

definition user_json :: "user \<Rightarrow> js_string" where
  \<open>user_json usr =
     ''{"username":'' @ json_quote (username usr) @ '',"email":'' @ json_quote (email usr)
     @ '',"name":'' @ json_quote (user_name usr) @ ''}''\<close>

subsection \<open>The reducer\<close>

record auth_state =
  is_authenticated :: bool
  user :: "user option"
  token :: "js_string option"
  auth_loading :: bool
  auth_error :: "js_string option"

datatype auth_action =
    LOGIN_START
  | LOGIN_SUCCESS user js_string
  | LOGIN_FAILURE js_string
  | LOGOUT
  | RESTORE_SESSION user js_string
  | Other_action

fun auth_reducer :: "auth_state \<Rightarrow> auth_action \<Rightarrow> auth_state" where
  "auth_reducer s LOGIN_START = s\<lparr>auth_loading := True, auth_error := None\<rparr>"
| "auth_reducer s (LOGIN_SUCCESS u t) =
     s\<lparr>auth_loading := False, is_authenticated := True, user := Some u, token := Some t,
       auth_error := None\<rparr>"
| "auth_reducer s (LOGIN_FAILURE msg) =
     s\<lparr>auth_loading := False, is_authenticated := False, user := None, token := None,
       auth_error := Some msg\<rparr>"
| "auth_reducer s LOGOUT =
     s\<lparr>auth_loading := False, is_authenticated := False, user := None, token := None,
       auth_error := None\<rparr>"
| "auth_reducer s (RESTORE_SESSION u t) =
     s\<lparr>auth_loading := False, is_authenticated := True, user := Some u, token := Some t\<rparr>"
| "auth_reducer s Other_action = s"

definition initial_auth :: auth_state where
  "initial_auth =
     \<lparr>is_authenticated = False, user = None, token = None, auth_loading = False, auth_error = None\<rparr>"

subsection \<open>Session storage and the provider's operations\<close>

text \<open>The keys \<open>auth_token\<close> and \<open>auth_user\<close>; \<open>getItem\<close> of a missing key is
  \<open>null\<close>, here \<open>None\<close>.\<close>

record session_store =
  stored_token :: "js_string option"
  stored_user :: "js_string option"

definition empty_store :: session_store where
  "empty_store = \<lparr>stored_token = None, stored_user = None\<rparr>"

record auth_sys =
  auth :: auth_state
  store :: session_store

text \<open>The mount effect: restore a stored session when both keys hold a non-empty
  (truthy) string, or clear storage whose user does not parse.\<close>

definition restore_session :: "(js_string \<Rightarrow> user option) \<Rightarrow> auth_sys \<Rightarrow> auth_sys" where
  "restore_session parse sys =
     (case (stored_token (store sys), stored_user (store sys)) of
        (Some t, Some u) \<Rightarrow>
          if t \<noteq> [] \<and> u \<noteq> [] then
            (case parse u of
               Some pu \<Rightarrow> sys\<lparr>auth := auth_reducer (auth sys) (RESTORE_SESSION pu t)\<rparr>
             | None \<Rightarrow> sys\<lparr>store := empty_store\<rparr>)
          else sys
      | _ \<Rightarrow> sys)"

text \<open>\<open>login\<close> up to its \<open>await\<close>, and its continuation once \<open>authApi.login\<close>
  has settled.\<close>

definition login_start :: "auth_sys \<Rightarrow> auth_sys" where
  "login_start sys = sys\<lparr>auth := auth_reducer (auth sys) LOGIN_START\<rparr>"

definition login_finish :: "auth_sys \<Rightarrow> js_string + (js_string \<times> user) \<Rightarrow> auth_sys" where
  "login_finish sys r =
     (case r of
        Inr (t, u) \<Rightarrow>
          \<lparr>auth = auth_reducer (auth sys) (LOGIN_SUCCESS u t),
           store = \<lparr>stored_token = Some t, stored_user = Some (user_json u)\<rparr>\<rparr>
      | Inl msg \<Rightarrow> sys\<lparr>auth := auth_reducer (auth sys) (LOGIN_FAILURE msg)\<rparr>)"

text \<open>\<open>logout\<close>: \<open>authApi.logout()\<close> always resolves; the \<open>finally\<close> block clears
  storage and dispatches \<open>LOGOUT\<close>.\<close>

definition logout :: "auth_sys \<Rightarrow> auth_sys" where
  "logout sys = \<lparr>auth = auth_reducer (auth sys) LOGOUT, store = empty_store\<rparr>"

datatype auth_event =
    Login_begin
  | Login_resolved js_string js_string nat nat
  | Logout_done

fun auth_step :: "auth_sys \<Rightarrow> auth_event \<Rightarrow> auth_sys" where
  "auth_step sys Login_begin = login_start sys"
| "auth_step sys (Login_resolved u pw now1 now2) = login_finish sys (auth_login u pw now1 now2)"
| "auth_step sys Logout_done = logout sys"

text \<open>A page load starts from the initial state and whatever storage holds, and
  runs the restore effect.\<close>

inductive auth_reachable :: "(js_string \<Rightarrow> user option) \<Rightarrow> auth_sys \<Rightarrow> bool" for parse where
  load: "auth_reachable parse (restore_session parse \<lparr>auth = initial_auth, store = st\<rparr>)"
| step: "auth_reachable parse sys \<Longrightarrow> auth_reachable parse (auth_step sys e)"

text \<open>\<open>useAuth\<close>: the provider's value (its state with \<open>login\<close> and
  \<open>logout\<close>), or the error thrown by a component outside the provider.\<close>

definition use_auth :: "auth_sys option \<Rightarrow> js_string + auth_sys" where
  "use_auth ctx = (case ctx of None \<Rightarrow> Inl ''useAuth must be used within an AuthProvider'' | Some s \<Rightarrow> Inr s)"

subsection \<open>A parser for stored users\<close>

text \<open>An instance of the \<open>parse\<close> parameter: it reads exactly the text
  \<open>JSON.stringify\<close> writes for a user (no white space, keys in order), and is
  used to show that the hypotheses of the properties below can hold.\<close>

definition strip_prefix :: "js_string \<Rightarrow> js_string \<Rightarrow> js_string option" where
  "strip_prefix p s = (if prefix p s then Some (drop (length p) s) else None)"

definition parse_user_json :: "js_string \<Rightarrow> user option" where
  \<open>parse_user_json s = do {
     r0 \<leftarrow> strip_prefix ''{"username":'' s;
     (un, r1) \<leftarrow> json_unquote r0;
     r2 \<leftarrow> strip_prefix '',"email":'' r1;
     (em, r3) \<leftarrow> json_unquote r2;
     r4 \<leftarrow> strip_prefix '',"name":'' r3;
     (nm, r5) \<leftarrow> json_unquote r4;
     if r5 = ''}'' then Some \<lparr>username = un, email = em, user_name = nm\<rparr> else None
   }\<close>

subsection \<open>Invariants\<close>

definition auth_consistent :: "auth_state \<Rightarrow> bool" where
  "auth_consistent s \<longleftrightarrow>
     (is_authenticated s \<longleftrightarrow> token s \<noteq> None) \<and> (is_authenticated s \<longleftrightarrow> user s \<noteq> None)"

text \<open>What a reload needs: an authenticated session is in storage, under a
  non-empty token and a non-empty user text that parses to the session's user.\<close>

definition session_stored :: "(js_string \<Rightarrow> user option) \<Rightarrow> auth_sys \<Rightarrow> bool" where
  "session_stored parse sys \<longleftrightarrow>
     (is_authenticated (auth sys) \<longrightarrow>
        stored_token (store sys) = token (auth sys) \<and> token (auth sys) \<noteq> Some []
        \<and> (\<exists>str. stored_user (store sys) = Some str \<and> str \<noteq> [] \<and> parse str = user (auth sys)))"

lemma strip_prefix_Nil [simp]: "strip_prefix [] s = Some s"
  by (simp add: strip_prefix_def)

lemma strip_prefix_Cons [simp]: "strip_prefix (c # p) (c # s) = strip_prefix p s"
  by (simp add: strip_prefix_def)

lemma parse_user_json_user_json: "parse_user_json (user_json u) = Some u"
  by (simp add: parse_user_json_def user_json_def json_unquote_quote)

lemma btoa_Nil_iff: "btoa s = [] \<longleftrightarrow> s = []"
  by (simp add: btoa_def btoa_units_Nil_iff)

lemma user_json_nonempty: "user_json u \<noteq> []"
  by (simp add: user_json_def)

lemma auth_login_token_nonempty: "auth_login u pw n1 n2 = Inr (t, usr) \<Longrightarrow> t \<noteq> []"
  by (auto simp: auth_login_def btoa_Nil_iff token_payload_def split: if_splits)

lemma auth_consistent_initial: "auth_consistent initial_auth"
  by (simp add: auth_consistent_def initial_auth_def)

lemma restore_session_consistent:
  "auth_consistent (auth sys) \<Longrightarrow> auth_consistent (auth (restore_session parse sys))"
  by (auto simp: restore_session_def auth_consistent_def split: option.splits)

lemma auth_step_consistent: "auth_consistent (auth sys) \<Longrightarrow> auth_consistent (auth (auth_step sys e))"
  by (cases e) (auto simp: login_start_def login_finish_def logout_def auth_consistent_def
      split: sum.splits)

lemma auth_reachable_consistent_lemma: "auth_reachable parse sys \<Longrightarrow> auth_consistent (auth sys)"
proof (induction rule: auth_reachable.induct)
  case (load st)
  show ?case by (rule restore_session_consistent) (simp add: auth_consistent_initial)
next
  case (step sys e)
  then show ?case by (simp add: auth_step_consistent)
qed

lemma session_stored_restore:
  "session_stored parse (restore_session parse \<lparr>auth = initial_auth, store = st\<rparr>)"
  by (auto simp: session_stored_def restore_session_def initial_auth_def empty_store_def
      split: option.splits)

lemma session_stored_step:
  assumes rt: "\<forall>u. parse (user_json u) = Some u"
    and inv: "session_stored parse sys"
  shows "session_stored parse (auth_step sys e)"
proof (cases e)
  case Login_begin
  with inv show ?thesis by (simp add: session_stored_def login_start_def)
next
  case (Login_resolved u pw n1 n2)
  show ?thesis
  proof (cases "auth_login u pw n1 n2")
    case (Inl msg)
    with Login_resolved show ?thesis by (simp add: session_stored_def login_finish_def)
  next
    case (Inr r)
    obtain t usr where r: "r = (t, usr)" by fastforce
    with Inr have "t \<noteq> []" by (simp add: auth_login_token_nonempty)
    with Inr r Login_resolved rt show ?thesis
      by (simp add: session_stored_def login_finish_def user_json_nonempty)
  qed
next
  case Logout_done
  then show ?thesis by (simp add: session_stored_def logout_def)
qed

lemma auth_reachable_session_stored:
  "\<forall>u. parse (user_json u) = Some u \<Longrightarrow> auth_reachable parse sys \<Longrightarrow> session_stored parse sys"
proof -
  assume rt: "\<forall>u. parse (user_json u) = Some u"
  show "auth_reachable parse sys \<Longrightarrow> session_stored parse sys"
  proof (induction rule: auth_reachable.induct)
    case (load st)
    show ?case by (rule session_stored_restore)
  next
    case (step sys e)
    with rt show ?case by (simp add: session_stored_step)
  qed
qed

lemma restore_initial_stored:
  assumes "stored_token st = Some t" "t \<noteq> []" "stored_user st = Some str" "str \<noteq> []"
    "parse str = Some usr"
  shows "restore_session parse \<lparr>auth = initial_auth, store = st\<rparr>
         = \<lparr>auth = initial_auth\<lparr>is_authenticated := True, user := Some usr, token := Some t\<rparr>, store = st\<rparr>"
  using assms by (simp add: restore_session_def initial_auth_def)

subsection \<open>Properties of the session\<close>

text \<open>C25 (roundtrip).  A successful mock login needs the password \<open>test123\<close>,
  returns the user built from the name, and a token that base64-decodes to the JSON
  payload with the user name, the expiry 24 hours after the first clock reading and
  the issue time of the second.\<close>

theorem login_token_decodes:
  "auth_login u pw n1 n2 = Inr (t, usr) \<Longrightarrow>
   pw = ''test123'' \<and> usr = make_user u \<and> atob t = Some (token_payload u (n1 + 86400000) n2)"
  by (auto simp: auth_login_def atob_btoa split: if_splits)

text \<open>Every action of \<open>authReducer\<close>, the unknown ones
  included, keeps \<open>isAuthenticated\<close> in step with the presence of a token and of
  a user.\<close>

theorem auth_reducer_consistent: "auth_consistent s \<Longrightarrow> auth_consistent (auth_reducer s a)"
  by (cases a) (auto simp: auth_consistent_def)

text \<open>C27 (invariant).  In every reachable state with a signed-in user, reloading
  the page (a fresh provider reading the same storage) restores exactly that
  session: same user, same token.  This needs only that \<open>JSON.parse\<close> inverts
  \<open>JSON.stringify\<close> on user objects.\<close>

theorem reload_restores_session:
  assumes "\<forall>u. parse (user_json u) = Some u" "auth_reachable parse sys" "is_authenticated (auth sys)"
  shows "auth (restore_session parse \<lparr>auth = initial_auth, store = store sys\<rparr>)
         = initial_auth\<lparr>is_authenticated := True, user := user (auth sys), token := token (auth sys)\<rparr>"
proof -
  have st: "session_stored parse sys" using assms(1,2) by (rule auth_reachable_session_stored)
  have c: "auth_consistent (auth sys)" using assms(2) by (rule auth_reachable_consistent_lemma)
  obtain t where t: "token (auth sys) = Some t"
    using c assms(3) by (auto simp: auth_consistent_def)
  obtain usr where usr: "user (auth sys) = Some usr"
    using c assms(3) by (auto simp: auth_consistent_def)
  obtain str where str: "stored_user (store sys) = Some str" "str \<noteq> []" "parse str = Some usr"
    using st assms(3) usr by (auto simp: session_stored_def)
  have "stored_token (store sys) = Some t" "t \<noteq> []"
    using st assms(3) t by (auto simp: session_stored_def)
  then show ?thesis using str t usr by (simp add: restore_initial_stored)
qed

text \<open>C28 (error).  A wrong password signs the user out in the state, records
  \<open>Invalid credentials\<close>, and leaves storage untouched.\<close>

theorem login_wrong_password:
  "pw \<noteq> ''test123'' \<Longrightarrow>
   auth (auth_step sys (Login_resolved u pw n1 n2))
     = (auth sys)\<lparr>auth_loading := False, is_authenticated := False, user := None, token := None,
                  auth_error := Some ''Invalid credentials''\<rparr>
   \<and> store (auth_step sys (Login_resolved u pw n1 n2)) = store sys"
  by (simp add: login_finish_def auth_login_def)

text \<open>C29 (safety).  A failed login attempt while signed in shows the user as
  signed out, but a reload signs them in again: \<open>LOGIN_FAILURE\<close> clears the
  state and not the stored session.\<close>

theorem failed_login_survives_reload:
  assumes "\<forall>u. parse (user_json u) = Some u" "auth_reachable parse sys" "is_authenticated (auth sys)"
    and "pw \<noteq> ''test123''"
  shows "\<not> is_authenticated (auth (auth_step (auth_step sys Login_begin) (Login_resolved u pw n1 n2)))
         \<and> is_authenticated (auth (restore_session parse
              \<lparr>auth = initial_auth, store = store (auth_step (auth_step sys Login_begin) (Login_resolved u pw n1 n2))\<rparr>))"
proof -
  have st: "session_stored parse sys" using assms(1,2) by (rule auth_reachable_session_stored)
  have c: "auth_consistent (auth sys)" using assms(2) by (rule auth_reachable_consistent_lemma)
  obtain t usr where tu: "token (auth sys) = Some t" "user (auth sys) = Some usr"
    using c assms(3) by (auto simp: auth_consistent_def)
  with st obtain str where "stored_token (store sys) = Some t" "t \<noteq> []"
    "stored_user (store sys) = Some str" "str \<noteq> []" "parse str = Some usr"
    using assms(3) by (auto simp: session_stored_def)
  moreover have "store (auth_step (auth_step sys Login_begin) (Login_resolved u pw n1 n2)) = store sys"
    using assms(4) by (simp add: login_start_def login_finish_def auth_login_def)
  ultimately show ?thesis using assms(4)
    by (simp add: restore_initial_stored login_start_def login_finish_def auth_login_def)
qed

text \<open>Logging out clears both storage keys and the session, so
  a reload stays signed out.\<close>

theorem logout_clears_session:
  "store (auth_step sys Logout_done) = empty_store
   \<and> \<not> is_authenticated (auth (auth_step sys Logout_done))
   \<and> user (auth (auth_step sys Logout_done)) = None \<and> token (auth (auth_step sys Logout_done)) = None
   \<and> restore_session parse \<lparr>auth = initial_auth, store = store (auth_step sys Logout_done)\<rparr>
       = \<lparr>auth = initial_auth, store = empty_store\<rparr>"
  by (simp add: logout_def restore_session_def empty_store_def)

text \<open>C31 (error).  On load, a stored user that does not parse removes both keys
  and leaves the session signed out.\<close>

theorem restore_malformed_clears:
  "stored_token st = Some t \<Longrightarrow> t \<noteq> [] \<Longrightarrow> stored_user st = Some str \<Longrightarrow> str \<noteq> [] \<Longrightarrow>
   parse str = None \<Longrightarrow>
   restore_session parse \<lparr>auth = initial_auth, store = st\<rparr> = \<lparr>auth = initial_auth, store = empty_store\<rparr>"
  by (simp add: restore_session_def)

subsection \<open>Witnesses\<close>

definition bob_session :: auth_sys where
  "bob_session = auth_step (restore_session parse_user_json \<lparr>auth = initial_auth, store = empty_store\<rparr>)
                   (Login_resolved ''bob'' ''test123'' 0 0)"

lemma parse_user_json_roundtrip: "\<forall>u. parse_user_json (user_json u) = Some u"
  by (simp add: parse_user_json_user_json)

lemma bob_session_reachable: "auth_reachable parse_user_json bob_session"
  unfolding bob_session_def by (rule auth_reachable.step [OF auth_reachable.load])

lemma bob_session_authenticated: "is_authenticated (auth bob_session)"
  by (simp add: bob_session_def restore_session_def empty_store_def login_finish_def auth_login_def)

theorem login_token_decodes_witness:
  "auth_login ''bob'' ''test123'' 0 0
     = Inr (btoa (token_payload ''bob'' 86400000 0), make_user ''bob'')
   \<and> atob (btoa (token_payload ''bob'' 86400000 0)) = Some (token_payload ''bob'' 86400000 0)"
proof -
  have h: "auth_login ''bob'' ''test123'' 0 0 = Inr (btoa (token_payload ''bob'' 86400000 0), make_user ''bob'')"
    by (simp add: auth_login_def)
  show ?thesis using login_token_decodes [OF h] h by simp
qed

theorem auth_reducer_consistent_witness:
  "auth_consistent (auth_reducer initial_auth (LOGIN_SUCCESS (make_user ''bob'') ''t''))"
  using auth_reducer_consistent [of initial_auth] by (simp add: auth_consistent_def initial_auth_def)

theorem reload_restores_session_witness:
  "auth_reachable parse_user_json bob_session \<and> is_authenticated (auth bob_session)
   \<and> is_authenticated (auth (restore_session parse_user_json \<lparr>auth = initial_auth, store = store bob_session\<rparr>))"
  using reload_restores_session [OF parse_user_json_roundtrip bob_session_reachable bob_session_authenticated]
    bob_session_reachable bob_session_authenticated
  by simp

theorem login_wrong_password_witness:
  "''hunter2'' \<noteq> ''test123''
   \<and> auth_error (auth (auth_step bob_session (Login_resolved ''bob'' ''hunter2'' 5 5)))
       = Some ''Invalid credentials''"
  using login_wrong_password [of "''hunter2''" bob_session "''bob''" 5 5] by simp

theorem failed_login_survives_reload_witness:
  "''hunter2'' \<noteq> ''test123''
   \<and> is_authenticated (auth (restore_session parse_user_json
       \<lparr>auth = initial_auth,
        store = store (auth_step (auth_step bob_session Login_begin) (Login_resolved ''bob'' ''hunter2'' 5 5))\<rparr>))"
  using failed_login_survives_reload [OF parse_user_json_roundtrip bob_session_reachable
      bob_session_authenticated, of "''hunter2''" "''bob''" 5 5]
  by simp

theorem restore_malformed_clears_witness:
  "parse_user_json ''{bad'' = None
   \<and> restore_session parse_user_json
       \<lparr>auth = initial_auth, store = \<lparr>stored_token = Some ''t'', stored_user = Some ''{bad''\<rparr>\<rparr>
     = \<lparr>auth = initial_auth, store = empty_store\<rparr>"
proof -
  have h: "parse_user_json ''{bad'' = None" by (simp add: parse_user_json_def strip_prefix_def)
  show ?thesis
    using restore_malformed_clears [of "\<lparr>stored_token = Some ''t'', stored_user = Some ''{bad''\<rparr>"
        "''t''" "''{bad''" parse_user_json] h
    by simp
qed

end
