(* ===== verification/Routing.thy ===== *)
theory Routing
  imports Auth
begin

text \<open>
  The route table of \<open>AppLayout\<close> in \<open>src/src/App.jsx\<close> and the handlers of
  \<open>src/src/components/DashboardLayout.jsx\<close>.  A path is matched as React
  Router v6 matches it by default: by its non-empty \<open>/\<close>-separated segments,
  static segments without regard to case, a \<open>:id\<close> segment binding the segment
  as written.  The element a route renders is the datatype \<open>route_element\<close>;
  \<open>ProtectedRoute\<close> and \<open>LoginPage\<close> are imported by \<open>App.jsx\<close> but are not
  part of the repository, so they appear as constructors only.  The layout's
  state is the record \<open>layout\<close> with the current location.
\<close>

datatype page =
    Login_page
  | Contracts_index
  | Detail_page js_string
  | Insights_page
  | Reports_page
  | Settings_page

datatype route_element =
    Navigate_to js_string
  | Plain page
  | Protected_layout page

text \<open>The segments of a path: the text between slashes, empty ones dropped.\<close>

fun split_slash :: "js_string \<Rightarrow> js_string \<Rightarrow> js_string list" where
  "split_slash acc [] = [acc]"
| "split_slash acc (c # cs) = (if c = CHR ''/'' then acc # split_slash [] cs else split_slash (acc @ [c]) cs)"

definition path_segments :: "js_string \<Rightarrow> js_string list" where
  "path_segments p = filter (\<lambda>s. s \<noteq> []) (split_slash [] p)"

definition seg_eq :: "js_string \<Rightarrow> js_string \<Rightarrow> bool" where
  "seg_eq s t = (to_lower s = to_lower t)"

text \<open>\<open>Routes\<close>: \<open>/login\<close>, \<open>/\<close> (redirect on \<open>isAuthenticated\<close>),
  \<open>/dashboard\<close> with its index and \<open>contract/:id\<close> children,
  \<open>/insights\<close>, \<open>/reports\<close>, \<open>/settings\<close>; no match renders nothing.\<close>

definition resolve_route :: "bool \<Rightarrow> js_string \<Rightarrow> route_element option" where
  "resolve_route authenticated p =
     (case path_segments p of
        [] \<Rightarrow> Some (Navigate_to (if authenticated then ''/dashboard'' else ''/login''))
      | [s] \<Rightarrow>
          (if seg_eq s ''login'' then Some (Plain Login_page)
           else if seg_eq s ''dashboard'' then Some (Protected_layout Contracts_index)
           else if seg_eq s ''insights'' then Some (Protected_layout Insights_page)
           else if seg_eq s ''reports'' then Some (Protected_layout Reports_page)
           else if seg_eq s ''settings'' then Some (Protected_layout Settings_page)
           else None)
      | [s, t, i] \<Rightarrow>
          (if seg_eq s ''dashboard'' \<and> seg_eq t ''contract'' then Some (Protected_layout (Detail_page i))
           else None)
      | _ \<Rightarrow> None)"

text \<open>The link of a row of the dashboard's table
  (\<open>navigate(`/dashboard/contract/${contract.id}`)\<close>).\<close>

definition contract_link :: "js_string \<Rightarrow> js_string" where
  "contract_link cid = ''/dashboard/contract/'' @ cid"

text \<open>\<open>resolve_route\<close> reads a pathname.  \<open>navigate\<close> parses its string as a
  URL: \<open>?\<close> and \<open>#\<close> start the search and the hash, dot segments are
  resolved, and a \<open>:id\<close> parameter is percent-decoded.  For an id made of the
  unreserved characters of RFC 3986 (letters, digits, \<open>-._~\<close>) that is not
  \<open>.\<close> or \<open>..\<close>, all of this is the identity, and the link is its own
  pathname.\<close>

definition url_unreserved :: "char \<Rightarrow> bool" where
  "url_unreserved c =
     (let n = (of_char c :: nat)
      in (48 \<le> n \<and> n \<le> 57) \<or> (65 \<le> n \<and> n \<le> 90) \<or> (97 \<le> n \<and> n \<le> 122) \<or> c \<in> set ''-._~'')"

definition url_safe_id :: "js_string \<Rightarrow> bool" where
  "url_safe_id cid = (cid \<noteq> [] \<and> cid \<noteq> ''.'' \<and> cid \<noteq> ''..'' \<and> list_all url_unreserved cid)"

text \<open>The sidebar's \<open>navigation\<close> items: name, target and whether it is
  \<open>current\<close> (\<open>location.pathname === href\<close>).\<close>

definition nav_targets :: "(js_string \<times> js_string) list" where
  "nav_targets = [(''Contracts'', ''/dashboard''), (''Insights'', ''/insights''),
                  (''Reports'', ''/reports''), (''Settings'', ''/settings'')]"

definition navigation :: "js_string \<Rightarrow> (js_string \<times> js_string \<times> bool) list" where
  "navigation pathname = map (\<lambda>(n, h). (n, h, pathname = h)) nav_targets"

record layout =
  location :: js_string
  sidebar_open :: bool
  user_dropdown_open :: bool

definition handle_navigation :: "js_string \<Rightarrow> layout \<Rightarrow> layout" where
  "handle_navigation href l = l\<lparr>location := href, sidebar_open := False\<rparr>"

definition toggle_user_dropdown :: "layout \<Rightarrow> layout" where
  "toggle_user_dropdown l = l\<lparr>user_dropdown_open := \<not> user_dropdown_open l\<rparr>"

definition set_sidebar :: "bool \<Rightarrow> layout \<Rightarrow> layout" where
  "set_sidebar b l = l\<lparr>sidebar_open := b\<rparr>"

definition close_user_dropdown :: "layout \<Rightarrow> layout" where
  "close_user_dropdown l = l\<lparr>user_dropdown_open := False\<rparr>"

text \<open>\<open>handleLogout\<close>: the provider's \<open>logout\<close>, then \<open>navigate('/login')\<close>.\<close>

definition handle_logout :: "auth_sys \<Rightarrow> layout \<Rightarrow> auth_sys \<times> layout" where
  "handle_logout sys l = (logout sys, l\<lparr>location := ''/login''\<rparr>)"

subsection \<open>Lemmas\<close>

lemma split_slash_append: "CHR ''/'' \<notin> set s \<Longrightarrow> split_slash acc (s @ r) = split_slash (acc @ s) r"
  by (induction s arbitrary: acc) auto

lemma split_slash_plain: "CHR ''/'' \<notin> set s \<Longrightarrow> split_slash acc s = [acc @ s]"
  using split_slash_append[of s acc "[]"] by simp

lemma path_segments_contract_link:
  "cid \<noteq> [] \<Longrightarrow> CHR ''/'' \<notin> set cid \<Longrightarrow> path_segments (contract_link cid) = [''dashboard'', ''contract'', cid]"
  by (simp add: path_segments_def contract_link_def split_slash_plain)

lemma url_safe_id_segment: "url_safe_id cid \<Longrightarrow> cid \<noteq> [] \<and> CHR ''/'' \<notin> set cid"
  by (auto simp: url_safe_id_def url_unreserved_def list_all_iff)

lemma navigation_current_iff: "(n, h, True) \<in> set (navigation p) \<longleftrightarrow> (n, h) \<in> set nav_targets \<and> p = h"
  unfolding navigation_def by force

lemma nav_targets_resolve_table:
  "map (\<lambda>(n, h). resolve_route a h) nav_targets =
     [Some (Protected_layout Contracts_index), Some (Protected_layout Insights_page),
      Some (Protected_layout Reports_page), Some (Protected_layout Settings_page)]"
  by (cases a) code_simp+

lemma nav_targets_resolve:
  "(n, h) \<in> set nav_targets \<Longrightarrow> \<exists>pg. resolve_route a h = Some (Protected_layout pg)"
  using nav_targets_resolve_table[of a] by (auto simp: nav_targets_def)

lemma resolve_login: "resolve_route a ''/login'' = Some (Plain Login_page)"
  by (cases a) code_simp+

text \<open>On a contract's page no item of the sidebar is marked current: the
  Contracts item is current on \<open>/dashboard\<close> only.\<close>

lemma navigation_detail_none_current: "(n, h, True) \<notin> set (navigation (contract_link cid))"
  by (auto simp: navigation_current_iff nav_targets_def contract_link_def)

subsection \<open>Properties\<close>

text \<open>C30: signing out from the layout's user menu clears both storage keys and
  the session, moves to \<open>/login\<close>, where the route table shows the login
  page; a reload from the cleared storage stays signed out.\<close>

theorem handle_logout_signs_out:
  "location (snd (handle_logout sys l)) = ''/login''
   \<and> resolve_route (is_authenticated (auth (fst (handle_logout sys l)))) (location (snd (handle_logout sys l)))
       = Some (Plain Login_page)
   \<and> store (fst (handle_logout sys l)) = empty_store
   \<and> \<not> is_authenticated (auth (fst (handle_logout sys l)))
   \<and> user (auth (fst (handle_logout sys l))) = None \<and> token (auth (fst (handle_logout sys l))) = None
   \<and> restore_session parse \<lparr>auth = initial_auth, store = store (fst (handle_logout sys l))\<rparr>
       = \<lparr>auth = initial_auth, store = empty_store\<rparr>"
  by (simp add: handle_logout_def logout_def restore_session_def empty_store_def resolve_login)

end
