(* ===== verification/Dashboard_View.thy ===== *)
theory Dashboard_View
  imports Dashboard Routing
begin

text \<open>
  The render of \<open>src/src/pages/ContractsDashboard.jsx\<close> as a function of the
  component's state: the early returns (skeleton while loading, the error box),
  then the results line, the empty state or the table of the current page, and
  the pagination controls.  A table row keeps what the row shows: name, parties,
  expiry, the status icon and badge classes, the risk badge classes and the
  target of its View button.  Markup without data (headings, the filter panel's
  layout) is left out.
\<close>

record table_row =
  row_name :: js_string
  row_parties :: js_string
  row_expiry :: js_string
  row_icon :: "icon option"
  row_status_class :: js_string
  row_status :: js_string
  row_risk_class :: js_string
  row_risk :: js_string
  row_link :: js_string

definition contract_row :: "contract \<Rightarrow> table_row" where
  "contract_row c =
     \<lparr>row_name = name c, row_parties = parties c, row_expiry = expiry c,
      row_icon = get_status_icon (status c), row_status_class = ''ml-2 '' @ get_status_badge (status c),
      row_status = status c, row_risk_class = get_risk_badge (risk c), row_risk = risk c,
      row_link = contract_link (contract_id c)\<rparr>"

text \<open>The empty state's hint: \<open>searchQuery || filters.status.length > 0 ||
  filters.risk.length > 0\<close>.\<close>

definition empty_state_hint :: "dashboard \<Rightarrow> js_string" where
  "empty_state_hint s =
     (if search_query s \<noteq> [] \<or> status_filter (filters s) \<noteq> [] \<or> risk_filter (filters s) \<noteq> []
      then ''Try adjusting your search criteria or filters.''
      else ''Upload your first contract to get started.'')"

datatype dash_body = Empty_state js_string | Table "table_row list"

text \<open>The pagination bar: "Page p of t", Previous and Next with their
  \<open>disabled\<close> flags, and one button per page with whether it is the current one.\<close>

record pager =
  pager_page :: int
  pager_total :: int
  pager_prev_disabled :: bool
  pager_next_disabled :: bool
  pager_buttons :: "(int \<times> bool) list"

definition pager_of :: "dashboard \<Rightarrow> pager option" where
  "pager_of s =
     (let n = length (filtered_contracts s); p = current_page s
      in if pagination_shown n
         then Some \<lparr>pager_page = p, pager_total = total_pages n, pager_prev_disabled = previous_disabled p,
                    pager_next_disabled = next_disabled n p,
                    pager_buttons = map (\<lambda>q. (q, p = q)) (page_numbers n)\<rparr>
         else None)"

datatype dash_view =
    Dash_skeleton
  | Dash_error_box js_string
  | Dash_content "int \<times> int \<times> int" dash_body "pager option"

text \<open>The last return: the results line, then the empty state or the table of
  \<open>currentContracts\<close>, then the pagination bar.\<close>

definition dashboard_content :: "dashboard \<Rightarrow> dash_view" where
  "dashboard_content s =
     Dash_content (results_summary (length (filtered_contracts s)) (current_page s))
       (if filtered_contracts s = [] then Empty_state (empty_state_hint s)
        else Table (map contract_row (visible_rows s)))
       (pager_of s)"

text \<open>\<open>if (loading)\<close> and \<open>if (error)\<close>, an empty message being falsy.\<close>

definition dashboard_view :: "dashboard \<Rightarrow> dash_view" where
  "dashboard_view s =
     (if loading s then Dash_skeleton
      else case error s of
        Some e \<Rightarrow> if e \<noteq> [] then Dash_error_box e else dashboard_content s
      | None \<Rightarrow> dashboard_content s)"

subsection \<open>Lemmas\<close>

lemma filter_current_button:
  "distinct xs \<Longrightarrow> filter snd (map (\<lambda>q. (q, p = q)) xs) = (if p \<in> set xs then [(p, True)] else [])"
  by (induction xs) auto

lemma distinct_page_numbers: "distinct (page_numbers n)"
  by (simp add: page_numbers_def distinct_map inj_on_def)

lemma mem_page_numbers: "p \<in> set (page_numbers n) \<longleftrightarrow> 1 \<le> p \<and> p \<le> total_pages n"
proof
  assume "p \<in> set (page_numbers n)"
  then show "1 \<le> p \<and> p \<le> total_pages n" by (auto simp: page_numbers_def)
next
  assume a: "1 \<le> p \<and> p \<le> total_pages n"
  have "p \<in> (\<lambda>idx. int idx + 1) ` {0..<nat (total_pages n)}"
    by (rule image_eqI[where x = "nat (p - 1)"]) (use a in auto)
  then show "p \<in> set (page_numbers n)" by (simp add: page_numbers_def)
qed

lemma pager_of_cases:
  "pager_of s = None \<longleftrightarrow> \<not> pagination_shown (length (filtered_contracts s))"
  "pager_of s = Some pg \<Longrightarrow>
     pagination_shown (length (filtered_contracts s)) \<and>
     pager_buttons pg = map (\<lambda>q. (q, current_page s = q)) (page_numbers (length (filtered_contracts s)))"
  by (auto simp: pager_of_def Let_def split: if_splits)

lemma pagination_shown_iff: "pagination_shown n \<longleftrightarrow> 10 < n"
  by (auto simp: pagination_shown_def total_pages_def items_per_page_def)

subsection \<open>Properties\<close>

text \<open>C6 (safety).  In every reachable state that has finished loading without
  error and has a non-empty view, the dashboard draws the table of the current
  page, one to ten rows; the pagination bar is drawn exactly when the view has
  more than ten rows, and then marks exactly one button as current, the current
  page's.\<close>

theorem dashboard_view_settled:
  assumes "dash_reachable s" "\<not> loading s" "error s = None" "filtered_contracts s \<noteq> []"
  shows "dashboard_view s =
           Dash_content (results_summary (length (filtered_contracts s)) (current_page s))
             (Table (map contract_row (visible_rows s))) (pager_of s)
         \<and> 0 < length (visible_rows s) \<and> length (visible_rows s) \<le> 10
         \<and> (case pager_of s of
              None \<Rightarrow> length (filtered_contracts s) \<le> 10
            | Some pg \<Rightarrow> 10 < length (filtered_contracts s) \<and>
                         filter snd (pager_buttons pg) = [(current_page s, True)])"
proof -
  let ?n = "length (filtered_contracts s)"
  have inv: "1 \<le> current_page s" "current_page s \<le> max 1 (total_pages ?n)"
    using dash_reachable_inv[OF assms(1)] unfolding dash_inv_def by blast+
  have "0 < total_pages ?n" using assms(4) total_pages_pos by simp
  then have le: "current_page s \<le> total_pages ?n" using inv(2) by simp
  then have "visible_rows s \<noteq> []"
    using current_contracts_nonempty inv(1) by (simp add: visible_rows_def)
  moreover have "length (visible_rows s) \<le> 10"
    using length_current_contracts[OF inv(1), of "filtered_contracts s"] by (simp add: visible_rows_def)
  moreover have "case pager_of s of
              None \<Rightarrow> ?n \<le> 10
            | Some pg \<Rightarrow> 10 < ?n \<and> filter snd (pager_buttons pg) = [(current_page s, True)]"
  proof (cases "pager_of s")
    case None
    then have "\<not> pagination_shown ?n" using pager_of_cases(1) by blast
    with None show ?thesis by (simp add: pagination_shown_iff)
  next
    case (Some pg)
    note pg = pager_of_cases(2)[OF Some]
    have "current_page s \<in> set (page_numbers ?n)"
      using inv(1) le by (simp add: mem_page_numbers)
    with pg Some show ?thesis
      by (simp add: pagination_shown_iff filter_current_button distinct_page_numbers)
  qed
  ultimately show ?thesis
    using assms(2-4) by (simp add: dashboard_view_def dashboard_content_def)
qed

text \<open>The View button of a row opens the detail route of the row's contract.\<close>

lemma contract_row_link:
  "url_safe_id (contract_id c) \<Longrightarrow>
   resolve_route a (row_link (contract_row c)) = Some (Protected_layout (Detail_page (contract_id c)))"
  using url_safe_id_segment[of "contract_id c"]
  by (simp add: contract_row_def path_segments_contract_link resolve_route_def seg_eq_def)

text \<open>C15 (functional).  The empty state's hint tests the query untrimmed: in
  every reachable settled state with an empty store, no facet selected and a
  query of blanks only (which filters nothing), the dashboard reports
  "Showing 1-0 of 0" and the hint to adjust the search, not the hint to upload a
  first contract.\<close>

theorem empty_state_blank_query:
  assumes "dash_reachable s" "\<not> loading s" "error s = None" "contracts s = []"
    and "search_query s \<noteq> []" "js_trim (search_query s) = []" "filters s = empty_filters"
  shows "dashboard_view s =
           Dash_content (1, 0, 0) (Empty_state ''Try adjusting your search criteria or filters.'') None"
proof -
  have inv: "filtered_contracts s = apply_filters_and_search (contracts s) (search_query s) (filters s)"
    "1 \<le> current_page s" "current_page s \<le> max 1 (total_pages (length (filtered_contracts s)))"
    using dash_reachable_inv[OF assms(1)] unfolding dash_inv_def by blast+
  then have f: "filtered_contracts s = []" and p: "current_page s = 1"
    using assms(4) by (simp_all add: apply_filters_and_search_def facet_filter_def)
  then show ?thesis
    using assms(2,3,5) by (simp add: dashboard_view_def dashboard_content_def empty_state_hint_def
        pager_of_def pagination_shown_def results_summary_def start_index_def end_index_def
        items_per_page_def)
qed

subsection \<open>Witnesses\<close>

lemma loaded_state_fields:
  "filtered_contracts (dashboard_step dashboard_mounted (Contracts_loaded (Response True (Some cs)))) =
     apply_filters_and_search cs [] empty_filters"
  "contracts (dashboard_step dashboard_mounted (Contracts_loaded (Response True (Some cs)))) = cs"
  "loading (dashboard_step dashboard_mounted (Contracts_loaded (Response True (Some cs)))) = False"
  "error (dashboard_step dashboard_mounted (Contracts_loaded (Response True (Some cs)))) = None"
  "current_page (dashboard_step dashboard_mounted (Contracts_loaded (Response True (Some cs)))) = 1"
  "search_query (dashboard_step dashboard_mounted (Contracts_loaded (Response True (Some cs)))) = []"
  "filters (dashboard_step dashboard_mounted (Contracts_loaded (Response True (Some cs)))) = empty_filters"
  by (simp_all add: dashboard_step_def load_contracts_finish_def get_contracts_def fetch_json_def
      catch_rethrow_def apply_filters_effect_def dashboard_mounted_def load_contracts_start_def
      initial_dashboard_def)

theorem dashboard_view_settled_witness:
  "dashboard_view (dashboard_step dashboard_mounted (Contracts_loaded (Response True (Some [sample_contract])))) =
     Dash_content (1, 1, 1) (Table [contract_row sample_contract]) None"
proof -
  let ?s = "dashboard_step dashboard_mounted (Contracts_loaded (Response True (Some [sample_contract])))"
  have r: "dash_reachable ?s" by (rule dash_reachable.step [OF dash_reachable.mounted])
  have f: "filtered_contracts ?s = [sample_contract]"
    by (simp add: loaded_state_fields apply_filters_and_search_def facet_filter_def empty_filters_def js_trim_def)
  have v: "visible_rows ?s = [sample_contract]"
    by (simp add: visible_rows_def f loaded_state_fields(5) current_contracts_def js_slice_def js_rel_index_def
        start_index_def end_index_def items_per_page_def)
  have p: "pager_of ?s = None"
    by (simp add: pager_of_def f pagination_shown_def total_pages_def items_per_page_def)
  show ?thesis
    using dashboard_view_settled[OF r] f v p
    by (simp add: loaded_state_fields results_summary_def start_index_def end_index_def items_per_page_def)
qed

theorem empty_state_blank_query_witness:
  "dashboard_view (dashboard_step (dashboard_step dashboard_mounted (Contracts_loaded (Response True (Some []))))
      (Search_input ''  '')) =
   Dash_content (1, 0, 0) (Empty_state ''Try adjusting your search criteria or filters.'') None"
proof -
  let ?s1 = "dashboard_step dashboard_mounted (Contracts_loaded (Response True (Some [])))"
  let ?s2 = "dashboard_step ?s1 (Search_input ''  '')"
  have r: "dash_reachable ?s2"
    by (rule dash_reachable.step [OF dash_reachable.step [OF dash_reachable.mounted]])
  have e: "?s2 = apply_filters_effect (?s1\<lparr>search_query := ''  ''\<rparr>)"
    unfolding dashboard_step_def[of ?s1 "Search_input ''  ''"] by (simp add: loaded_state_fields)
  have "\<not> loading ?s2" "error ?s2 = None" "contracts ?s2 = []" "search_query ?s2 = ''  ''"
    "filters ?s2 = empty_filters"
    by (simp_all add: e apply_filters_effect_def loaded_state_fields)
  moreover have "js_trim ''  '' = []" by (simp add: js_trim_def is_js_space_def)
  ultimately show ?thesis using empty_state_blank_query[OF r] by simp
qed

end
