(* ===== verification/Upload.thy ===== *)
theory Upload
  imports Js_Encoding "HOL-Library.Multiset"
begin

text \<open>
  The upload dialog of \<open>src/src/components/UploadModal.jsx\<close> with
  \<open>uploadApi.uploadFile\<close> of \<open>src/src/services/api.js\<close> and the open flag of
  \<open>AppLayout\<close> in \<open>src/src/App.jsx\<close>.  The component keeps a list of file
  items; \<open>uploadFile\<close> marks an item as uploading, starts a 200 ms progress
  interval and awaits the upload, which succeeds or fails at random.  Timers and the
  random outcome make the dialog a machine with choice: its steps are the inductive
  relation \<open>upload_step\<close>, one rule per handler, timer tick and settlement, with
  \<open>Math.random()\<close> as any real in \<open>[0, 1)\<close>.  Item ids
  (\<open>Date.now() + Math.random()\<close>) are only compared with \<open>===\<close>; they are
  tags chosen by the environment, not assumed distinct.  The state records which
  ids have a running interval and which uploads are in flight.
\<close>

datatype upload_status = Pending | Uploading | Upload_success | Upload_error

record file_item =
  file_id :: nat
  file_name :: js_string
  file_size :: nat
  file_status :: upload_status
  progress :: real
  file_error :: "js_string option"

record upload_modal =
  files :: "file_item list"
  drag_active :: bool
  running :: "nat list"
  in_flight :: "nat list"
  modal_open :: bool

definition initial_upload :: upload_modal where
  "initial_upload = \<lparr>files = [], drag_active = False, running = [], in_flight = [], modal_open = False\<rparr>"

text \<open>\<open>newFiles\<close> of \<open>handleFiles\<close>.\<close>

definition new_file_item :: "nat \<times> js_string \<times> nat \<Rightarrow> file_item" where
  "new_file_item x = (case x of (i, n, sz) \<Rightarrow>
     \<lparr>file_id = i, file_name = n, file_size = sz, file_status = Pending, progress = 0, file_error = None\<rparr>)"

text \<open>\<open>setFiles(prev => prev.map(f => f.id === id ? g(f) : f))\<close>\<close>

definition update_file :: "nat \<Rightarrow> (file_item \<Rightarrow> file_item) \<Rightarrow> file_item list \<Rightarrow> file_item list" where
  "update_file i g fs = map (\<lambda>f. if file_id f = i then g f else f) fs"

text \<open>\<open>uploadFile\<close> up to its \<open>await\<close>: the item becomes uploading at 0 and its
  interval starts.\<close>

definition start_upload :: "nat \<Rightarrow> upload_modal \<Rightarrow> upload_modal" where
  "start_upload i m =
     m\<lparr>files := update_file i (\<lambda>f. f\<lparr>file_status := Uploading, progress := 0\<rparr>) (files m),
       running := running m @ [i], in_flight := in_flight m @ [i]\<rparr>"

definition handle_files :: "(nat \<times> js_string \<times> nat) list \<Rightarrow> upload_modal \<Rightarrow> upload_modal" where
  "handle_files new m =
     fold start_upload (map fst new) (m\<lparr>files := files m @ map new_file_item new\<rparr>)"

text \<open>One interval tick with \<open>Math.random() = r\<close>.\<close>

definition progress_tick :: "nat \<Rightarrow> real \<Rightarrow> upload_modal \<Rightarrow> upload_modal" where
  "progress_tick i r m =
     m\<lparr>files := map (\<lambda>f. if file_id f = i \<and> progress f < 90 then f\<lparr>progress := progress f + r * 20\<rparr> else f)
                  (files m)\<rparr>"

text \<open>The upload resolved: \<open>clearInterval\<close>, then success at 100.\<close>

definition upload_succeeded :: "nat \<Rightarrow> upload_modal \<Rightarrow> upload_modal" where
  "upload_succeeded i m =
     m\<lparr>running := remove1 i (running m), in_flight := remove1 i (in_flight m),
       files := update_file i (\<lambda>f. f\<lparr>file_status := Upload_success, progress := 100\<rparr>) (files m)\<rparr>"

text \<open>The upload rejected: the \<open>catch\<close> block marks the error; the interval,
  declared inside the \<open>try\<close>, is not cleared.\<close>

definition upload_failed :: "nat \<Rightarrow> js_string \<Rightarrow> upload_modal \<Rightarrow> upload_modal" where
  "upload_failed i msg m =
     m\<lparr>in_flight := remove1 i (in_flight m),
       files := update_file i (\<lambda>f. f\<lparr>file_status := Upload_error, file_error := Some msg\<rparr>) (files m)\<rparr>"

definition remove_file :: "nat \<Rightarrow> upload_modal \<Rightarrow> upload_modal" where
  "remove_file i m = m\<lparr>files := filter (\<lambda>f. file_id f \<noteq> i) (files m)\<rparr>"

text \<open>\<open>handleClose\<close>: \<open>setFiles([])\<close> and the parent's \<open>onClose\<close>.\<close>

definition handle_close :: "upload_modal \<Rightarrow> upload_modal" where
  "handle_close m = m\<lparr>files := [], modal_open := False\<rparr>"

datatype drag_kind = Drag_enter | Drag_over | Drag_leave | Drag_other

definition handle_drag :: "drag_kind \<Rightarrow> upload_modal \<Rightarrow> upload_modal" where
  "handle_drag k m =
     (if k = Drag_enter \<or> k = Drag_over then m\<lparr>drag_active := True\<rparr>
      else if k = Drag_leave then m\<lparr>drag_active := False\<rparr> else m)"

definition handle_drop :: "(nat \<times> js_string \<times> nat) list \<Rightarrow> upload_modal \<Rightarrow> upload_modal" where
  "handle_drop new m =
     (let m' = m\<lparr>drag_active := False\<rparr> in if new \<noteq> [] then handle_files new m' else m')"

text \<open>The \<open>upload-modal-open\<close> document event of \<open>AppLayout\<close>.\<close>

definition open_modal :: "upload_modal \<Rightarrow> upload_modal" where
  "open_modal m = m\<lparr>modal_open := True\<rparr>"

text \<open>\<open>uploadApi.uploadFile\<close> rejects with this message.\<close>

definition upload_error_message :: js_string where
  "upload_error_message = ''Upload failed''"

text \<open>The handlers wired in the dialog's markup act only while it is open
  (\<open>if (!isOpen) return null\<close>), and the remove button exists only for listed
  items; timers and pending uploads run on regardless.\<close>

inductive upload_step :: "upload_modal \<Rightarrow> upload_modal \<Rightarrow> bool" where
  add_files: "modal_open m \<Longrightarrow> upload_step m (handle_files new m)"
| drop_files: "modal_open m \<Longrightarrow> upload_step m (handle_drop new m)"
| drag: "modal_open m \<Longrightarrow> upload_step m (handle_drag k m)"
| tick: "i \<in> set (running m) \<Longrightarrow> 0 \<le> r \<Longrightarrow> r < 1 \<Longrightarrow> upload_step m (progress_tick i r m)"
| succeed: "i \<in> set (in_flight m) \<Longrightarrow> upload_step m (upload_succeeded i m)"
| fail: "i \<in> set (in_flight m) \<Longrightarrow> upload_step m (upload_failed i upload_error_message m)"
| remove: "modal_open m \<Longrightarrow> i \<in> file_id ` set (files m) \<Longrightarrow> upload_step m (remove_file i m)"
| close: "modal_open m \<Longrightarrow> upload_step m (handle_close m)"
| open_dialog: "upload_step m (open_modal m)"

inductive upload_reachable :: "upload_modal \<Rightarrow> bool" where
  init: "upload_reachable initial_upload"
| step: "upload_reachable m \<Longrightarrow> upload_step m m' \<Longrightarrow> upload_reachable m'"

text \<open>\<open>getStatusText\<close>.\<close>

definition show_int :: "int \<Rightarrow> js_string" where
  "show_int z = (if z < 0 then ''-'' @ show_nat (nat (- z)) else show_nat (nat z))"

definition get_status_text :: "file_item \<Rightarrow> js_string" where
  "get_status_text f =
     (case file_status f of
        Pending \<Rightarrow> ''Pending...''
      | Uploading \<Rightarrow> ''Uploading... '' @ show_int (js_round (progress f)) @ ''%''
      | Upload_success \<Rightarrow> ''Uploaded successfully''
      | Upload_error \<Rightarrow> (case file_error f of Some e \<Rightarrow> if e \<noteq> [] then e else ''Upload failed''
                                             | None \<Rightarrow> ''Upload failed''))"

text \<open>The footer's "x of n files uploaded".\<close>

definition uploaded_count :: "upload_modal \<Rightarrow> nat \<times> nat" where
  "uploaded_count m = (length (filter (\<lambda>f. file_status f = Upload_success) (files m)), length (files m))"

subsection \<open>Invariant and a scenario\<close>

text \<open>Every listed item's progress lies in \<open>[0, 110)\<close>, and every upload in
  flight owns a running interval (as multisets: an id uploaded twice owns two).\<close>

definition upload_inv :: "upload_modal \<Rightarrow> bool" where
  "upload_inv m =
     ((\<forall>f\<in>set (files m). 0 \<le> progress f \<and> progress f < 110) \<and> mset (in_flight m) \<subseteq># mset (running m))"

text \<open>One file is picked and the random source draws 0.95 four times, then
  0.65 and 0.99.\<close>

definition overshoot_run :: upload_modal where
  "overshoot_run =
     fold (progress_tick 1) [19/20, 19/20, 19/20, 19/20, 13/20, 99/100]
       (handle_files [(1, ''contract.pdf'', 2048)] (open_modal initial_upload))"

subsection \<open>Lemmas\<close>

lemma set_update_file: "set (update_file i g fs) \<subseteq> set fs \<union> g ` set fs"
  unfolding update_file_def by auto

lemma update_file_fresh: "i \<notin> file_id ` set fs \<Longrightarrow> update_file i g fs = fs"
  unfolding update_file_def by (induction fs) auto

lemma progress_bounded_update:
  assumes "\<forall>f\<in>set fs. 0 \<le> progress f \<and> progress f < 110"
    and "\<And>f. f \<in> set fs \<Longrightarrow> 0 \<le> progress (g f) \<and> progress (g f) < 110"
  shows "\<forall>f\<in>set (update_file i g fs). 0 \<le> progress f \<and> progress f < 110"
  using assms set_update_file[of i g fs] by blast

lemma upload_inv_start_upload: "upload_inv m \<Longrightarrow> upload_inv (start_upload i m)"
proof -
  assume inv: "upload_inv m"
  have "\<forall>f\<in>set (files (start_upload i m)). 0 \<le> progress f \<and> progress f < 110"
    unfolding start_upload_def using inv
    by (simp add: upload_inv_def) (rule progress_bounded_update; simp)
  moreover have "mset (in_flight (start_upload i m)) \<subseteq># mset (running (start_upload i m))"
    using inv by (simp add: upload_inv_def start_upload_def)
  ultimately show ?thesis by (simp add: upload_inv_def)
qed

lemma upload_inv_fold_start_upload: "upload_inv m \<Longrightarrow> upload_inv (fold start_upload is m)"
  by (induction "is" arbitrary: m) (simp_all add: upload_inv_start_upload)

lemma upload_inv_handle_files: "upload_inv m \<Longrightarrow> upload_inv (handle_files new m)"
  unfolding handle_files_def
  by (rule upload_inv_fold_start_upload) (auto simp: upload_inv_def new_file_item_def split: prod.splits)


lemma upload_inv_handle_drop: "upload_inv m \<Longrightarrow> upload_inv (handle_drop new m)"
proof -
  assume "upload_inv m"
  then have "upload_inv (m\<lparr>drag_active := False\<rparr>)" by (simp add: upload_inv_def)
  then show ?thesis
    unfolding handle_drop_def Let_def by (simp add: upload_inv_handle_files)
qed

lemma upload_inv_progress_tick:
  assumes "upload_inv m" "0 \<le> r" "r < 1"
  shows "upload_inv (progress_tick i r m)"
proof -
  have "0 \<le> progress f + r * 20 \<and> progress f + r * 20 < 110"
    if "0 \<le> progress f" "progress f < 90" for f
    using that assms(2,3) by simp
  then show ?thesis
    using assms(1) by (auto simp: upload_inv_def progress_tick_def)
qed

lemma upload_inv_succeeded: "upload_inv m \<Longrightarrow> upload_inv (upload_succeeded i m)"
proof -
  assume inv: "upload_inv m"
  have "\<forall>f\<in>set (files (upload_succeeded i m)). 0 \<le> progress f \<and> progress f < 110"
    unfolding upload_succeeded_def using inv
    by (simp add: upload_inv_def) (rule progress_bounded_update; simp)
  moreover have "mset (in_flight m) - {#i#} \<subseteq># mset (running m) - {#i#}"
    using inv by (auto simp: upload_inv_def subseteq_mset_def intro: diff_le_mono)
  ultimately show ?thesis by (simp add: upload_inv_def upload_succeeded_def)
qed

lemma upload_inv_failed: "upload_inv m \<Longrightarrow> upload_inv (upload_failed i msg m)"
proof -
  assume inv: "upload_inv m"
  have "\<forall>f\<in>set (files (upload_failed i msg m)). 0 \<le> progress f \<and> progress f < 110"
    unfolding upload_failed_def using inv
    by (simp add: upload_inv_def) (rule progress_bounded_update; simp)
  moreover have "mset (in_flight m) - {#i#} \<subseteq># mset (running m)"
    using inv by (simp add: upload_inv_def subset_mset.order_trans[OF diff_subset_eq_self])
  ultimately show ?thesis by (simp add: upload_inv_def upload_failed_def)
qed

lemma upload_step_inv: "upload_step m m' \<Longrightarrow> upload_inv m \<Longrightarrow> upload_inv m'"
  by (induction rule: upload_step.induct)
     (simp_all add: upload_inv_handle_files upload_inv_handle_drop upload_inv_progress_tick
        upload_inv_succeeded upload_inv_failed,
      auto simp: upload_inv_def handle_drag_def remove_file_def handle_close_def open_modal_def)

lemma upload_reachable_inv: "upload_reachable m \<Longrightarrow> upload_inv m"
proof (induction rule: upload_reachable.induct)
  case init
  then show ?case by (simp add: upload_inv_def initial_upload_def)
next
  case (step m m')
  then show ?case using upload_step_inv by blast
qed


lemma fold_update_file:
  assumes "\<And>f. file_id (g f) = file_id f" "\<And>f. g (g f) = g f"
  shows "fold (\<lambda>i. update_file i g) is fs = map (\<lambda>f. if file_id f \<in> set is then g f else f) fs"
  using assms by (induction "is" arbitrary: fs) (auto simp: update_file_def)

lemma files_fold_start_upload:
  "files (fold start_upload is m) =
     fold (\<lambda>i. update_file i (\<lambda>f. f\<lparr>file_status := Uploading, progress := 0\<rparr>)) is (files m)"
  by (induction "is" arbitrary: m) (simp_all add: start_upload_def)

lemma queues_fold_start_upload:
  "running (fold start_upload is m) = running m @ is \<and> in_flight (fold start_upload is m) = in_flight m @ is"
  by (induction "is" arbitrary: m) (simp_all add: start_upload_def)

lemma progress_tick_queues [simp]:
  "running (progress_tick i r m) = running m" "in_flight (progress_tick i r m) = in_flight m"
  "modal_open (progress_tick i r m) = modal_open m"
  by (simp_all add: progress_tick_def)

lemma upload_reachable_ticks:
  "upload_reachable m \<Longrightarrow> i \<in> set (running m) \<Longrightarrow> \<forall>r\<in>set rs. 0 \<le> r \<and> r < 1 \<Longrightarrow>
   upload_reachable (fold (progress_tick i) rs m)"
proof (induction rs arbitrary: m)
  case (Cons r rs)
  then have "upload_reachable (progress_tick i r m)"
    using upload_reachable.step upload_step.tick by simp
  with Cons show ?case by simp
qed simp

lemma upload_reachable_first_file:
  "upload_reachable (handle_files [(1, ''contract.pdf'', 2048)] (open_modal initial_upload))"
proof -
  have "upload_reachable (open_modal initial_upload)"
    by (rule upload_reachable.step[OF upload_reachable.init upload_step.open_dialog])
  moreover have "modal_open (open_modal initial_upload)" by (simp add: open_modal_def)
  ultimately show ?thesis by (rule upload_reachable.step[OF _ upload_step.add_files])
qed

lemma overshoot_run_reachable: "upload_reachable overshoot_run"
  unfolding overshoot_run_def
  by (rule upload_reachable_ticks[OF upload_reachable_first_file])
     (simp_all add: handle_files_def start_upload_def open_modal_def initial_upload_def)

lemma files_overshoot_run:
  "files overshoot_run =
     [\<lparr>file_id = 1, file_name = ''contract.pdf'', file_size = 2048, file_status = Uploading,
       progress = 544 / 5, file_error = None\<rparr>]"
  by (simp add: overshoot_run_def progress_tick_def handle_files_def start_upload_def update_file_def
        new_file_item_def open_modal_def initial_upload_def)


subsection \<open>Properties\<close>

text \<open>C32: in every reachable state of the dialog every listed item's progress
  lies in \<open>[0, 110)\<close>: a tick adds less than 20 to a value below 90.\<close>

theorem upload_progress_bounded:
  "upload_reachable m \<Longrightarrow> f \<in> set (files m) \<Longrightarrow> 0 \<le> progress f \<and> progress f < 110"
  using upload_reachable_inv unfolding upload_inv_def by blast

theorem upload_progress_bounded_witness:
  "0 \<le> (544 / 5 :: real) \<and> (544 / 5 :: real) < 110"
  using upload_progress_bounded[OF overshoot_run_reachable, of "hd (files overshoot_run)"]
  by (simp add: files_overshoot_run)

text \<open>C33: the bound is not 100: a reachable run leaves an item uploading at
  108.8, and the dialog prints "Uploading... 109%".\<close>

theorem upload_progress_overshoots:
  "upload_reachable overshoot_run \<and>
   (\<exists>f\<in>set (files overshoot_run). file_status f = Uploading \<and> 100 < progress f \<and>
      get_status_text f = ''Uploading... 109%'')"
proof -
  have "js_round (544 / 5) = 109"
    by (simp add: js_round_iff)
  then have "show_int (js_round (544 / 5)) = ''109''"
    by code_simp
  then show ?thesis
    by (simp add: overshoot_run_reachable files_overshoot_run get_status_text_def)
qed


text \<open>C34: a failed upload leaves its progress interval running, where a
  successful one stops it: \<open>clearInterval\<close> sits only on the success path.\<close>

theorem upload_failure_keeps_interval:
  "upload_reachable m \<Longrightarrow> i \<in> set (in_flight m) \<Longrightarrow>
   i \<in> set (running (upload_failed i msg m)) \<and>
   count (mset (running (upload_succeeded i m))) i + 1 = count (mset (running m)) i"
proof -
  assume r: "upload_reachable m" and i: "i \<in> set (in_flight m)"
  have "mset (in_flight m) \<subseteq># mset (running m)"
    using upload_reachable_inv[OF r] by (simp add: upload_inv_def)
  then have "i \<in># mset (running m)"
    using i by (metis mset_subset_eqD set_mset_mset)
  then have "0 < count (mset (running m)) i" by simp
  then show ?thesis
    by (simp add: upload_failed_def upload_succeeded_def)
qed

theorem upload_failure_keeps_interval_witness:
  "1 \<in> set (running (upload_failed 1 upload_error_message
             (handle_files [(1, ''contract.pdf'', 2048)] (open_modal initial_upload)))) \<and>
   count (mset (running (upload_succeeded 1
             (handle_files [(1, ''contract.pdf'', 2048)] (open_modal initial_upload))))) 1 + 1 =
   count (mset (running (handle_files [(1, ''contract.pdf'', 2048)] (open_modal initial_upload)))) 1"
  by (rule upload_failure_keeps_interval[OF upload_reachable_first_file])
     (simp add: handle_files_def start_upload_def open_modal_def initial_upload_def)

text \<open>C35: in every reachable state every upload in flight owns a running
  progress interval (counted with multiplicity).\<close>

theorem upload_in_flight_has_interval:
  "upload_reachable m \<Longrightarrow> mset (in_flight m) \<subseteq># mset (running m)"
  using upload_reachable_inv unfolding upload_inv_def by blast

theorem upload_in_flight_has_interval_witness:
  "mset (in_flight overshoot_run) \<subseteq># mset (running overshoot_run)"
  by (rule upload_in_flight_has_interval[OF overshoot_run_reachable])


text \<open>An upload that settles, or an interval that ticks, after its item was
  removed or the dialog was closed changes nothing in the list: the item is not
  brought back.\<close>

theorem upload_late_settlement_no_effect:
  "i \<notin> file_id ` set (files m) \<Longrightarrow>
   files (upload_succeeded i m) = files m \<and> files (upload_failed i msg m) = files m \<and>
   files (progress_tick i r m) = files m"
proof -
  assume fresh: "i \<notin> file_id ` set (files m)"
  then have "map (\<lambda>f. if file_id f = i \<and> progress f < 90 then f\<lparr>progress := progress f + r * 20\<rparr> else f)
               (files m) = files m"
    by (intro map_idI) auto
  with fresh show ?thesis
    by (simp add: upload_succeeded_def upload_failed_def progress_tick_def update_file_fresh)
qed

theorem upload_late_settlement_no_effect_witness:
  "files (upload_succeeded 1 (remove_file 1 overshoot_run)) = [] \<and>
   files (upload_failed 1 upload_error_message (remove_file 1 overshoot_run)) = [] \<and>
   files (progress_tick 1 (1 / 2) (remove_file 1 overshoot_run)) = []"
  using upload_late_settlement_no_effect[of 1 "remove_file 1 overshoot_run" upload_error_message "1 / 2"]
  by (simp add: remove_file_def files_overshoot_run)

text \<open>Choosing files whose ids are new appends one item per file, shown
  at once as uploading at 0 (the pending state is overwritten in the same
  batch), and starts one interval and one upload per file, in order.\<close>

theorem handle_files_appends:
  "set (map fst new) \<inter> file_id ` set (files m) = {} \<Longrightarrow>
   files (handle_files new m) = files m @ map (\<lambda>x. (new_file_item x)\<lparr>file_status := Uploading\<rparr>) new \<and>
   running (handle_files new m) = running m @ map fst new \<and>
   in_flight (handle_files new m) = in_flight m @ map fst new"
proof -
  assume fresh: "set (map fst new) \<inter> file_id ` set (files m) = {}"
  have ids: "file_id (new_file_item x) = fst x" for x
    by (simp add: new_file_item_def split: prod.splits)
  have "map (\<lambda>f. if file_id f \<in> set (map fst new) then f\<lparr>file_status := Uploading, progress := 0\<rparr> else f)
          (files m) = files m"
    using fresh by (intro map_idI) auto
  moreover have "map (\<lambda>f. if file_id f \<in> set (map fst new) then f\<lparr>file_status := Uploading, progress := 0\<rparr> else f)
          (map new_file_item new) = map (\<lambda>x. (new_file_item x)\<lparr>file_status := Uploading\<rparr>) new"
    using ids by (auto simp: new_file_item_def split: prod.splits)
  ultimately show ?thesis
    by (simp add: handle_files_def files_fold_start_upload queues_fold_start_upload fold_update_file)
qed

theorem handle_files_appends_witness:
  "files (handle_files [(2, ''lease.pdf'', 10)] overshoot_run) =
     files overshoot_run @
     [\<lparr>file_id = 2, file_name = ''lease.pdf'', file_size = 10, file_status = Uploading,
       progress = 0, file_error = None\<rparr>] \<and>
   running (handle_files [(2, ''lease.pdf'', 10)] overshoot_run) = running overshoot_run @ [2] \<and>
   in_flight (handle_files [(2, ''lease.pdf'', 10)] overshoot_run) = in_flight overshoot_run @ [2]"
  using handle_files_appends[of "[(2, ''lease.pdf'', 10)]" overshoot_run]
  by (simp add: files_overshoot_run new_file_item_def)

end
