(* ===== verification/Shell.thy ===== *)
theory Shell
  imports Routing Upload
begin

text \<open>
  The application shell: \<open>AppLayout\<close> of \<open>src/src/App.jsx\<close> keeps the upload
  dialog outside its routes, and every protected route draws
  \<open>src/src/components/DashboardLayout.jsx\<close> around its page.  The shell's
  state is the session (\<open>auth_sys\<close>), the layout's hooks with the location, and
  the dialog.  \<open>layout_handle\<close> is one click on a control of the layout;
  \<open>layout_enabled\<close> says which controls are drawn; \<open>shell_step\<close> interleaves
  clicks on a layout route with the dialog's own steps.
\<close>

record shell =
  sh_auth :: auth_sys
  sh_layout :: layout
  sh_upload :: upload_modal

datatype layout_event =
    Nav_click js_string
  | Sidebar_open
  | Sidebar_close
  | Overlay_click
  | User_menu_click
  | Backdrop_click
  | Sign_out
  | Upload_click

text \<open>The \<open>onClick\<close> handlers of the layout's markup.\<close>

fun layout_handle :: "shell \<Rightarrow> layout_event \<Rightarrow> shell" where
  "layout_handle s (Nav_click h) = s\<lparr>sh_layout := handle_navigation h (sh_layout s)\<rparr>"
| "layout_handle s Sidebar_open = s\<lparr>sh_layout := set_sidebar True (sh_layout s)\<rparr>"
| "layout_handle s Sidebar_close = s\<lparr>sh_layout := set_sidebar False (sh_layout s)\<rparr>"
| "layout_handle s Overlay_click = s\<lparr>sh_layout := set_sidebar False (sh_layout s)\<rparr>"
| "layout_handle s User_menu_click = s\<lparr>sh_layout := toggle_user_dropdown (sh_layout s)\<rparr>"
| "layout_handle s Backdrop_click = s\<lparr>sh_layout := close_user_dropdown (sh_layout s)\<rparr>"
| "layout_handle s Sign_out =
     (case handle_logout (sh_auth s) (sh_layout s) of (a, l) \<Rightarrow> s\<lparr>sh_auth := a, sh_layout := l\<rparr>)"
| "layout_handle s Upload_click = s\<lparr>sh_upload := open_modal (sh_upload s)\<rparr>"

text \<open>Which controls are drawn: the sidebar's items are those of
  \<open>navigation\<close>, the overlay only with the sidebar open (\<open>sidebarOpen &&\<close>),
  the Sign out button and the backdrop only with the menu open
  (\<open>userDropdownOpen &&\<close>).\<close>

fun layout_enabled :: "shell \<Rightarrow> layout_event \<Rightarrow> bool" where
  "layout_enabled s (Nav_click h) = (h \<in> snd ` set nav_targets)"
| "layout_enabled s Overlay_click = sidebar_open (sh_layout s)"
| "layout_enabled s Backdrop_click = user_dropdown_open (sh_layout s)"
| "layout_enabled s Sign_out = user_dropdown_open (sh_layout s)"
| "layout_enabled s _ = True"

text \<open>The layout is drawn on the routes whose element is a protected layout.\<close>

definition on_layout_route :: "shell \<Rightarrow> bool" where
  "on_layout_route s =
     (\<exists>pg. resolve_route (is_authenticated (auth (sh_auth s))) (location (sh_layout s)) = Some (Protected_layout pg))"

text \<open>What the layout shows of its state: the sidebar items with their
  \<open>current\<close> flags, whether the overlay is drawn, and the open menu's
  \<open>user?.name\<close> and \<open>user?.email\<close>.\<close>

definition layout_view :: "shell \<Rightarrow> (js_string \<times> js_string \<times> bool) list \<times> bool \<times> (js_string \<times> js_string) option option" where
  "layout_view s =
     (navigation (location (sh_layout s)), sidebar_open (sh_layout s),
      if user_dropdown_open (sh_layout s)
      then Some (map_option (\<lambda>u. (user_name u, email u)) (user (auth (sh_auth s))))
      else None)"

inductive shell_step :: "shell \<Rightarrow> shell \<Rightarrow> bool" where
  click: "on_layout_route s \<Longrightarrow> layout_enabled s e \<Longrightarrow> shell_step s (layout_handle s e)"
| dialog: "upload_step (sh_upload s) u \<Longrightarrow> shell_step s (s\<lparr>sh_upload := u\<rparr>)"

subsection \<open>Lemmas\<close>

lemma layout_handle_upload [simp]: "e \<noteq> Upload_click \<Longrightarrow> sh_upload (layout_handle s e) = sh_upload s"
  by (cases e) (simp_all add: handle_logout_def)


text \<open>A click on a sidebar item lands on a route that draws the layout, with the
  sidebar closed.\<close>

lemma nav_click_stays_in_layout:
  "layout_enabled s (Nav_click h) \<Longrightarrow>
   on_layout_route (layout_handle s (Nav_click h)) \<and> \<not> sidebar_open (sh_layout (layout_handle s (Nav_click h)))"
  using nav_targets_resolve by (force simp: on_layout_route_def handle_navigation_def)

text \<open>The only step of the shell that changes the session is Sign out, and it
  is the provider's \<open>logout\<close>.\<close>

lemma shell_step_auth:
  "shell_step s s' \<Longrightarrow> sh_auth s' = sh_auth s \<or> sh_auth s' = logout (sh_auth s)"
proof (induction rule: shell_step.induct)
  case (click s e)
  then show ?case by (cases e) (simp_all add: handle_logout_def)
qed simp

end
