(* ===== verification/Detail.thy ===== *)
theory Detail
  imports Filtering
begin

text \<open>
  The page \<open>src/src/pages/ContractDetailPage.jsx\<close>.  Its state is the record
  \<open>detail_page\<close>: the route parameter, the five \<open>useState\<close> hooks, and the
  ids of the \<open>getContractById\<close> calls still in flight, in the order they were
  issued.  The effect on \<open>[id]\<close> and the "Try Again" button start a load
  (\<open>load_contract\<close>); any call in flight may settle next
  (\<open>settle_load\<close>, with the fetch response as a parameter), so the inductive
  \<open>detail_step\<close> lets requests overtake each other.  \<open>detail_view\<close> is the
  order of the early returns of the render: skeleton, error box, nothing, the
  contract with its evidence drawer.  The component stays mounted while the
  route's id changes, so its state carries over.
\<close>

record detail_page =
  route_id :: js_string
  detail_contract :: "contract option"
  detail_loading :: bool
  detail_error :: "js_string option"
  selected_evidence :: "evidence option"
  drawer_open :: bool
  pending :: "js_string list"

text \<open>\<open>loadContract\<close> up to its \<open>await\<close>.\<close>

definition load_contract :: "detail_page \<Rightarrow> detail_page" where
  "load_contract p = p\<lparr>detail_loading := True, detail_error := None, pending := pending p @ [route_id p]\<rparr>"

text \<open>The rest of \<open>loadContract\<close> for the call issued with id \<open>j\<close>:
  \<open>setContract\<close> or \<open>setError\<close>, then \<open>finally\<close>.\<close>

definition settle_load :: "js_string \<Rightarrow> contract list fetch_response \<Rightarrow> detail_page \<Rightarrow> detail_page" where
  "settle_load j r p =
     (let p' = (case get_contract_by_id j r of
                  Inr c \<Rightarrow> p\<lparr>detail_contract := Some c\<rparr>
                | Inl e \<Rightarrow> p\<lparr>detail_error := Some e\<rparr>)
      in p'\<lparr>detail_loading := False, pending := remove1 j (pending p)\<rparr>)"

text \<open>Mount with the route's id: initial hooks, then the effect.\<close>

definition detail_mounted :: "js_string \<Rightarrow> detail_page" where
  "detail_mounted i =
     load_contract \<lparr>route_id = i, detail_contract = None, detail_loading = True, detail_error = None,
                    selected_evidence = None, drawer_open = False, pending = []\<rparr>"

text \<open>A new id in the route: the effect runs only when \<open>id\<close> changed.\<close>

definition route_change :: "js_string \<Rightarrow> detail_page \<Rightarrow> detail_page" where
  "route_change i p = (if i = route_id p then p else load_contract (p\<lparr>route_id := i\<rparr>))"

definition open_evidence_drawer :: "evidence \<Rightarrow> detail_page \<Rightarrow> detail_page" where
  "open_evidence_drawer ev p = p\<lparr>selected_evidence := Some ev, drawer_open := True\<rparr>"

definition close_drawer :: "detail_page \<Rightarrow> detail_page" where
  "close_drawer p = p\<lparr>drawer_open := False\<rparr>"

datatype detail_view =
    View_loading
  | View_error js_string
  | View_none
  | View_contract contract "evidence option"

text \<open>The last return of the render; the drawer is drawn when
  \<open>evidenceDrawerOpen && selectedEvidence\<close>.\<close>

definition contract_view :: "detail_page \<Rightarrow> detail_view" where
  "contract_view p =
     (case detail_contract p of
        None \<Rightarrow> View_none
      | Some c \<Rightarrow> View_contract c (if drawer_open p then selected_evidence p else None))"

definition detail_view :: "detail_page \<Rightarrow> detail_view" where
  "detail_view p =
     (if detail_loading p then View_loading
      else case detail_error p of
        Some e \<Rightarrow> if e \<noteq> [] then View_error e else contract_view p
      | None \<Rightarrow> contract_view p)"

text \<open>The page's own badge helpers: the dashboard's style tables with larger
  padding and text.\<close>

definition detail_risk_badge :: "js_string \<Rightarrow> js_string" where
  "detail_risk_badge r = ''px-3 py-1 text-sm font-medium rounded-full '' @ template_value (risk_styles r)"

definition detail_status_badge :: "js_string \<Rightarrow> js_string" where
  "detail_status_badge s = ''px-3 py-1 text-sm font-medium rounded-full '' @ template_value (status_styles s)"

definition get_risk_color :: "js_string \<Rightarrow> js_string" where
  "get_risk_color r =
     (if r = ''Low'' then ''text-green-600'' else if r = ''Medium'' then ''text-yellow-600''
      else if r = ''High'' then ''text-red-600'' else ''text-gray-600'')"

text \<open>The colour of an insight's dot: anything but High and Medium is green.\<close>

definition insight_dot :: "insight \<Rightarrow> js_string" where
  "insight_dot i =
     (if insight_risk i = ''High'' then ''bg-red-500''
      else if insight_risk i = ''Medium'' then ''bg-yellow-500'' else ''bg-green-500'')"

text \<open>\<open>Math.round(x * 100)\<close> beside a clause's confidence and an evidence's
  relevance bar.\<close>

definition percent_label :: "real \<Rightarrow> int" where
  "percent_label x = js_round (x * 100)"

text \<open>The badge of an insight: like its dot, anything but High and Medium is
  drawn green.\<close>

definition insight_badge :: "insight \<Rightarrow> js_string" where
  "insight_badge i =
     (if insight_risk i = ''High'' then ''bg-red-100 text-red-800''
      else if insight_risk i = ''Medium'' then ''bg-yellow-100 text-yellow-800'' else ''bg-green-100 text-green-800'')"

text \<open>The cards of the page's sections, with what each shows: a clause's title,
  summary, bar width (\<open>confidence * 100\<close> percent) and rounded label; an
  insight's dot, badge, "<risk> Risk" label and message; an evidence's source,
  snippet, bar and label.  The drawer shows the same fields of the selected
  evidence.\<close>

record clause_card =
  cc_title :: js_string
  cc_summary :: js_string
  cc_width :: real
  cc_percent :: int

record insight_card =
  ic_dot :: js_string
  ic_badge :: js_string
  ic_label :: js_string
  ic_message :: js_string

record evidence_card =
  ec_source :: js_string
  ec_snippet :: js_string
  ec_width :: real
  ec_percent :: int

definition clause_card_of :: "clause \<Rightarrow> clause_card" where
  "clause_card_of cl = \<lparr>cc_title = title cl, cc_summary = summary cl,
     cc_width = confidence cl * 100, cc_percent = percent_label (confidence cl)\<rparr>"

definition insight_card_of :: "insight \<Rightarrow> insight_card" where
  "insight_card_of i = \<lparr>ic_dot = insight_dot i, ic_badge = insight_badge i,
     ic_label = insight_risk i @ '' Risk'', ic_message = message i\<rparr>"

definition evidence_card_of :: "evidence \<Rightarrow> evidence_card" where
  "evidence_card_of e = \<lparr>ec_source = source e, ec_snippet = snippet e,
     ec_width = relevance e * 100, ec_percent = percent_label (relevance e)\<rparr>"

text \<open>The contract information block: name, parties, dates, status icon and
  badge, risk badge and label.\<close>

record contract_info =
  info_name :: js_string
  info_parties :: js_string
  info_start :: js_string
  info_expiry :: js_string
  info_icon :: "icon option"
  info_status_class :: js_string
  info_risk_class :: js_string
  info_risk_label :: js_string

definition contract_info_of :: "contract \<Rightarrow> contract_info" where
  "contract_info_of c = \<lparr>info_name = name c, info_parties = parties c, info_start = start c,
     info_expiry = expiry c, info_icon = get_status_icon (status c),
     info_status_class = detail_status_badge (status c), info_risk_class = detail_risk_badge (risk c),
     info_risk_label = risk c @ '' Risk''\<rparr>"

definition contract_sections ::
  "contract \<Rightarrow> contract_info \<times> clause_card list \<times> insight_card list \<times> evidence_card list" where
  "contract_sections c =
     (contract_info_of c, map clause_card_of (clauses c), map insight_card_of (insights c),
      map evidence_card_of (evidence c))"

text \<open>The page's transitions.  "Try Again" is drawn in the error box only; an
  evidence card only under a shown contract; the drawer's close button only on
  a shown drawer.\<close>

inductive detail_step :: "detail_page \<Rightarrow> detail_page \<Rightarrow> bool" where
  route: "detail_step p (route_change i p)"
| retry: "detail_view p = View_error e \<Longrightarrow> detail_step p (load_contract p)"
| settle: "j \<in> set (pending p) \<Longrightarrow> detail_step p (settle_load j r p)"
| open_drawer: "detail_view p = View_contract c x \<Longrightarrow> ev \<in> set (evidence c) \<Longrightarrow>
    detail_step p (open_evidence_drawer ev p)"
| close: "detail_view p = View_contract c (Some ev) \<Longrightarrow> detail_step p (close_drawer p)"

inductive detail_reachable :: "detail_page \<Rightarrow> bool" where
  mounted: "detail_reachable (detail_mounted i)"
| step: "detail_reachable p \<Longrightarrow> detail_step p p' \<Longrightarrow> detail_reachable p'"

subsection \<open>Fixtures\<close>

definition evidence_a :: evidence where
  "evidence_a = \<lparr>source = ''MSA section 4'', snippet = ''Payment within 30 days'', relevance = 9 / 10\<rparr>"

definition contract_a :: contract where
  "contract_a = \<lparr>contract_id = ''c-001'', name = ''Acme MSA'', parties = ''Acme / Beta'',
      start = ''2024-01-01'', expiry = ''2025-01-01'', status = ''Active'', risk = ''Low'',
      clauses = [], insights = [], evidence = [evidence_a]\<rparr>"

definition contract_b :: contract where
  "contract_b = \<lparr>contract_id = ''c-002'', name = ''Beta NDA'', parties = ''Beta / Gamma'',
      start = ''2024-02-01'', expiry = ''2026-02-01'', status = ''Expired'', risk = ''High'',
      clauses = [], insights = [], evidence = []\<rparr>"

definition catalogue :: "contract list fetch_response" where
  "catalogue = Response True (Some [contract_a, contract_b])"

text \<open>Open contract a, go to b; b's response arrives first, a's last.\<close>

definition stale_run :: detail_page where
  "stale_run = settle_load ''c-001'' catalogue (settle_load ''c-002'' catalogue
                 (route_change ''c-002'' (detail_mounted ''c-001'')))"

text \<open>Open contract a, let it load, open its evidence, go to b and let it load.\<close>

definition drawer_run :: detail_page where
  "drawer_run = settle_load ''c-002'' catalogue (route_change ''c-002''
                 (open_evidence_drawer evidence_a (settle_load ''c-001'' catalogue (detail_mounted ''c-001''))))"

text \<open>The skeleton is drawn only while some call is in flight.\<close>

definition detail_inv :: "detail_page \<Rightarrow> bool" where
  "detail_inv p = (detail_loading p \<longrightarrow> pending p \<noteq> [])"

subsection \<open>Lemmas\<close>

lemma settle_load_fields [simp]:
  "detail_loading (settle_load j r p) = False"
  "pending (settle_load j r p) = remove1 j (pending p)"
  "route_id (settle_load j r p) = route_id p"
  "drawer_open (settle_load j r p) = drawer_open p"
  "selected_evidence (settle_load j r p) = selected_evidence p"
  by (simp_all add: settle_load_def Let_def split: sum.split)

lemma percent_label_range: "0 \<le> x \<Longrightarrow> x \<le> 1 \<Longrightarrow> 0 \<le> percent_label x \<and> percent_label x \<le> 100"
proof -
  assume "0 \<le> x" "x \<le> 1"
  then have "js_round 0 \<le> js_round (x * 100) \<and> js_round (x * 100) \<le> js_round 100"
    by (simp add: js_round_mono)
  moreover have "js_round 0 = 0" "js_round 100 = 100" by (simp_all add: js_round_iff)
  ultimately show ?thesis by (simp add: percent_label_def)
qed

lemma contract_view_not_loading [simp]: "contract_view p \<noteq> View_loading"
  by (simp add: contract_view_def split: option.split)

lemma detail_inv_step: "detail_step p p' \<Longrightarrow> detail_inv p \<Longrightarrow> detail_inv p'"
  by (induction rule: detail_step.induct)
     (auto simp: detail_inv_def route_change_def load_contract_def open_evidence_drawer_def close_drawer_def)

lemma detail_reachable_inv: "detail_reachable p \<Longrightarrow> detail_inv p"
proof (induction rule: detail_reachable.induct)
  case (mounted i)
  then show ?case by (simp add: detail_inv_def detail_mounted_def load_contract_def)
next
  case (step p p')
  then show ?case using detail_inv_step by blast
qed

lemma catalogue_lookup [simp]:
  "get_contract_by_id ''c-001'' catalogue = Inr contract_a"
  "get_contract_by_id ''c-002'' catalogue = Inr contract_b"
  by (simp_all add: get_contract_by_id_def catalogue_def fetch_json_def catch_rethrow_def
        contract_a_def contract_b_def)

lemma stale_run_reachable: "detail_reachable stale_run"
proof -
  let ?p1 = "route_change ''c-002'' (detail_mounted ''c-001'')"
  have r1: "detail_reachable ?p1"
    by (rule detail_reachable.step[OF detail_reachable.mounted detail_step.route])
  have q1: "pending ?p1 = [''c-001'', ''c-002'']"
    by (simp add: route_change_def detail_mounted_def load_contract_def)
  have r2: "detail_reachable (settle_load ''c-002'' catalogue ?p1)"
    by (rule detail_reachable.step[OF r1 detail_step.settle]) (simp add: q1)
  show ?thesis unfolding stale_run_def
    by (rule detail_reachable.step[OF r2 detail_step.settle]) (simp add: q1)
qed

lemma drawer_run_reachable: "detail_reachable drawer_run"
proof -
  let ?p1 = "settle_load ''c-001'' catalogue (detail_mounted ''c-001'')"
  let ?p2 = "open_evidence_drawer evidence_a ?p1"
  have r1: "detail_reachable ?p1"
    by (rule detail_reachable.step[OF detail_reachable.mounted detail_step.settle])
       (simp add: detail_mounted_def load_contract_def)
  have v1: "detail_view ?p1 = View_contract contract_a None"
    by (simp add: detail_view_def contract_view_def settle_load_def detail_mounted_def load_contract_def)
  have r2: "detail_reachable ?p2"
    by (rule detail_reachable.step[OF r1 detail_step.open_drawer[OF v1]]) (simp add: contract_a_def)
  have r3: "detail_reachable (route_change ''c-002'' ?p2)"
    by (rule detail_reachable.step[OF r2 detail_step.route])
  show ?thesis unfolding drawer_run_def
    by (rule detail_reachable.step[OF r3 detail_step.settle])
       (simp add: route_change_def load_contract_def open_evidence_drawer_def detail_mounted_def)
qed

subsection \<open>Properties\<close>

text \<open>C38: responses may overtake each other: after opening contract c-001 and
  going to c-002, a late response for c-001 replaces c-002 on the page whose
  route is c-002.\<close>

theorem detail_stale_response:
  "detail_reachable stale_run \<and> route_id stale_run = ''c-002'' \<and>
   detail_view stale_run = View_contract contract_a None \<and> contract_id contract_a \<noteq> ''c-002''"
  using stale_run_reachable
  by (simp add: stale_run_def detail_view_def contract_view_def settle_load_def route_change_def
        detail_mounted_def load_contract_def contract_a_def)

text \<open>C39: the page never stays on its skeleton for want of a call: in every
  reachable loading state some call is in flight, and its settlement, whatever
  the response, is a step that leaves the skeleton.\<close>

theorem detail_loading_settles:
  "detail_reachable p \<Longrightarrow> detail_loading p \<Longrightarrow>
   \<exists>j \<in> set (pending p). \<forall>r. detail_step p (settle_load j r p) \<and> detail_view (settle_load j r p) \<noteq> View_loading"
proof -
  assume "detail_reachable p" "detail_loading p"
  then obtain j where j: "j \<in> set (pending p)"
    using detail_reachable_inv[of p] unfolding detail_inv_def by (meson list.set_sel(1))
  have "detail_step p (settle_load j r p) \<and> detail_view (settle_load j r p) \<noteq> View_loading" for r
    using detail_step.settle[OF j] by (simp add: detail_view_def split: option.split)
  with j show ?thesis by blast
qed

theorem detail_loading_settles_witness:
  "\<exists>j \<in> set (pending (detail_mounted ''c-001'')).
     \<forall>r. detail_step (detail_mounted ''c-001'') (settle_load j r (detail_mounted ''c-001'')) \<and>
         detail_view (settle_load j r (detail_mounted ''c-001'')) \<noteq> View_loading"
  by (rule detail_loading_settles[OF detail_reachable.mounted])
     (simp add: detail_mounted_def load_contract_def)

text \<open>C40: the evidence drawer outlives navigation: a drawer opened on
  contract c-001 is drawn over contract c-002, showing evidence c-002 does not
  have, once c-002 has loaded.\<close>

theorem detail_drawer_survives_navigation:
  "detail_reachable drawer_run \<and> route_id drawer_run = ''c-002'' \<and>
   detail_view drawer_run = View_contract contract_b (Some evidence_a) \<and>
   evidence_a \<notin> set (evidence contract_b)"
  using drawer_run_reachable
  by (simp add: drawer_run_def detail_view_def contract_view_def settle_load_def route_change_def
        open_evidence_drawer_def detail_mounted_def load_contract_def contract_b_def)

end
