(* ===== verification/File_Size.thy ===== *)
theory File_Size
  imports Js_Encoding "HOL-Library.Log_Nat"
begin

text \<open>
  \<open>formatFileSize\<close> of \<open>src/src/components/UploadModal.jsx\<close>:
  \<open>i = Math.floor(Math.log(bytes) / Math.log(1024))\<close>, then
  \<open>parseFloat((bytes / 1024 ** i).toFixed(2)) + ' ' + sizes[i]\<close>.
  \<open>format_file_size\<close> is that formula over the reals; the lemmas compute
  its exponent by repeated division (\<open>size_exponent\<close>, equal to
  \<open>floorlog 1024\<close> less one) and its rounded quotient in integers
  (\<open>to_fixed2\<close>), so that it evaluates by \<open>simp\<close>.  The quotient
  \<open>bytes / 1024 ** i\<close> is exact in binary floating point (a division by a power
  of two), so \<open>toFixed(2)\<close> rounds the exact rational, halves up; the floating
  quotient of the two logarithms is taken as exact, which it is at and around
  the powers of 1024 below \<open>1024 ^ 5\<close>.
\<close>

text \<open>The exponent by repeated division: the number of times 1024 divides
  into \<open>n\<close> before it drops below 1024.\<close>

fun size_exponent :: "nat \<Rightarrow> nat" where
  "size_exponent n = (if n < 1024 then 0 else Suc (size_exponent (n div 1024)))"

declare size_exponent.simps [simp del]

text \<open>\<open>Math.floor(Math.log(bytes) / Math.log(k))\<close>.\<close>

definition log_exponent :: "nat \<Rightarrow> int" where
  "log_exponent b = \<lfloor>ln (real b) / ln 1024\<rfloor>"

definition size_units :: "js_string list" where
  "size_units = [''Bytes'', ''KB'', ''MB'', ''GB'']"

text \<open>\<open>sizes[i]\<close>: past the end of the array the template prints
  \<open>undefined\<close>.\<close>

definition unit_name :: "nat \<Rightarrow> js_string" where
  "unit_name i = (if i < length size_units then size_units ! i else ''undefined'')"

text \<open>\<open>(b / d).toFixed(2)\<close> as a count of hundredths, halves rounded up.\<close>

definition to_fixed2 :: "nat \<Rightarrow> nat \<Rightarrow> nat" where
  "to_fixed2 b d = (200 * b + d) div (2 * d)"

definition digit_char :: "nat \<Rightarrow> char" where
  "digit_char d = char_of (48 + d)"

text \<open>\<open>parseFloat\<close> of the fixed text, printed again: trailing zeros of the
  fraction and a bare point are dropped.\<close>

definition show_hundredths :: "nat \<Rightarrow> js_string" where
  "show_hundredths n =
     (let r = n mod 100
      in show_nat (n div 100) @
         (if r = 0 then []
          else if r mod 10 = 0 then [CHR ''.'', digit_char (r div 10)]
          else [CHR ''.'', digit_char (r div 10), digit_char (r mod 10)]))"

definition format_file_size :: "nat \<Rightarrow> js_string" where
  "format_file_size b =
     (if b = 0 then ''0 Bytes''
      else let i = nat (log_exponent b);
               x = real b / 1024 ^ i
           in show_hundredths (nat \<lfloor>x * 100 + 1 / 2\<rfloor>) @ '' '' @ unit_name i)"

subsection \<open>The exponent\<close>

lemma size_exponent_floorlog: "0 < n \<Longrightarrow> Suc (size_exponent n) = floorlog 1024 n"
proof (induction n rule: size_exponent.induct)
  case (1 n)
  show ?case
  proof (cases "n < 1024")
    case True
    with "1.prems" show ?thesis
      by (simp add: size_exponent.simps floorlog_def compute_floorlog[of 1024 n] floorlog_eq_zero_iff)
  next
    case False
    then have "0 < n div 1024" by simp
    with "1.IH" False have "Suc (size_exponent (n div 1024)) = floorlog 1024 (n div 1024)" by simp
    with False "1.prems" show ?thesis
      by (simp add: size_exponent.simps compute_floorlog[of 1024 n])
  qed
qed

lemma log_exponent_size_exponent: "0 < b \<Longrightarrow> nat (log_exponent b) = size_exponent b"
proof -
  assume b: "0 < b"
  have "floorlog 1024 b = nat \<lfloor>log 1024 (real b)\<rfloor> + 1"
    using b by (simp add: floorlog_def)
  with size_exponent_floorlog[OF b] show ?thesis
    by (simp add: log_exponent_def log_def)
qed

lemma size_exponent_bounds: "0 < n \<Longrightarrow> 1024 ^ size_exponent n \<le> n \<and> n < 1024 ^ Suc (size_exponent n)"
proof (induction n rule: size_exponent.induct)
  case (1 n)
  show ?case
  proof (cases "n < 1024")
    case True
    with "1.prems" show ?thesis by (simp add: size_exponent.simps)
  next
    case False
    then have "0 < n div 1024" by simp
    with "1.IH" False
    have "1024 ^ size_exponent (n div 1024) \<le> n div 1024 \<and> n div 1024 < 1024 ^ Suc (size_exponent (n div 1024))"
      by simp
    then have "1024 ^ size_exponent (n div 1024) * 1024 \<le> n \<and> n < 1024 ^ Suc (size_exponent (n div 1024)) * 1024"
      by (simp add: less_eq_div_iff_mult_less_eq div_less_iff_less_mult del: power_Suc)
    with False show ?thesis
      by (simp add: size_exponent.simps mult.commute)
  qed
qed

subsection \<open>Rounding\<close>

lemma to_fixed2_floor:
  "0 < d \<Longrightarrow> nat \<lfloor>real b / real d * 100 + 1 / 2\<rfloor> = to_fixed2 b d"
proof -
  assume d: "0 < d"
  have "real b / real d * 100 + 1 / 2 = real (200 * b + d) / real (2 * d)"
    using d by (simp add: field_simps)
  then show ?thesis
    by (simp add: to_fixed2_def floor_divide_of_nat_eq del: of_nat_mult of_nat_add)
qed

subsection \<open>The formatted text\<close>

lemma format_file_size_pos:
  "0 < b \<Longrightarrow>
   format_file_size b = show_hundredths (to_fixed2 b (1024 ^ size_exponent b)) @ '' '' @ unit_name (size_exponent b)"
  using to_fixed2_floor[of "1024 ^ size_exponent b" b]
  by (simp add: format_file_size_def log_exponent_size_exponent Let_def)

lemma to_fixed2_range:
  assumes "0 < d" "d \<le> b" "b < 1024 * d"
  shows "100 \<le> to_fixed2 b d \<and> to_fixed2 b d \<le> 102400"
proof -
  have "100 * (2 * d) \<le> 200 * b + d" using assms(2) by simp
  moreover have "200 * b + d < 102401 * (2 * d)" using assms(1,3) by simp
  ultimately have "100 \<le> (200 * b + d) div (2 * d) \<and> (200 * b + d) div (2 * d) < 102401"
    using assms(1) by (simp add: less_eq_div_iff_mult_less_eq div_less_iff_less_mult)
  then show ?thesis by (simp add: to_fixed2_def)
qed

lemma size_exponent_lt_4_iff: "0 < b \<Longrightarrow> size_exponent b < 4 \<longleftrightarrow> b < 1024 ^ 4"
proof -
  assume b: "0 < b"
  let ?i = "size_exponent b"
  have lo: "1024 ^ ?i \<le> b" and hi: "b < 1024 ^ Suc ?i"
    using size_exponent_bounds[OF b] by auto
  show ?thesis
  proof
    assume "?i < 4"
    then have "(1024::nat) ^ Suc ?i \<le> 1024 ^ 4" by (intro power_increasing) auto
    with hi show "b < 1024 ^ 4" by linarith
  next
    assume "b < 1024 ^ 4"
    with lo have "(1024::nat) ^ ?i < 1024 ^ 4" by linarith
    then show "?i < 4" using power_strict_increasing_iff[of "1024::nat" ?i 4] by linarith
  qed
qed

lemma size_exponent_eqI:
  assumes "1024 ^ i \<le> n" "n < 1024 ^ Suc i"
  shows "size_exponent n = i"
proof -
  have n: "0 < n" using assms(1) by (metis le_zero_eq not_gr_zero power_not_zero zero_neq_numeral)
  let ?j = "size_exponent n"
  have j: "1024 ^ ?j \<le> n" "n < 1024 ^ Suc ?j" using size_exponent_bounds[OF n] by auto
  show ?thesis
  proof (rule ccontr)
    assume "?j \<noteq> i"
    then consider "Suc ?j \<le> i" | "Suc i \<le> ?j" by linarith
    then show False
    proof cases
      case 1
      then have "(1024::nat) ^ Suc ?j \<le> 1024 ^ i" by (rule power_increasing) simp
      with j(2) assms(1) show False by linarith
    next
      case 2
      then have "(1024::nat) ^ Suc i \<le> 1024 ^ ?j" by (rule power_increasing) simp
      with j(1) assms(2) show False by linarith
    qed
  qed
qed

lemma to_fixed2_one: "0 < d \<Longrightarrow> to_fixed2 d d = 100"
proof -
  assume d: "0 < d"
  have "200 * d + d = 100 * (2 * d) + d" by simp
  then have "(200 * d + d) div (2 * d) = 100 + d div (2 * d)"
    using d by (metis div_mult_self3 add.commute mult_eq_0_iff zero_neq_numeral not_gr0 mult.commute)
  then show ?thesis using d by (simp add: to_fixed2_def)
qed

lemma to_fixed2_below:
  assumes "200 \<le> d"
  shows "to_fixed2 (1024 * d - 1) d = 102400"
proof -
  have d: "0 < d" using assms by simp
  have "102400 * (2 * d) \<le> 200 * (1024 * d - 1) + d" using assms by simp
  moreover have "200 * (1024 * d - 1) + d < 102401 * (2 * d)" using d by simp
  ultimately have "102400 \<le> (200 * (1024 * d - 1) + d) div (2 * d)"
    "(200 * (1024 * d - 1) + d) div (2 * d) < 102401"
    using d by (simp_all add: less_eq_div_iff_mult_less_eq div_less_iff_less_mult)
  then show ?thesis by (simp add: to_fixed2_def)
qed

subsection \<open>Properties\<close>

text \<open>C36: at the powers of 1024 from one mebibyte to one tebibyte,
  \<open>formatFileSize\<close> prints \<open>1024 ^ k\<close> bytes as "1 <unit k>", and one byte less
  as "1024 <unit k - 1>": the unit is chosen before rounding, so the number
  carries to 1024 instead of moving to the next unit; at \<open>k = 4\<close> the unit of
  a tebibyte is \<open>undefined\<close>.\<close>

theorem format_file_size_powers:
  assumes "2 \<le> k" "k \<le> 4"
  shows "format_file_size (1024 ^ k) = ''1 '' @ unit_name k
         \<and> format_file_size (1024 ^ k - 1) = ''1024 '' @ unit_name (k - 1)"
proof -
  have e1: "size_exponent (1024 ^ k) = k" by (rule size_exponent_eqI) simp_all
  have k: "k = Suc (k - 1)" using assms(1) by simp
  have lo: "(1024::nat) ^ (k - 1) \<le> 1024 ^ k - 1"
  proof -
    have "(1024::nat) ^ (k - 1) < 1024 ^ k" by (subst k) simp
    then show ?thesis by linarith
  qed
  moreover have "1024 ^ k - 1 < (1024::nat) ^ Suc (k - 1)"
  proof -
    have "0 < (1024::nat) ^ k" by simp
    then have "1024 ^ k - 1 < (1024::nat) ^ k" by linarith
    then show ?thesis using k by simp
  qed
  ultimately have e2: "size_exponent (1024 ^ k - 1) = k - 1" by (rule size_exponent_eqI)
  have big: "200 \<le> (1024::nat) ^ (k - 1)"
  proof -
    have "(1024::nat) ^ 1 \<le> 1024 ^ (k - 1)" using assms(1) by (intro power_increasing) simp_all
    then show ?thesis by simp
  qed
  have pk: "(1024::nat) ^ k = 1024 * 1024 ^ (k - 1)" by (subst k) simp
  have h: "show_hundredths 100 = ''1''" "show_hundredths 102400 = ''1024''"
    by (simp_all add: show_hundredths_def show_nat.simps char_of_eq_iff)
  have t1: "format_file_size (1024 ^ k) = show_hundredths 100 @ '' '' @ unit_name k"
    using format_file_size_pos[of "1024 ^ k"] to_fixed2_one[of "1024 ^ k"] by (simp add: e1)
  have "0 < (1024::nat) ^ (k - 1)" by simp
  with lo have pos: "0 < (1024::nat) ^ k - 1" by linarith
  have "to_fixed2 (1024 ^ k - 1) (1024 ^ (k - 1)) = 102400"
    using to_fixed2_below[OF big] pk by simp
  then have t2: "format_file_size (1024 ^ k - 1) = show_hundredths 102400 @ '' '' @ unit_name (k - 1)"
    using format_file_size_pos[OF pos] by (simp only: e2)
  show ?thesis using t1 t2 h by simp
qed

text \<open>C37: a positive size prints as a number from 1 to 1024 with at most two
  decimals, and its unit is one of Bytes, KB, MB, GB exactly when the size is
  below \<open>1024 ^ 4\<close>; from one tebibyte on, the unit reads \<open>undefined\<close>.  The
  upper end 1024 is reached: rounding to two decimals carries 1023.999 up.\<close>

theorem format_file_size_bounds:
  "0 < b \<Longrightarrow>
   \<exists>n u. format_file_size b = show_hundredths n @ '' '' @ u \<and> 100 \<le> n \<and> n \<le> 102400 \<and>
         (if b < 1024 ^ 4 then u \<in> set size_units else u = ''undefined'')"
proof -
  assume b: "0 < b"
  let ?i = "size_exponent b"
  have "1024 ^ ?i \<le> b" "b < 1024 * 1024 ^ ?i"
    using size_exponent_bounds[OF b] by auto
  then have n: "100 \<le> to_fixed2 b (1024 ^ ?i) \<and> to_fixed2 b (1024 ^ ?i) \<le> 102400"
    by (intro to_fixed2_range) auto
  have "(if b < 1024 ^ 4 then unit_name ?i \<in> set size_units else unit_name ?i = ''undefined'')"
  proof (cases "b < 1024 ^ 4")
    case True
    then have "?i < length size_units"
      using size_exponent_lt_4_iff[OF b] by (simp add: size_units_def)
    with True show ?thesis by (simp add: unit_name_def)
  next
    case False
    then have "\<not> ?i < length size_units"
      using size_exponent_lt_4_iff[OF b] by (simp add: size_units_def)
    with False show ?thesis by (simp add: unit_name_def)
  qed
  with n show ?thesis
    unfolding format_file_size_pos[OF b] by blast
qed

theorem format_file_size_powers_witness:
  "format_file_size (1024 ^ 2) = ''1 MB'' \<and> format_file_size (1024 ^ 2 - 1) = ''1024 KB''"
  using format_file_size_powers[of 2] by (simp add: unit_name_def size_units_def)

theorem format_file_size_bounds_witness:
  "\<exists>n u. format_file_size 1048575 = show_hundredths n @ '' '' @ u \<and> 100 \<le> n \<and> n \<le> 102400 \<and>
         (if (1048575::nat) < 1024 ^ 4 then u \<in> set size_units else u = ''undefined'')"
  by (rule format_file_size_bounds[of 1048575]) (rule zero_less_numeral)

end
