(* ===== verification/Upload_View.thy ===== *)
theory Upload_View
  imports Upload File_Size
begin

text \<open>
  The render of \<open>src/src/components/UploadModal.jsx\<close>: nothing while closed,
  else the drop zone (its classes follow \<open>dragActive\<close>), one row per file item
  (icon, name, formatted size, status text and colour, and a progress bar while
  uploading) and the footer's count of uploaded files.
\<close>

datatype file_icon = Spinner_icon | Success_icon | Error_icon | Plain_file_icon

text \<open>\<open>getStatusIcon\<close> of the dialog.\<close>

definition get_upload_icon :: "upload_status \<Rightarrow> file_icon" where
  "get_upload_icon st =
     (case st of Uploading \<Rightarrow> Spinner_icon | Upload_success \<Rightarrow> Success_icon
               | Upload_error \<Rightarrow> Error_icon | Pending \<Rightarrow> Plain_file_icon)"

definition status_text_class :: "upload_status \<Rightarrow> js_string" where
  "status_text_class st =
     (if st = Upload_success then ''text-green-600'' else if st = Upload_error then ''text-red-600''
      else ''text-gray-600'')"

record file_row =
  fr_icon :: file_icon
  fr_name :: js_string
  fr_size :: js_string
  fr_status_text :: js_string
  fr_status_class :: js_string
  fr_bar :: "real option"

text \<open>A row; the bar's \<open>width\<close> is \<open>file.progress\<close> percent.\<close>

definition file_row_of :: "file_item \<Rightarrow> file_row" where
  "file_row_of f =
     \<lparr>fr_icon = get_upload_icon (file_status f), fr_name = file_name f,
      fr_size = format_file_size (file_size f), fr_status_text = get_status_text f,
      fr_status_class = status_text_class (file_status f),
      fr_bar = (if file_status f = Uploading then Some (progress f) else None)\<rparr>"

definition drop_zone_class :: "bool \<Rightarrow> js_string" where
  "drop_zone_class active = (if active then ''border-indigo-500 bg-indigo-50'' else ''border-gray-300 hover:border-gray-400'')"

text \<open>\<open>if (!isOpen) return null\<close>, then the zone, the rows and the footer
  (drawn when \<open>files.length > 0\<close>).\<close>

definition upload_view :: "upload_modal \<Rightarrow> (js_string \<times> file_row list \<times> (nat \<times> nat) option) option" where
  "upload_view m =
     (if modal_open m
      then Some (drop_zone_class (drag_active m), map file_row_of (files m),
                 if files m \<noteq> [] then Some (uploaded_count m) else None)
      else None)"

subsection \<open>Lemmas\<close>

text \<open>In every reachable state a drawn progress bar is less than 110 percent
  wide, yet a reachable state draws one wider than its track.\<close>

lemma upload_bar_width:
  "upload_reachable m \<Longrightarrow> upload_view m = Some (z, rows, ft) \<Longrightarrow> r \<in> set rows \<Longrightarrow> fr_bar r = Some w \<Longrightarrow>
   0 \<le> w \<and> w < 110"
  using upload_reachable_inv[of m]
  by (auto simp: upload_view_def file_row_of_def upload_inv_def split: if_splits)

lemma upload_bar_overflows:
  "\<exists>z rows ft r. upload_view overshoot_run = Some (z, rows, ft) \<and> r \<in> set rows \<and> fr_bar r = Some (544 / 5)"
proof -
  have "modal_open overshoot_run"
    by (simp add: overshoot_run_def handle_files_def start_upload_def open_modal_def)
  then show ?thesis
    by (simp add: upload_view_def files_overshoot_run file_row_of_def)
qed

end
