(* ===== verification/Spec2Isabelle.thy ===== *)
theory Spec2Isabelle
  imports Dashboard_View Shell Detail Upload_View
begin

text \<open>
  \<^bold>\<open>A verification model of the contracts dashboard (src/src).\<close>

  \<^bold>\<open>The program.\<close>  A React single-page app.  \<open>services/api.js\<close> serves
  \<open>/contracts.json\<close> through \<open>contractsApi\<close> (\<open>getContracts\<close>,
  \<open>getContractById\<close>, \<open>searchContracts\<close>, \<open>filterContracts\<close>), mocks login
  (\<open>authApi\<close>) and a random upload (\<open>uploadApi\<close>).
  \<open>pages/ContractsDashboard.jsx\<close> loads the contracts once, keeps the search
  text, the facet selections and the current page in React state, and in an
  effect re-projects the list (\<open>applyFiltersAndSearch\<close>) whenever the contracts,
  the search text or the facets change, resetting the page to 1; the table shows
  ten rows of the projection per page.  \<open>contexts/AuthContext.jsx\<close> holds the
  session in a reducer and in \<open>localStorage\<close>; \<open>components/UploadModal.jsx\<close>
  keeps a list of files with an upload status each; \<open>pages/ContractDetailPage.jsx\<close>
  loads one contract by id; \<open>App.jsx\<close> and \<open>components/DashboardLayout.jsx\<close>
  route and lay out.

  \<^bold>\<open>The theories.\<close>
  \<^item> \<open>Prelude\<close>: the JavaScript built-ins the code calls, executable:
    \<open>to_lower\<close> (\<open>toLowerCase\<close>), \<open>js_trim\<close> (\<open>trim\<close>), \<open>str_includes\<close>
    (\<open>String.prototype.includes\<close>, proved equal to \<open>Sublist.sublist\<close>) and
    \<open>js_slice\<close> (\<open>Array.prototype.slice\<close> with negative and out-of-range
    bounds).  Strings are lists of \<open>char\<close>, one char per UTF-16 code unit, and
    the model covers units below 256 (Latin-1), where its case and white-space
    tables are exactly ECMAScript's.
  \<^item> \<open>Contracts\<close>: the \<open>contract\<close> record with its clauses, insights and
    evidence; \<open>search_match\<close> and \<open>facet_filter\<close>, the predicates
    \<open>api.js\<close> and the dashboard share; the four \<open>contractsApi\<close> endpoints, with a
    fetch as a value of \<open>fetch_response\<close> and every thrown error an \<open>Inl\<close>
    message (\<open>fetch_json\<close> for the body of each \<open>try\<close>, \<open>catch_rethrow\<close>
    for its \<open>catch\<close>).  The simulated \<open>delay\<close> is not modelled: it only
    postpones the result.
  \<^item> \<open>Filtering\<close>: the facet selections, \<open>handleFilterChange\<close> (as
    \<open>toggle_value\<close>), \<open>applyFiltersAndSearch\<close> (as
    \<open>apply_filters_and_search\<close>, three successive filters as in the code) and
    the badge and icon lookups.
  \<^item> \<open>Pagination\<close>: \<open>totalPages\<close>, \<open>startIndex\<close>, \<open>endIndex\<close>,
    \<open>currentContracts\<close>, \<open>goToPage\<close>, the page buttons and the summary line;
    page numbers are \<open>int\<close> as JavaScript numbers are, lengths \<open>nat\<close>.
  \<^item> \<open>Dashboard\<close>: the component's state as the record \<open>dashboard\<close>,
    its events as \<open>dash_event\<close>, \<open>handle_event\<close> (one equation per handler,
    returning whether an effect dependency changed) and \<open>dashboard_step\<close>
    (the handler, then the effect when a dependency changed); the reachable states
    are the inductive \<open>dash_reachable\<close> from \<open>dashboard_mounted\<close>.  A step is
    the state React settles in after the effect; the render in between, whose
    view is stale, is not modelled.
  \<^item> \<open>Dashboard_View\<close>: the dashboard's render as \<open>dashboard_view\<close>: skeleton,
    error box, then the results line, the empty state (with its hint) or the
    rows of the current page (\<open>contract_row\<close>: cells, badge classes, the View
    link), and the pagination bar (\<open>pager_of\<close>).
  \<^item> \<open>Js_Encoding\<close>: \<open>btoa\<close> (base64), \<open>JSON.stringify\<close> of strings
    (\<open>json_quote\<close>) and of integers (\<open>show_nat\<close>), which build the mock
    token, with decoders (\<open>atob\<close>, \<open>json_unquote\<close>) and their round trips.
  \<^item> \<open>Auth\<close>: \<open>authApi.login\<close> (\<open>auth_login\<close>: password check, token
    \<open>btoa(JSON.stringify({username, exp, iat}))\<close> with two clock readings, the
    user object); \<open>authReducer\<close> as \<open>auth_reducer\<close>; \<open>localStorage\<close> as
    \<open>session_store\<close>; the provider's restore effect, \<open>login\<close> (start and
    settlement) and \<open>logout\<close> as operations on \<open>auth_sys\<close>, with the
    reachable states \<open>auth_reachable\<close> of one page load.  \<open>JSON.parse\<close> is
    the parameter \<open>parse\<close>; the properties assume only that it inverts
    \<open>JSON.stringify\<close> on users, and \<open>parse_user_json\<close> is an instance.
    Its type \<open>js_string \<Rightarrow> user option\<close> reads a throw and any value that
    is not a user alike as \<open>None\<close>: a stored string that \<open>JSON.parse\<close>
    accepts as another value (\<open>42\<close>, \<open>null\<close>) is outside the model, where
    the code would dispatch that value as the user.
  \<^item> \<open>Upload\<close>: \<open>UploadModal.jsx\<close> with \<open>uploadApi.uploadFile\<close> and the
    open flag of \<open>AppLayout\<close>: the item list, the running progress intervals
    and the uploads in flight as the record \<open>upload_modal\<close>; \<open>handleFiles\<close>,
    \<open>uploadFile\<close> (split at its \<open>await\<close> into \<open>start_upload\<close> and the
    settlements \<open>upload_succeeded\<close> and \<open>upload_failed\<close>), an interval tick
    (\<open>progress_tick\<close>, \<open>Math.random()\<close> any real in \<open>[0, 1)\<close>),
    \<open>removeFile\<close>, \<open>handleClose\<close>, the drag handlers; the inductive
    \<open>upload_step\<close> interleaves them in any order, \<open>upload_reachable\<close>
    from \<open>initial_upload\<close>.
  \<^item> \<open>File_Size\<close>: \<open>formatFileSize\<close> of the same file as its formula over the
    reals (\<open>format_file_size\<close>, with \<open>ln\<close>); lemmas compute its exponent by
    repeated division (\<open>size_exponent\<close>) and the rounding of \<open>toFixed(2)\<close> in
    integers.  The quotient of the two logarithms is taken as exact: the double
    quotient agrees with it at and around every power of 1024 below
    \<open>1024 ^ 5\<close>, but from about \<open>1024 ^ 5 - 2\<close> bytes JavaScript's exponent is
    5 where the model's is 4, so the model is meant for sizes below that.
  \<^item> \<open>Upload_View\<close>: the dialog's render as \<open>upload_view\<close>: the drop zone,
    one row per item (icon, name, \<open>format_file_size\<close>, status text and colour,
    the progress bar while uploading) and the footer's count.
  \<^item> \<open>Detail\<close>: \<open>ContractDetailPage.jsx\<close>: its hooks and the ids of the
    \<open>getContractById\<close> calls in flight as the record \<open>detail_page\<close>;
    \<open>loadContract\<close> split at its \<open>await\<close> into \<open>load_contract\<close> and
    \<open>settle_load\<close>; the route's id (\<open>route_change\<close>), the evidence drawer
    (\<open>open_evidence_drawer\<close>, \<open>close_drawer\<close>); the render's early returns
    as \<open>detail_view\<close>; the badge, colour and percentage helpers.  The
    inductive \<open>detail_step\<close> lets calls in flight settle in any order.
  \<^item> \<open>Routing\<close>: the route table of \<open>App.jsx\<close> (\<open>resolve_route\<close>,
    matching non-empty path segments, static ones without regard to case, as
    React Router v6 does by default), the dashboard row's link
    (\<open>contract_link\<close>), and \<open>DashboardLayout.jsx\<close>'s sidebar items and
    handlers on the record \<open>layout\<close>; \<open>handleLogout\<close> calls the provider's
    \<open>logout\<close> of \<open>Auth\<close> and moves to \<open>/login\<close>.
  \<^item> \<open>Shell\<close>: \<open>AppLayout\<close>'s state (session, layout hooks and location,
    upload dialog) as \<open>shell\<close>; every \<open>onClick\<close> of the layout as
    \<open>layout_handle\<close>, drawn controls as \<open>layout_enabled\<close>; \<open>shell_step\<close>
    interleaves clicks on a layout route with the dialog's steps.
  \<^item> this theory: the properties that span components (the spec's scenarios,
    the dashboard pipeline against the API endpoints, the row link against the
    detail page) and the spec's well-formed record \<open>contract_wf\<close>.

  \<^bold>\<open>What is proved.\<close>  The projection equals one filter by the conjunction
  of the three sub-predicates (the spec's predicate composer), keeps the store's
  order and is case-insensitive; the pages behind the page buttons
  partition the view in order, each has one to ten rows, \<open>goToPage\<close> clamps;
  in every reachable dashboard state the view matches the state and the page is in
  range, so a non-empty view never shows an empty page; a failed load keeps the
  store; the endpoints' error paths collapse to one message each.  The login token
  decodes to its payload; every reducer action keeps the session fields
  consistent; in every reachable signed-in state a reload restores the same
  session, signing out from the layout clears it and shows the login route, and
  a stored user that does not parse is removed.
  In every reachable upload dialog each item's progress lies in \<open>[0, 110)\<close>
  and every upload in flight owns a running interval; choosing files appends
  them as uploading; a settlement after removal or closing changes nothing.
  On the detail page every loading state has a call in flight whose
  settlement ends the skeleton.  A row's link resolves to the detail route
  with the row's id; a settled reachable dashboard draws one to ten rows of the
  current page and marks exactly one page button current; signing out leaves
  the layout and only the provider's \<open>logout\<close> touches the session, while
  the upload dialog is kept.  The summary line counts exactly the rows of the
  current page and reads 1-0 of 0 only for an empty view; a blank query over an
  empty store shows the hint to adjust the search; the search endpoint and the
  filter endpoint return what the dashboard's projection shows for the same
  query or facets; a link built from an id of URL-safe characters (letters,
  digits, \<open>-._~\<close>, not \<open>.\<close> or \<open>..\<close>) opens that contract's page.
  A well-formed record renders every badge and a percentage
  in \<open>[0, 100]\<close>.  \<open>formatFileSize\<close> prints \<open>1024 ^ k\<close> bytes, for
  \<open>k = 2, 3, 4\<close>, as "1 MB", "1 GB" and "1 undefined", and one byte less as
  "1024" of the unit below; a positive size prints as a number in \<open>[1, 1024]\<close> with a known unit exactly
  below \<open>1024 ^ 4\<close>.  No loop of the program is unbounded: every function is
  structural recursion or, for \<open>size_exponent\<close>, recursion on \<open>n div 1024\<close>
  whose termination \<open>fun\<close> proves from its guard, so no fuel is needed.

  \<^bold>\<open>Where the code departs from the spec\<close> (see the findings of the
  manifest): a query of white space only is no filter (the guard trims, the match
  does not); \<open>totalPages\<close> is 0, not 1, for an empty view; the summary then
  reads "Showing 1-0 of 0"; \<open>getContractById\<close> reports a missing id as it
  reports a network failure; an unknown risk or status prints \<open>undefined\<close> into
  the badge's class list; a failed login attempt while signed in clears the
  session in the state but not in storage, so a reload signs the user in again;
  an uploading item can show "Uploading... 109%", and a failed upload never
  stops its progress interval; on the detail page a late response for the
  previous id replaces the contract of the current one, and an evidence drawer
  stays open across navigation, over a contract the evidence is not part of;
  on a contract's page no sidebar item is marked current; \<open>formatFileSize\<close>
  prints 1048575 bytes as "1024 KB" and a tebibyte as "1 undefined"; the
  upload dialog, kept outside the routes, survives signing out; its progress
  bar can be drawn wider than its track; a query of
  blanks filters nothing yet the empty state asks to adjust the search.

  \<^bold>\<open>Not modelled.\<close>  \<open>ProtectedRoute\<close> and \<open>LoginPage\<close>, which
  \<open>App.jsx\<close> imports but the repository does not contain (they are
  constructors of \<open>route_element\<close> and \<open>page\<close> only); the placeholder
  pages; React's reconciliation of the layout across routes.  The renders are
  modelled down to the data and the classes that depend on state; static markup
  and styling are not.  The simulated delays (\<open>delay\<close>, and with it the 200 ms
  of \<open>authApi.logout\<close>, whose result the provider ignores) are not modelled: a
  settlement is one step, and the order of steps is free.  Strings are 8-bit:
  \<open>toUpperCase\<close> of the two Latin-1 letters whose capitals lie beyond Latin-1 is
  not modelled.
\<close>

subsection \<open>Scenario fixtures\<close>

definition expired_high :: filter_state where
  "expired_high = \<lparr>status_filter = [''Expired''], risk_filter = [''High'']\<rparr>"

definition twenty_five_contracts :: "contract list" where
  "twenty_five_contracts =
     map (\<lambda>i::nat. sample_contract\<lparr>contract_id := ''c-'' @ [char_of (65 + i)]\<rparr>) [0..<25]"

text \<open>The spec's well-formed record (its section 3): status and risk from
  the fixed enumerations, confidences and relevances in \<open>[0, 1]\<close>.  The code
  does not check it.\<close>

definition contract_wf :: "contract \<Rightarrow> bool" where
  "contract_wf c \<longleftrightarrow>
     status c \<in> set status_values \<and> risk c \<in> set risk_values
     \<and> (\<forall>cl \<in> set (clauses c). 0 \<le> confidence cl \<and> confidence cl \<le> 1)
     \<and> (\<forall>e \<in> set (evidence c). 0 \<le> relevance e \<and> relevance e \<le> 1)"

subsection \<open>Properties across components\<close>

text \<open>C19 (functional).  Spec scenario A: a store of 25 contracts with no
  filters gives three pages; page 1 shows contracts 1-10, page 3 contracts 21-25.\<close>

theorem scenario_a_25_records:
  assumes "length cs = 25"
  shows "apply_filters_and_search cs [] empty_filters = cs
         \<and> total_pages (length (apply_filters_and_search cs [] empty_filters)) = 3
         \<and> current_contracts (apply_filters_and_search cs [] empty_filters) 1 = take 10 cs
         \<and> current_contracts (apply_filters_and_search cs [] empty_filters) 3 = drop 20 cs
         \<and> length (current_contracts (apply_filters_and_search cs [] empty_filters) 3) = 5"
proof -
  have v: "apply_filters_and_search cs [] empty_filters = cs"
    by (simp add: apply_filters_and_search_def empty_filters_def facet_filter_def js_trim_def)
  have p1: "current_contracts cs 1 = take 10 cs"
    using current_contracts_nat [of cs 0] by simp
  have p3: "current_contracts cs 3 = drop 20 cs"
    using current_contracts_nat [of cs 2] assms by simp
  show ?thesis using v p1 p3 assms by (simp add: total_pages_def items_per_page_def)
qed

text \<open>C24 (functional).  Spec scenario C: selecting status Expired and risk High
  keeps exactly the contracts with both; when none has both, the table is empty
  and \<open>totalPages\<close> is 0.\<close>

theorem scenario_c_facet_intersection:
  "apply_filters_and_search cs [] expired_high
     = filter (\<lambda>c. status c = ''Expired'' \<and> risk c = ''High'') cs
   \<and> (apply_filters_and_search cs [] expired_high = [] \<longrightarrow>
        total_pages (length (apply_filters_and_search cs [] expired_high)) = 0
        \<and> current_contracts (apply_filters_and_search cs [] expired_high) 1 = [])"
  by (simp add: apply_filters_and_search_def expired_high_def facet_filter_def js_trim_def
      current_contracts_def js_slice_def)

text \<open>C20 (equivalence).  Both API endpoints fetch \<open>/contracts.json\<close>; on the
  same successful response each agrees with the dashboard's in-memory projection
  on its part: \<open>searchContracts\<close> with the projection under no facet, for every
  query that is empty or has a non-blank character (for a query of blanks only
  the two differ, a finding), and \<open>filterContracts\<close> with both facets given
  with the projection under an empty query, for every selection.\<close>

theorem api_endpoints_match_dashboard:
  assumes "js_trim q \<noteq> [] \<or> q = []"
  shows "search_contracts q (Response True (Some cs)) = Inr (apply_filters_and_search cs q empty_filters)
         \<and> filter_contracts \<lparr>api_status = Some (status_filter f), api_risk = Some (risk_filter f)\<rparr>
             (Response True (Some cs)) = Inr (apply_filters_and_search cs [] f)"
proof -
  have "filter (search_match q) cs = (if js_trim q \<noteq> [] then filter (search_match q) cs else cs)"
    using assms by (auto simp: js_trim_def)
  then show ?thesis
    by (simp add: search_contracts_def filter_contracts_def fetch_json_def catch_rethrow_def opt_facet_def
        apply_filters_and_search_def facet_filter_def empty_filters_def js_trim_def)
qed

text \<open>C23 (functional).  The link of a row of the dashboard's table, for an id
  that is its own URL segment (\<open>url_safe_id\<close>: unreserved characters only, not
  a dot segment), resolves, signed in or not, to the detail route of the layout
  with that id, and the detail page mounted there requests exactly that id.\<close>

theorem contract_link_opens_detail:
  "url_safe_id cid \<Longrightarrow>
   resolve_route a (contract_link cid) = Some (Protected_layout (Detail_page cid)) \<and>
   route_id (detail_mounted cid) = cid \<and> pending (detail_mounted cid) = [cid]"
  using url_safe_id_segment[of cid]
  by (simp add: path_segments_contract_link resolve_route_def seg_eq_def detail_mounted_def
        load_contract_def)

text \<open>C26 (type).  A record that is well formed in the spec's sense renders
  without a gap on both pages: every style lookup of the dashboard's and the
  detail page's badges finds its key (so no class list ends in \<open>undefined\<close>),
  the information block has a status icon, and every clause and evidence card
  of the detail page has its bar width and its percentage label in
  \<open>[0, 100]\<close>.\<close>

theorem contract_wf_renders:
  "contract_wf c \<Longrightarrow>
   template_value (status_styles (status c)) \<noteq> ''undefined'' \<and>
   template_value (risk_styles (risk c)) \<noteq> ''undefined'' \<and>
   info_icon (contract_info_of c) \<noteq> None \<and>
   (\<forall>cc \<in> set (map clause_card_of (clauses c)).
      0 \<le> cc_width cc \<and> cc_width cc \<le> 100 \<and> 0 \<le> cc_percent cc \<and> cc_percent cc \<le> 100) \<and>
   (\<forall>ec \<in> set (map evidence_card_of (evidence c)).
      0 \<le> ec_width ec \<and> ec_width ec \<le> 100 \<and> 0 \<le> ec_percent ec \<and> ec_percent ec \<le> 100)"
  unfolding contract_wf_def
  by (auto simp: status_values_def risk_values_def status_styles_def risk_styles_def template_value_def
      get_status_icon_def contract_info_of_def clause_card_of_def evidence_card_of_def percent_label_range)

subsection \<open>Witnesses\<close>

theorem contract_wf_renders_witness:
  "template_value (status_styles ''Active'') \<noteq> ''undefined'' \<and>
   template_value (risk_styles ''Low'') \<noteq> ''undefined'' \<and>
   info_icon (contract_info_of contract_a) \<noteq> None \<and>
   0 \<le> ec_width (evidence_card_of evidence_a) \<and> ec_width (evidence_card_of evidence_a) \<le> 100 \<and>
   0 \<le> ec_percent (evidence_card_of evidence_a) \<and> ec_percent (evidence_card_of evidence_a) \<le> 100"
  using contract_wf_renders[of contract_a]
  by (simp add: contract_wf_def contract_a_def evidence_a_def status_values_def risk_values_def)

theorem scenario_a_25_records_witness:
  "length twenty_five_contracts = 25
   \<and> current_contracts (apply_filters_and_search twenty_five_contracts [] empty_filters) 3
     = drop 20 twenty_five_contracts"
proof -
  have h: "length twenty_five_contracts = 25" by (simp add: twenty_five_contracts_def)
  from scenario_a_25_records [OF h]
  have "current_contracts (apply_filters_and_search twenty_five_contracts [] empty_filters) 3
        = drop 20 twenty_five_contracts" by blast
  with h show ?thesis by blast
qed

theorem scenario_c_facet_intersection_witness:
  "apply_filters_and_search [sample_contract] [] expired_high = []
   \<and> total_pages (length (apply_filters_and_search [sample_contract] [] expired_high)) = 0"
proof -
  have h: "apply_filters_and_search [sample_contract] [] expired_high = []"
    by (simp add: apply_filters_and_search_def expired_high_def facet_filter_def js_trim_def
        sample_contract_def)
  show ?thesis using scenario_c_facet_intersection [of "[sample_contract]"] h by simp
qed

theorem contract_link_opens_detail_witness:
  "resolve_route True (contract_link ''c-001'') = Some (Protected_layout (Detail_page ''c-001'')) \<and>
   route_id (detail_mounted ''c-001'') = ''c-001'' \<and> pending (detail_mounted ''c-001'') = [''c-001'']"
  by (rule contract_link_opens_detail) (simp add: url_safe_id_def url_unreserved_def)

theorem api_endpoints_match_dashboard_witness:
  "search_contracts ''acme'' (Response True (Some [sample_contract]))
     = Inr (apply_filters_and_search [sample_contract] ''acme'' empty_filters)
   \<and> filter_contracts \<lparr>api_status = Some [''Active''], api_risk = Some []\<rparr> (Response True (Some [sample_contract]))
     = Inr (apply_filters_and_search [sample_contract] [] \<lparr>status_filter = [''Active''], risk_filter = []\<rparr>)"
proof -
  have "js_trim ''acme'' \<noteq> [] \<or> ''acme'' = []" by (simp add: js_trim_def is_js_space_def)
  from api_endpoints_match_dashboard[OF this, of "[sample_contract]" "\<lparr>status_filter = [''Active''], risk_filter = []\<rparr>"]
  show ?thesis by simp
qed

end
